theory Spec2Isabelle
  imports Complex_Main "HOL-Library.Word"
begin

unbundle bit_operations_syntax

section \<open>JavaScript values used by the audio code\<close>

text \<open>
  A JavaScript string is a sequence of 16-bit code units. String literals of the source
  are ASCII and are written through \<open>js\<close>. A JavaScript number that holds a sample, a
  clock time or a duration is modelled as a real: the codec only scales by the power of
  two 32768, truncates and divides by 32768 again, which is exact on the values of a
  \<open>Float32Array\<close>.
\<close>

type_synonym jsstring = "16 word list"
type_synonym byte = "8 word"

definition js :: "string \<Rightarrow> jsstring" where
  "js s = map (\<lambda>c. of_nat (of_char c)) s"

datatype error = InvalidCharacterError | RangeError | NotSupportedError | TypeError

subsection \<open>The browser's \<open>btoa\<close> and \<open>atob\<close>\<close>

definition b64char :: "nat \<Rightarrow> 16 word" where
  "b64char n =
     (if n < 26 then of_nat (65 + n)
      else if n < 52 then of_nat (97 + (n - 26))
      else if n < 62 then of_nat (48 + (n - 52))
      else if n = 62 then 43 else 47)"

fun btoa_groups :: "nat list \<Rightarrow> jsstring" where
  "btoa_groups (a # b # c # r) =
     [b64char (a div 4), b64char ((a mod 4) * 16 + b div 16),
      b64char ((b mod 16) * 4 + c div 64), b64char (c mod 64)] @ btoa_groups r"
| "btoa_groups [a, b] =
     [b64char (a div 4), b64char ((a mod 4) * 16 + b div 16), b64char ((b mod 16) * 4), 61]"
| "btoa_groups [a] = [b64char (a div 4), b64char ((a mod 4) * 16), 61, 61]"
| "btoa_groups [] = []"

definition btoa :: "jsstring \<Rightarrow> error + jsstring" where
  "btoa s =
     (if list_all (\<lambda>c. c \<le> 255) s then Inr (btoa_groups (map unat s))
      else Inl InvalidCharacterError)"

definition b64val :: "16 word \<Rightarrow> nat option" where
  "b64val c =
     (let n = unat c in
      if 65 \<le> n \<and> n \<le> 90 then Some (n - 65)
      else if 97 \<le> n \<and> n \<le> 122 then Some (n - 97 + 26)
      else if 48 \<le> n \<and> n \<le> 57 then Some (n - 48 + 52)
      else if n = 43 then Some 62
      else if n = 47 then Some 63
      else None)"

definition isAsciiWhitespace :: "16 word \<Rightarrow> bool" where
  "isAsciiWhitespace c = (c = 9 \<or> c = 10 \<or> c = 12 \<or> c = 13 \<or> c = 32)"

definition stripPadding :: "jsstring \<Rightarrow> jsstring" where
  "stripPadding d =
     (if length d mod 4 = 0 then
        (case rev d of
           p # q # t \<Rightarrow> if p = 61 \<and> q = 61 then rev t else if p = 61 then rev (q # t) else d
         | _ \<Rightarrow> d)
      else d)"

fun atob_groups :: "nat list \<Rightarrow> nat list" where
  "atob_groups (a # b # c # d # r) =
     [a * 4 + b div 16, (b mod 16) * 16 + c div 4, (c mod 4) * 64 + d] @ atob_groups r"
| "atob_groups [a, b, c] = [a * 4 + b div 16, (b mod 16) * 16 + c div 4]"
| "atob_groups [a, b] = [a * 4 + b div 16]"
| "atob_groups _ = []"

fun those_vals :: "16 word list \<Rightarrow> nat list option" where
  "those_vals [] = Some []"
| "those_vals (c # cs) =
     (case b64val c of
        None \<Rightarrow> None
      | Some v \<Rightarrow> (case those_vals cs of None \<Rightarrow> None | Some vs \<Rightarrow> Some (v # vs)))"

definition atob :: "jsstring \<Rightarrow> error + jsstring" where
  "atob s =
     (let d = stripPadding (filter (\<lambda>c. \<not> isAsciiWhitespace c) s) in
      if length d mod 4 = 1 then Inl InvalidCharacterError
      else (case those_vals d of
              None \<Rightarrow> Inl InvalidCharacterError
            | Some vs \<Rightarrow> Inr (map of_nat (atob_groups vs))))"

section \<open>Audio codec utilities (Conversation.tsx)\<close>

definition decode :: "jsstring \<Rightarrow> error + byte list" where
  "decode base64 =
     (case atob base64 of
        Inl e \<Rightarrow> Inl e
      | Inr binaryString \<Rightarrow> Inr (map ucast binaryString))"

definition encode :: "byte list \<Rightarrow> error + jsstring" where
  "encode bytes = btoa (map ucast bytes)"

text \<open>
  Storing a number into an \<open>Int16Array\<close> applies ToInt16: the number is truncated
  towards zero and reduced modulo \<open>2 ^ 16\<close>. The array's buffer is read back as bytes in
  little-endian order.
\<close>

definition toInt16 :: "real \<Rightarrow> 16 word" where
  "toInt16 x = word_of_int (if x < 0 then - \<lfloor>- x\<rfloor> else \<lfloor>x\<rfloor>)"

definition int16_buffer :: "16 word list \<Rightarrow> byte list" where
  "int16_buffer ws = concat (map (\<lambda>w. [ucast w, ucast (drop_bit 8 w)]) ws)"

record Blob =
  data :: jsstring
  mimeType :: jsstring

definition createBlob :: "real list \<Rightarrow> error + Blob" where
  "createBlob samples =
     (let int16 = map (\<lambda>x. toInt16 (x * 32768)) samples in
      case encode (int16_buffer int16) of
        Inl e \<Rightarrow> Inl e
      | Inr d \<Rightarrow> Inr \<lparr>data = d, mimeType = js ''audio/pcm;rate=16000''\<rparr>)"

fun int16_view :: "byte list \<Rightarrow> 16 word list" where
  "int16_view (lo # hi # bs) = (ucast lo OR push_bit 8 (ucast hi)) # int16_view bs"
| "int16_view _ = []"

record AudioBuffer =
  sampleRate :: real
  channelData :: "real list list"

definition duration :: "AudioBuffer \<Rightarrow> real" where
  "duration b =
     (case channelData b of [] \<Rightarrow> 0 | ch # _ \<Rightarrow> real (length ch) / sampleRate b)"

text \<open>
  \<open>createBuffer\<close> of the Web Audio API throws NotSupportedError when the channel count,
  the frame count or the sample rate is zero. A fractional frame count is truncated.
\<close>

definition decodeAudioData :: "byte list \<Rightarrow> real \<Rightarrow> nat \<Rightarrow> error + AudioBuffer" where
  "decodeAudioData bytes rate numChannels =
     (if odd (length bytes) then Inl RangeError
      else
        (let dataInt16 = int16_view bytes;
             frameCount = length dataInt16 div numChannels
         in if numChannels = 0 \<or> frameCount = 0 \<or> rate \<le> 0 then Inl NotSupportedError
            else Inr \<lparr>sampleRate = rate,
                      channelData =
                        map (\<lambda>channel.
                               map (\<lambda>i. real_of_int (sint (dataInt16 ! (i * numChannels + channel)))
                                         / 32768)
                                   [0..<frameCount])
                            [0..<numChannels]\<rparr>))"

text \<open>
  Capture encoding followed by playback decoding, as one block of samples travels from
  \<open>createBlob\<close> through the base64 text to \<open>decodeAudioData\<close> with one channel. The
  sample rate only labels the buffer.
\<close>

definition roundTrip :: "real list \<Rightarrow> error + real list list" where
  "roundTrip samples =
     (case createBlob samples of
        Inl e \<Rightarrow> Inl e
      | Inr blob \<Rightarrow>
          (case decode (data blob) of
             Inl e \<Rightarrow> Inl e
           | Inr bytes \<Rightarrow>
               (case decodeAudioData bytes 16000 1 of
                  Inl e \<Rightarrow> Inl e
                | Inr buffer \<Rightarrow> Inr (channelData buffer))))"

section \<open>The live sessions: shared browser state\<close>

text \<open>
  Both streaming components hold nullable references to browser objects. An object is a
  handle (a number); the browser's side of it is kept in sets: the media streams whose
  tracks are live, the script processors still connected, the audio contexts not yet
  closed, and the streaming sessions that were opened and not closed. \<open>scheduled\<close>
  lists every \<open>source.start(t)\<close> with the source, the start time and the duration of
  its buffer; \<open>stopped\<close> holds the sources on which \<open>stop()\<close> was called.
  \<open>API_KEY\<close> is \<open>process.env.API_KEY\<close>. \<open>pendingUserMedia\<close> counts the calls of the
  start handler that are suspended at \<open>getUserMedia\<close>: each of them resumes once.
\<close>

record Live =
  API_KEY :: "jsstring option"
  pendingUserMedia :: nat
  nextHandle :: nat
  liveStreams :: "nat set"
  tappedProcessors :: "nat set"
  openContexts :: "nat set"
  openSessions :: "nat set"
  scheduled :: "(nat \<times> real \<times> real) list"
  stopped :: "nat set"
  error :: "jsstring option"
  sessionPromiseRef :: "nat option"
  scriptProcessorRef :: "nat option"
  mediaStreamRef :: "nat option"

text \<open>A string is falsy when it is undefined or empty.\<close>

definition truthy :: "jsstring option \<Rightarrow> bool" where
  "truthy v = (case v of None \<Rightarrow> False | Some s \<Rightarrow> s \<noteq> [])"

definition release :: "nat option \<Rightarrow> nat set \<Rightarrow> nat set" where
  "release r live = (case r of None \<Rightarrow> live | Some h \<Rightarrow> live - {h})"

text \<open>What a \<open>catch\<close> block receives: an \<open>Error\<close> with its message, or another value.\<close>

datatype caught = ErrorWith jsstring | NotAnError

definition errorMessage :: "caught \<Rightarrow> jsstring" where
  "errorMessage err =
     (case err of ErrorWith m \<Rightarrow> m | NotAnError \<Rightarrow> js ''An unknown error occurred.'')"

text \<open>
  An \<open>async\<close> handler either ran to its end or is suspended: at \<open>getUserMedia\<close>, at
  the response to a \<open>generateContent\<close> request sent to the named model, at the key
  selection dialog of the hosting page, at the \<open>fetch\<close> of an image, or at the load of
  a local image.
\<close>

datatype pending =
    Finished
  | AwaitGetUserMedia
  | AwaitGenerateContent jsstring
  | AwaitKeySelection
  | AwaitFetch jsstring
  | AwaitImageLoad

subsection \<open>\<open>String.prototype.trim\<close>\<close>

definition isWhiteSpace :: "16 word \<Rightarrow> bool" where
  "isWhiteSpace c =
     (let n = unat c in
      (9 \<le> n \<and> n \<le> 13) \<or> n = 32 \<or> n = 160 \<or> n = 5760 \<or> (8192 \<le> n \<and> n \<le> 8202)
      \<or> n = 8232 \<or> n = 8233 \<or> n = 8239 \<or> n = 8287 \<or> n = 12288 \<or> n = 65279)"

definition trim :: "jsstring \<Rightarrow> jsstring" where
  "trim s = rev (dropWhile isWhiteSpace (rev (dropWhile isWhiteSpace s)))"

section \<open>The live conversation controller (Conversation.tsx)\<close>

datatype Status = Idle | Connecting | Listening | Thinking

datatype Role = User | Model

record ConversationEntry =
  role :: Role
  entryText :: jsstring

text \<open>
  The two text buffers are typed as strings, but \<open>onmessage\<close> stores the \<open>text\<close> of a
  transcription unchecked, and that property is optional: a buffer holds a string or
  \<open>undefined\<close> (\<open>None\<close>).
\<close>

record Conversation = Live +
  status :: Status
  conversation :: "ConversationEntry list"
  inputAudioContextRef :: "nat option"
  outputAudioContextRef :: "nat option"
  nextStartTimeRef :: real
  audioSourcesRef :: "nat set"
  currentInputTextRef :: "jsstring option"
  currentOutputTextRef :: "jsstring option"

text \<open>
  \<open>cleanup\<close> stops the tracks of the stream, disconnects the processor, closes both
  contexts and the session, and clears the references. The session's \<open>close\<close> runs when
  the connection promise resolves; the model closes it at once.
\<close>

definition cleanup :: "Conversation \<Rightarrow> Conversation" where
  "cleanup s =
     s\<lparr>liveStreams := release (mediaStreamRef s) (liveStreams s),
       tappedProcessors := release (scriptProcessorRef s) (tappedProcessors s),
       openContexts :=
         release (outputAudioContextRef s) (release (inputAudioContextRef s) (openContexts s)),
       openSessions := release (sessionPromiseRef s) (openSessions s),
       mediaStreamRef := None,
       scriptProcessorRef := None,
       inputAudioContextRef := None,
       outputAudioContextRef := None,
       sessionPromiseRef := None\<rparr>"

text \<open>The \<open>catch\<close> block of \<open>handleStart\<close>.\<close>

definition startFailed :: "caught \<Rightarrow> Conversation \<Rightarrow> Conversation" where
  "startFailed err s =
     cleanup (s\<lparr>error := Some (js ''Failed to start conversation: '' @ errorMessage err),
                status := Idle\<rparr>)"

text \<open>
  \<open>handleStart\<close> up to its only \<open>await\<close>, the request for the microphone. The handler
  is a closure of the render that created it: the \<open>status\<close> its guard tests is the status
  of that render, here the first argument, not the status the controller has when the
  handler runs. The state setters and the references act on the current state.
\<close>

definition handleStart :: "Status \<Rightarrow> Conversation \<Rightarrow> pending \<times> Conversation" where
  "handleStart renderedStatus s =
     (if renderedStatus \<noteq> Idle then (Finished, s)
      else
        (let s1 = s\<lparr>status := Connecting,
                     error := None,
                     conversation := [],
                     currentInputTextRef := Some [],
                     currentOutputTextRef := Some [],
                     nextStartTimeRef := 0\<rparr>
         in if \<not> truthy (API_KEY s1)
            then (Finished,
                  startFailed (ErrorWith (js ''API_KEY environment variable not set.'')) s1)
            else (AwaitGetUserMedia, s1\<lparr>pendingUserMedia := pendingUserMedia s1 + 1\<rparr>)))"

text \<open>
  The rest of \<open>handleStart\<close>, run when the \<open>getUserMedia\<close> of a suspended call settles:
  rejected with what it threw, or resolved with a fresh stream. On success the two audio
  contexts are created and \<open>ai.live.connect\<close> opens the session. Without a suspended
  call there is nothing to resume.
\<close>

definition handleStart_resume :: "caught + unit \<Rightarrow> Conversation \<Rightarrow> Conversation" where
  "handleStart_resume outcome s =
     (if pendingUserMedia s = 0 then s
      else
        (let s1 = s\<lparr>pendingUserMedia := pendingUserMedia s - 1\<rparr> in
         case outcome of
           Inl err \<Rightarrow> startFailed err s1
         | Inr _ \<Rightarrow>
             (let h = nextHandle s1 in
              s1\<lparr>mediaStreamRef := Some h,
                 liveStreams := insert h (liveStreams s1),
                 inputAudioContextRef := Some (h + 1),
                 outputAudioContextRef := Some (h + 2),
                 openContexts := insert (h + 1) (insert (h + 2) (openContexts s1)),
                 sessionPromiseRef := Some (h + 3),
                 openSessions := insert (h + 3) (openSessions s1),
                 nextHandle := h + 4\<rparr>)))"

text \<open>
  \<open>handleStop\<close> as the rendered Stop button calls it: the button belongs to the current
  render, so the status its guard tests is the current one.
\<close>

definition handleStop :: "Conversation \<Rightarrow> Conversation" where
  "handleStop s = (if status s = Idle then s else (cleanup s)\<lparr>status := Idle\<rparr>)"

definition onopen :: "Conversation \<Rightarrow> Conversation" where
  "onopen s =
     (let s1 = s\<lparr>status := Listening\<rparr> in
      if inputAudioContextRef s1 = None \<or> mediaStreamRef s1 = None then s1
      else
        (let p = nextHandle s1 in
         s1\<lparr>scriptProcessorRef := Some p,
            tappedProcessors := insert p (tappedProcessors s1),
            nextHandle := p + 1\<rparr>))"

definition onclose :: "Conversation \<Rightarrow> Conversation" where
  "onclose s = s\<lparr>status := Idle\<rparr>"

text \<open>\<open>source.onended\<close> of a playback source.\<close>

definition onended :: "nat \<Rightarrow> Conversation \<Rightarrow> Conversation" where
  "onended source s = s\<lparr>audioSourcesRef := audioSourcesRef s - {source}\<rparr>"

subsection \<open>Server messages\<close>

text \<open>
  The parts of \<open>message.serverContent\<close> that \<open>onmessage\<close> reads: the two
  transcriptions, \<open>modelTurn?.parts?.[0]?.inlineData?.data\<close>, and the two flags. Of a
  transcription the handler reads the \<open>text\<close>, which may be \<open>undefined\<close>.
\<close>

type_synonym Transcription = "jsstring option"

record ServerContent =
  inputTranscription :: "Transcription option"
  outputTranscription :: "Transcription option"
  inlineData :: "jsstring option"
  interrupted :: bool
  turnComplete :: bool

type_synonym LiveServerMessage = "ServerContent option"

definition takeTranscriptions :: "ServerContent \<Rightarrow> Conversation \<Rightarrow> Conversation" where
  "takeTranscriptions c s =
     (let s1 = (case inputTranscription c of
                  None \<Rightarrow> s
                | Some t \<Rightarrow> s\<lparr>currentInputTextRef := t\<rparr>)
      in case outputTranscription c of
           None \<Rightarrow> s1
         | Some t \<Rightarrow> s1\<lparr>currentOutputTextRef := t, status := Thinking\<rparr>)"

text \<open>Scheduling one decoded buffer at the playback clock time \<open>currentTime\<close>.\<close>

definition schedule :: "real \<Rightarrow> AudioBuffer \<Rightarrow> Conversation \<Rightarrow> Conversation" where
  "schedule currentTime audioBuffer s =
     (let source = nextHandle s;
          startTime = max currentTime (nextStartTimeRef s)
      in s\<lparr>nextHandle := source + 1,
           scheduled := scheduled s @ [(source, startTime, duration audioBuffer)],
           nextStartTimeRef := startTime + duration audioBuffer,
           audioSourcesRef := insert source (audioSourcesRef s)\<rparr>)"

definition playAudio :: "real \<Rightarrow> ServerContent \<Rightarrow> Conversation \<Rightarrow> error + Conversation" where
  "playAudio currentTime c s =
     (if truthy (inlineData c) \<and> outputAudioContextRef s \<noteq> None then
        (case decode (case inlineData c of Some d \<Rightarrow> d | None \<Rightarrow> []) of
           Inl e \<Rightarrow> Inl e
         | Inr bytes \<Rightarrow>
             (case decodeAudioData bytes 24000 1 of
                Inl e \<Rightarrow> Inl e
              | Inr audioBuffer \<Rightarrow> Inr (schedule currentTime audioBuffer s)))
      else Inr s)"

definition interrupt :: "Conversation \<Rightarrow> Conversation" where
  "interrupt s =
     s\<lparr>stopped := stopped s \<union> audioSourcesRef s,
       audioSourcesRef := {},
       nextStartTimeRef := 0\<rparr>"

text \<open>
  The turn-complete block. \<open>trim\<close> is called on each buffer, the user's first, and throws
  a TypeError on \<open>undefined\<close>, before anything is changed.
\<close>

definition completeTurn :: "Conversation \<Rightarrow> error + Conversation" where
  "completeTurn s =
     (case currentInputTextRef s of
        None \<Rightarrow> Inl TypeError
      | Some inputText \<Rightarrow>
          (case currentOutputTextRef s of
             None \<Rightarrow> Inl TypeError
           | Some outputText \<Rightarrow>
               (let userTurn = \<lparr>role = User, entryText = trim inputText\<rparr>;
                    modelTurn = \<lparr>role = Model, entryText = trim outputText\<rparr>;
                    s1 = (if entryText userTurn \<noteq> [] \<or> entryText modelTurn \<noteq> []
                          then s\<lparr>conversation := conversation s @ [userTurn, modelTurn]\<rparr>
                          else s)
                in Inr (s1\<lparr>currentInputTextRef := Some [],
                           currentOutputTextRef := Some [],
                           status := Listening\<rparr>))))"

definition endTurn :: "ServerContent \<Rightarrow> Conversation \<Rightarrow> error option \<times> Conversation" where
  "endTurn c s =
     (if turnComplete c then
        (case completeTurn s of
           Inl e \<Rightarrow> (Some e, s)
         | Inr s1 \<Rightarrow> (None, s1))
      else (None, s))"

text \<open>
  \<open>onmessage\<close>, with the playback clock at the time of the message. The handler's
  only \<open>await\<close> is on \<open>decodeAudioData\<close>, which suspends nowhere itself, so the handler
  resumes before the next message is delivered and a message is handled as a whole. An
  exception rejects the handler's promise: the later steps do not run, and the state is
  as the earlier steps left it.
\<close>

definition onmessage ::
  "real \<Rightarrow> LiveServerMessage \<Rightarrow> Conversation \<Rightarrow> error option \<times> Conversation" where
  "onmessage currentTime message s =
     (case message of
        None \<Rightarrow> (None, s)
      | Some c \<Rightarrow>
          (let s1 = takeTranscriptions c s in
           case playAudio currentTime c s1 of
             Inl e \<Rightarrow> (Some e, s1)
           | Inr s2 \<Rightarrow> endTurn c (if interrupted c then interrupt s2 else s2)))"

subsection \<open>Events of the controller\<close>

text \<open>
  \<open>Start\<close> is a call of \<open>handleStart\<close> by a handler whose render had the given
  status.
\<close>

datatype Event =
    Start Status
  | StartResumed "caught + unit"
  | Stop
  | Open
  | Close
  | Ended nat
  | Message real LiveServerMessage

fun fire :: "Event \<Rightarrow> Conversation \<Rightarrow> Conversation" where
  "fire (Start renderedStatus) s = snd (handleStart renderedStatus s)"
| "fire (StartResumed outcome) s = handleStart_resume outcome s"
| "fire Stop s = handleStop s"
| "fire Open s = onopen s"
| "fire Close s = onclose s"
| "fire (Ended source) s = onended source s"
| "fire (Message currentTime message) s = snd (onmessage currentTime message s)"

fun run :: "Event list \<Rightarrow> Conversation \<Rightarrow> Conversation" where
  "run [] s = s"
| "run (e # es) s = run es (fire e s)"

text \<open>A message that carries no interruption.\<close>

fun uninterrupted :: "Event \<Rightarrow> bool" where
  "uninterrupted (Message currentTime (Some c)) = (\<not> interrupted c)"
| "uninterrupted (Message currentTime None) = True"
| "uninterrupted _ = False"

text \<open>Each scheduled entry starts no earlier than the end of the entry before it.\<close>

fun backToBack :: "(nat \<times> real \<times> real) list \<Rightarrow> bool" where
  "backToBack ((a, sa, da) # (b, sb, db) # rest) =
     (sa + da \<le> sb \<and> backToBack ((b, sb, db) # rest))"
| "backToBack _ = True"

text \<open>
  The log as the turn commits build it: pairs of a user entry and a model entry, at
  least one of the two with text.
\<close>

fun committedTurns :: "ConversationEntry list \<Rightarrow> bool" where
  "committedTurns [] = True"
| "committedTurns (u # m # rest) =
     (role u = User \<and> role m = Model \<and> (entryText u \<noteq> [] \<or> entryText m \<noteq> [])
      \<and> committedTurns rest)"
| "committedTurns [u] = False"

section \<open>The live transcriber (AudioTranscriber in ImageEditor.tsx)\<close>

record Transcriber = Live +
  isRecording :: bool
  transcription :: jsstring
  interimTranscript :: "jsstring option"
  audioContextRef :: "nat option"
  currentTurnTextRef :: "jsstring option"

definition cleanup_transcriber :: "Transcriber \<Rightarrow> Transcriber" where
  "cleanup_transcriber s =
     (let s1 = (case mediaStreamRef s of
                  None \<Rightarrow> s
                | Some m \<Rightarrow> s\<lparr>liveStreams := liveStreams s - {m}, mediaStreamRef := None\<rparr>);
          s2 = (case scriptProcessorRef s1 of
                  None \<Rightarrow> s1
                | Some p \<Rightarrow>
                    s1\<lparr>tappedProcessors := tappedProcessors s1 - {p},
                       scriptProcessorRef := None\<rparr>);
          s3 = (case audioContextRef s2 of
                  None \<Rightarrow> s2
                | Some c \<Rightarrow>
                    if c \<in> openContexts s2
                    then s2\<lparr>openContexts := openContexts s2 - {c}, audioContextRef := None\<rparr>
                    else s2)
      in case sessionPromiseRef s3 of
           None \<Rightarrow> s3
         | Some p \<Rightarrow> s3\<lparr>openSessions := openSessions s3 - {p}, sessionPromiseRef := None\<rparr>)"

definition recordingFailed :: "caught \<Rightarrow> Transcriber \<Rightarrow> Transcriber" where
  "recordingFailed err s =
     cleanup_transcriber
       (s\<lparr>error := Some (js ''Failed to start recording: '' @ errorMessage err),
          isRecording := False\<rparr>)"

text \<open>
  As in the conversation, the guard of \<open>handleStartRecording\<close> tests the \<open>isRecording\<close>
  of the render that created the handler, the first argument.
\<close>

definition handleStartRecording :: "bool \<Rightarrow> Transcriber \<Rightarrow> pending \<times> Transcriber" where
  "handleStartRecording renderedIsRecording s =
     (if renderedIsRecording then (Finished, s)
      else
        (let s1 = s\<lparr>isRecording := True,
                     error := None,
                     transcription := [],
                     interimTranscript := Some [],
                     currentTurnTextRef := Some []\<rparr>
         in if \<not> truthy (API_KEY s1)
            then (Finished,
                  recordingFailed (ErrorWith (js ''API_KEY environment variable not set.'')) s1)
            else (AwaitGetUserMedia, s1\<lparr>pendingUserMedia := pendingUserMedia s1 + 1\<rparr>)))"

definition handleStartRecording_resume :: "caught + unit \<Rightarrow> Transcriber \<Rightarrow> Transcriber" where
  "handleStartRecording_resume outcome s =
     (if pendingUserMedia s = 0 then s
      else
        (let s1 = s\<lparr>pendingUserMedia := pendingUserMedia s - 1\<rparr> in
         case outcome of
           Inl err \<Rightarrow> recordingFailed err s1
         | Inr _ \<Rightarrow>
             (let h = nextHandle s1 in
              s1\<lparr>mediaStreamRef := Some h,
                 liveStreams := insert h (liveStreams s1),
                 audioContextRef := Some (h + 1),
                 openContexts := insert (h + 1) (openContexts s1),
                 sessionPromiseRef := Some (h + 2),
                 openSessions := insert (h + 2) (openSessions s1),
                 nextHandle := h + 3\<rparr>)))"

definition handleStopRecording :: "Transcriber \<Rightarrow> Transcriber" where
  "handleStopRecording s =
     (if \<not> isRecording s then s else cleanup_transcriber (s\<lparr>isRecording := False\<rparr>))"

text \<open>
  The transcriber's \<open>onmessage\<close>. The partial text is stored unchecked; at the turn end
  \<open>trim\<close> throws a TypeError when the buffer holds \<open>undefined\<close>, and the state stays as
  the first step left it.
\<close>

definition onmessage_transcriber ::
  "LiveServerMessage \<Rightarrow> Transcriber \<Rightarrow> error option \<times> Transcriber" where
  "onmessage_transcriber message s =
     (case message of
        None \<Rightarrow> (None, s)
      | Some c \<Rightarrow>
          (let s1 = (case inputTranscription c of
                       None \<Rightarrow> s
                     | Some partialText \<Rightarrow>
                         s\<lparr>interimTranscript := partialText,
                           currentTurnTextRef := partialText\<rparr>)
           in if turnComplete c then
                (case currentTurnTextRef s1 of
                   None \<Rightarrow> (Some TypeError, s1)
                 | Some turnText \<Rightarrow>
                     (let finalTurnText = trim turnText;
                          s2 = (if finalTurnText \<noteq> []
                                then s1\<lparr>transcription :=
                                           transcription s1
                                           @ (if transcription s1 \<noteq> [] then js [CHR 0x0A] else [])
                                           @ finalTurnText\<rparr>
                                else s1)
                      in (None, s2\<lparr>currentTurnTextRef := Some [], interimTranscript := Some []\<rparr>)))
              else (None, s1)))"

section \<open>The playable container (createWavUrl in TTS.tsx)\<close>

text \<open>
  The \<open>DataView\<close> is a list of bytes. \<open>setUint32\<close> and \<open>setUint16\<close> store their value
  modulo \<open>2 ^ 32\<close> and \<open>2 ^ 16\<close>, little-endian. Every offset written below lies inside
  the 44 bytes of the header, so no write is out of range.
\<close>

definition setUint8 :: "nat \<Rightarrow> nat \<Rightarrow> byte list \<Rightarrow> byte list" where
  "setUint8 offset v view = view[offset := of_nat (v mod 256)]"

definition setUint16 :: "nat \<Rightarrow> nat \<Rightarrow> byte list \<Rightarrow> byte list" where
  "setUint16 offset v view =
     (let w = v mod 2 ^ 16 in
      view[offset := of_nat (w mod 256), offset + 1 := of_nat (w div 256)])"

definition setUint32 :: "nat \<Rightarrow> nat \<Rightarrow> byte list \<Rightarrow> byte list" where
  "setUint32 offset v view =
     (let w = v mod 2 ^ 32 in
      view[offset := of_nat (w mod 256),
           offset + 1 := of_nat (w div 256 mod 256),
           offset + 2 := of_nat (w div 65536 mod 256),
           offset + 3 := of_nat (w div 16777216)])"

definition writeString :: "nat \<Rightarrow> string \<Rightarrow> byte list \<Rightarrow> byte list" where
  "writeString offset str view =
     fold (\<lambda>i v. setUint8 (offset + i) (of_char (str ! i)) v) [0..<length str] view"

text \<open>\<open>new Uint8Array(buffer, offset).set(source)\<close>.\<close>

definition setBytes :: "nat \<Rightarrow> byte list \<Rightarrow> byte list \<Rightarrow> byte list" where
  "setBytes offset source buffer =
     take offset buffer @ source @ drop (offset + length source) buffer"

definition wavBuffer :: "byte list \<Rightarrow> byte list" where
  "wavBuffer pcmData =
     (let rate = 24000;
          numChannels = 1;
          bitsPerSample = 16;
          dataSize = length pcmData;
          blockAlign = (numChannels * bitsPerSample) div 8;
          byteRate = rate * blockAlign;
          view = replicate (44 + dataSize) 0;
          view = writeString 0 ''RIFF'' view;
          view = setUint32 4 (36 + dataSize) view;
          view = writeString 8 ''WAVE'' view;
          view = writeString 12 ''fmt '' view;
          view = setUint32 16 16 view;
          view = setUint16 20 1 view;
          view = setUint16 22 numChannels view;
          view = setUint32 24 rate view;
          view = setUint32 28 byteRate view;
          view = setUint16 32 blockAlign view;
          view = setUint16 34 bitsPerSample view;
          view = writeString 36 ''data'' view;
          view = setUint32 40 dataSize view
      in setBytes 44 pcmData view)"

text \<open>The bytes of the blob behind the object URL that \<open>createWavUrl\<close> returns.\<close>

definition createWavUrl :: "jsstring \<Rightarrow> error + byte list" where
  "createWavUrl base64PcmData =
     (case atob base64PcmData of
        Inl e \<Rightarrow> Inl e
      | Inr binaryString \<Rightarrow> Inr (wavBuffer (map ucast binaryString)))"

text \<open>Reading the header back, as a player does.\<close>

definition getUint16 :: "nat \<Rightarrow> byte list \<Rightarrow> nat" where
  "getUint16 offset view = unat (view ! offset) + 256 * unat (view ! (offset + 1))"

definition getUint32 :: "nat \<Rightarrow> byte list \<Rightarrow> nat" where
  "getUint32 offset view =
     unat (view ! offset) + 256 * unat (view ! (offset + 1))
     + 65536 * unat (view ! (offset + 2)) + 16777216 * unat (view ! (offset + 3))"

definition ascii :: "string \<Rightarrow> byte list" where
  "ascii str = map (\<lambda>c. of_nat (of_char c)) str"

section \<open>One-shot generation calls (geminiService.ts)\<close>

text \<open>
  Each function of the service is modelled up to its \<open>await\<close> of
  \<open>ai.models.generateContent\<close>: either it throws before (its promise is rejected with
  what was thrown), or the request is sent; of the request the model name is kept. The
  argument is \<open>process.env.API_KEY\<close> as read at the call.
\<close>

datatype call = Rejected caught | Requested jsstring

definition extractPromptFromImage :: "jsstring option \<Rightarrow> call" where
  "extractPromptFromImage key =
     (if \<not> truthy key then Rejected (ErrorWith (js ''API_KEY environment variable not set.''))
      else Requested (js ''gemini-3-flash-preview''))"

definition generativeResize :: "jsstring option \<Rightarrow> call" where
  "generativeResize key =
     (if \<not> truthy key then Rejected (ErrorWith (js ''API_KEY not set.''))
      else Requested (js ''gemini-2.5-flash-image''))"

definition editImage :: "jsstring option \<Rightarrow> call" where
  "editImage key =
     (if \<not> truthy key then Rejected (ErrorWith (js ''API_KEY not set.''))
      else Requested (js ''gemini-2.5-flash-image''))"

definition faceSwap :: "jsstring option \<Rightarrow> call" where
  "faceSwap key =
     (if \<not> truthy key then Rejected (ErrorWith (js ''API_KEY not set.''))
      else Requested (js ''gemini-3-pro-image-preview''))"

definition generateImageFromText :: "jsstring option \<Rightarrow> jsstring \<Rightarrow> call" where
  "generateImageFromText key aspectRatio =
     (if \<not> truthy key then Rejected (ErrorWith (js ''API_KEY not set.''))
      else Requested (if aspectRatio = js ''4096x832'' then js ''gemini-3-pro-image-preview''
                      else js ''gemini-2.5-flash-image''))"

definition generateSpeech :: "jsstring option \<Rightarrow> call" where
  "generateSpeech key =
     (if \<not> truthy key then Rejected (ErrorWith (js ''API_KEY not set.''))
      else Requested (js ''gemini-2.5-flash-preview-tts''))"

definition upscaleImage :: "jsstring option \<Rightarrow> call" where
  "upscaleImage key =
     (if \<not> truthy key then Rejected (ErrorWith (js ''API_KEY not set.''))
      else Requested (js ''gemini-2.5-flash-image''))"

definition generateImageFromElements :: "jsstring option \<Rightarrow> call" where
  "generateImageFromElements key =
     (if \<not> truthy key then Rejected (ErrorWith (js ''API_KEY not set.''))
      else Requested (js ''gemini-2.5-flash-image''))"

definition restyleImage :: "jsstring option \<Rightarrow> call" where
  "restyleImage key =
     (if \<not> truthy key then Rejected (ErrorWith (js ''API_KEY not set.''))
      else Requested (js ''gemini-2.5-flash-image''))"

definition virtualTryOn :: "jsstring option \<Rightarrow> call" where
  "virtualTryOn key =
     (if \<not> truthy key then Rejected (ErrorWith (js ''API_KEY not set.''))
      else Requested (js ''gemini-2.5-flash-image''))"

definition virtualTryOnMultiple :: "jsstring option \<Rightarrow> call" where
  "virtualTryOnMultiple key =
     (if \<not> truthy key then Rejected (ErrorWith (js ''API_KEY not set.''))
      else Requested (js ''gemini-2.5-flash-image''))"

subsection \<open>The callers in the text-to-speech component (TTS.tsx)\<close>

record TTS =
  text_TTS :: jsstring
  isLoading :: bool
  isPreviewing :: bool
  error_TTS :: "jsstring option"
  audioUrl :: "byte list option"

text \<open>
  Both handlers up to the response of the speech request. \<open>handlePreview\<close> catches a
  failure and writes it to the console only; \<open>handleGenerateSpeech\<close> puts it into the
  component's error state, which is rendered.
\<close>

definition handlePreview :: "jsstring option \<Rightarrow> TTS \<Rightarrow> pending \<times> TTS" where
  "handlePreview key t =
     (if isPreviewing t then (Finished, t)
      else
        (let t1 = t\<lparr>isPreviewing := True\<rparr> in
         case generateSpeech key of
           Rejected e \<Rightarrow> (Finished, t1\<lparr>isPreviewing := False\<rparr>)
         | Requested m \<Rightarrow> (AwaitGenerateContent m, t1)))"

definition handleGenerateSpeech :: "jsstring option \<Rightarrow> TTS \<Rightarrow> pending \<times> TTS" where
  "handleGenerateSpeech key t =
     (if text_TTS t = []
      then (Finished, t\<lparr>error_TTS := Some (js ''Please enter some text to generate speech.'')\<rparr>)
      else
        (let t1 = t\<lparr>isLoading := True, error_TTS := None, audioUrl := None\<rparr> in
         case generateSpeech key of
           Rejected e \<Rightarrow>
             (Finished,
              t1\<lparr>error_TTS := Some (js ''Speech generation failed: '' @ errorMessage e),
                 isLoading := False\<rparr>)
         | Requested m \<Rightarrow> (AwaitGenerateContent m, t1)))"

subsection \<open>The callers in the image panels\<close>

text \<open>
  An uploaded image, and the three pieces of state every image panel renders: the busy
  flag, the error message, and the result (\<open>editedImage\<close>, \<open>generatedImage\<close>,
  \<open>upscaledImage\<close>, \<open>resizedImage\<close>, \<open>resultImage\<close>; in the prompt extractor the
  \<open>extractedText\<close>, whose empty value is the empty string).
\<close>

record ImageFile =
  base64 :: jsstring
  mimeType :: jsstring
  name :: jsstring

record Panel =
  isLoading_Panel :: bool
  error_Panel :: "jsstring option"
  result_Panel :: "jsstring option"

text \<open>
  Each handler is modelled up to the response of its generation request. The state a
  handler reads (the uploaded images, the prompt, the modes) is the state of the render
  that created it and is passed as arguments after the key; the setters act on the
  panel. A rejected call is caught by the handler, and \<open>finally\<close> clears the busy flag.
\<close>

text \<open>\<open>ImageEditor\<close> (ImageEditor.tsx).\<close>

definition handleGenerateClick_ImageEditor ::
  "jsstring option \<Rightarrow> ImageFile option \<Rightarrow> jsstring \<Rightarrow> Panel \<Rightarrow> pending \<times> Panel" where
  "handleGenerateClick_ImageEditor key originalImage prompt p =
     (if originalImage = None \<or> prompt = []
      then (Finished,
            p\<lparr>error_Panel := Some (js ''Please upload an image and provide an editing prompt.'')\<rparr>)
      else
        (let p1 = p\<lparr>isLoading_Panel := True, error_Panel := None, result_Panel := None\<rparr> in
         case editImage key of
           Rejected e \<Rightarrow>
             (Finished,
              p1\<lparr>error_Panel := Some (js ''Generation failed: '' @ errorMessage e),
                 isLoading_Panel := False\<rparr>)
         | Requested m \<Rightarrow> (AwaitGenerateContent m, p1)))"

text \<open>\<open>ImageEffects\<close> (ImageEditor.tsx); an effect is kept as its prompt.\<close>

definition handleGenerateClick_ImageEffects ::
  "jsstring option \<Rightarrow> ImageFile option \<Rightarrow> jsstring option \<Rightarrow> Panel \<Rightarrow> pending \<times> Panel" where
  "handleGenerateClick_ImageEffects key originalImage selectedEffect p =
     (if originalImage = None \<or> selectedEffect = None
      then (Finished, p\<lparr>error_Panel := Some (js ''Please upload an image and select an effect.'')\<rparr>)
      else
        (let p1 = p\<lparr>isLoading_Panel := True, error_Panel := None, result_Panel := None\<rparr> in
         case editImage key of
           Rejected e \<Rightarrow>
             (Finished,
              p1\<lparr>error_Panel := Some (js ''Generation failed: '' @ errorMessage e),
                 isLoading_Panel := False\<rparr>)
         | Requested m \<Rightarrow> (AwaitGenerateContent m, p1)))"

text \<open>\<open>ImageReferenceGenerator\<close> (ImageEditor.tsx), its three modes.\<close>

definition handleGenerate ::
  "jsstring option \<Rightarrow> ImageFile list \<Rightarrow> ImageFile list \<Rightarrow> ImageFile list \<Rightarrow> Panel
   \<Rightarrow> pending \<times> Panel" where
  "handleGenerate key subjectImages sceneImages styleImages p =
     (if length subjectImages = 0 \<and> length sceneImages = 0 \<and> length styleImages = 0
      then (Finished, p\<lparr>error_Panel := Some (js ''Please upload at least one image element.'')\<rparr>)
      else
        (let p1 = p\<lparr>isLoading_Panel := True, error_Panel := None, result_Panel := None\<rparr> in
         case generateImageFromElements key of
           Rejected e \<Rightarrow>
             (Finished,
              p1\<lparr>error_Panel := Some (js ''Generation failed: '' @ errorMessage e),
                 isLoading_Panel := False\<rparr>)
         | Requested m \<Rightarrow> (AwaitGenerateContent m, p1)))"

definition handleRestyleGenerate ::
  "jsstring option \<Rightarrow> ImageFile list \<Rightarrow> ImageFile list \<Rightarrow> Panel \<Rightarrow> pending \<times> Panel" where
  "handleRestyleGenerate key restyleOriginalImage restyleStyleImage p =
     (if length restyleOriginalImage = 0 \<or> length restyleStyleImage = 0
      then (Finished,
            p\<lparr>error_Panel := Some (js ''Please upload an original image and a style image.'')\<rparr>)
      else
        (let p1 = p\<lparr>isLoading_Panel := True, error_Panel := None, result_Panel := None\<rparr> in
         case restyleImage key of
           Rejected e \<Rightarrow>
             (Finished,
              p1\<lparr>error_Panel := Some (js ''Generation failed: '' @ errorMessage e),
                 isLoading_Panel := False\<rparr>)
         | Requested m \<Rightarrow> (AwaitGenerateContent m, p1)))"

text \<open>
  The text-to-image mode. For the aspect ratio \<open>4096x832\<close> the handler first asks the
  hosting page whether a key was selected, when the page offers that
  (\<open>hasSelectedApiKey\<close>), and is suspended there; whatever comes of it, an exception is
  caught and logged, and the handler goes on to the generation call.
\<close>

definition handleTextToImageGenerate_call ::
  "jsstring option \<Rightarrow> jsstring \<Rightarrow> Panel \<Rightarrow> pending \<times> Panel" where
  "handleTextToImageGenerate_call key aspectRatio p1 =
     (case generateImageFromText key aspectRatio of
        Rejected e \<Rightarrow>
          (Finished,
           p1\<lparr>error_Panel := Some (js ''Generation failed: '' @ errorMessage e),
              isLoading_Panel := False\<rparr>)
      | Requested m \<Rightarrow> (AwaitGenerateContent m, p1))"

definition handleTextToImageGenerate ::
  "jsstring option \<Rightarrow> jsstring \<Rightarrow> jsstring \<Rightarrow> bool \<Rightarrow> Panel \<Rightarrow> pending \<times> Panel" where
  "handleTextToImageGenerate key prompt aspectRatio hasSelectedApiKey p =
     (if prompt = []
      then (Finished, p\<lparr>error_Panel := Some (js ''Please enter a prompt to generate an image.'')\<rparr>)
      else
        (let p1 = p\<lparr>isLoading_Panel := True, error_Panel := None, result_Panel := None\<rparr> in
         if aspectRatio = js ''4096x832'' \<and> hasSelectedApiKey
         then (AwaitKeySelection, p1)
         else handleTextToImageGenerate_call key aspectRatio p1))"

definition handleTextToImageGenerate_resume ::
  "jsstring option \<Rightarrow> jsstring \<Rightarrow> Panel \<Rightarrow> pending \<times> Panel" where
  "handleTextToImageGenerate_resume key aspectRatio p1 =
     handleTextToImageGenerate_call key aspectRatio p1"

text \<open>\<open>ImageUpscaler\<close> (ImageUpscaler.tsx).\<close>

definition handleUpscaleClick ::
  "jsstring option \<Rightarrow> ImageFile option \<Rightarrow> Panel \<Rightarrow> pending \<times> Panel" where
  "handleUpscaleClick key originalImage p =
     (if originalImage = None
      then (Finished, p\<lparr>error_Panel := Some (js ''Please upload an image to upscale.'')\<rparr>)
      else
        (let p1 = p\<lparr>isLoading_Panel := True, error_Panel := None, result_Panel := None\<rparr> in
         case upscaleImage key of
           Rejected e \<Rightarrow>
             (Finished,
              p1\<lparr>error_Panel := Some (js ''Upscaling failed: '' @ errorMessage e),
                 isLoading_Panel := False\<rparr>)
         | Requested m \<Rightarrow> (AwaitGenerateContent m, p1)))"

text \<open>
  \<open>PromptExtractor\<close> (PromptExtractor.tsx). The media is a video, of which
  \<open>captureFrame\<close> takes a frame or fails (\<open>None\<close>), or an image. The message of the
  first guard comes from the translation table and is a parameter. A caught error is
  shown with its own message and no prefix.
\<close>

datatype Media = VideoMedia jsstring | ImageMedia ImageFile

definition handleExtract ::
  "jsstring option \<Rightarrow> jsstring \<Rightarrow> Media option \<Rightarrow> ImageFile option \<Rightarrow> Panel
   \<Rightarrow> pending \<times> Panel" where
  "handleExtract key errorUpload media captureFrame p =
     (case media of
        None \<Rightarrow> (Finished, p\<lparr>error_Panel := Some errorUpload\<rparr>)
      | Some m \<Rightarrow>
          (let imageToProcess = (case m of VideoMedia url \<Rightarrow> captureFrame
                                         | ImageMedia imageFile \<Rightarrow> Some imageFile)
           in if imageToProcess = None
              then (Finished, p\<lparr>error_Panel := Some (js ''Could not process media.'')\<rparr>)
              else
                (let p1 = p\<lparr>isLoading_Panel := True, error_Panel := None,
                            result_Panel := Some []\<rparr>
                 in case extractPromptFromImage key of
                      Rejected e \<Rightarrow>
                        (Finished,
                         p1\<lparr>error_Panel :=
                              Some (case e of ErrorWith msg \<Rightarrow> msg
                                            | NotAnError \<Rightarrow> js ''Analysis failed.''),
                            isLoading_Panel := False\<rparr>)
                    | Requested model \<Rightarrow> (AwaitGenerateContent model, p1))))"

text \<open>
  \<open>ImageSizer\<close> (ImageSizer.tsx). \<open>parseInt(str, 10)\<close> skips leading white space, reads
  an optional sign and the decimal digits that follow, and is \<open>NaN\<close> (\<open>None\<close>) without a
  digit; the handler uses the number only to compare it with 0, so it is kept as an
  integer. The standard mode makes no remote call: it loads the image locally.
\<close>

definition isDigit :: "16 word \<Rightarrow> bool" where
  "isDigit c = (48 \<le> unat c \<and> unat c \<le> 57)"

definition parseInt :: "jsstring \<Rightarrow> int option" where
  "parseInt str =
     (let s = dropWhile isWhiteSpace str;
          negative = (s \<noteq> [] \<and> hd s = of_nat (of_char CHR ''-''));
          signed = (s \<noteq> [] \<and> (hd s = of_nat (of_char CHR ''-'') \<or> hd s = of_nat (of_char CHR ''+'')));
          digits = takeWhile isDigit (if signed then tl s else s);
          magnitude = foldl (\<lambda>acc d. 10 * acc + (int (unat d) - 48)) 0 digits
      in if digits = [] then None
         else Some (if negative then - magnitude else magnitude))"

datatype ResizeMode = Ai | Standard

definition handleResize ::
  "jsstring option \<Rightarrow> jsstring \<Rightarrow> jsstring \<Rightarrow> ImageFile option \<Rightarrow> jsstring \<Rightarrow> jsstring
   \<Rightarrow> ResizeMode \<Rightarrow> Panel \<Rightarrow> pending \<times> Panel" where
  "handleResize key errorUpload errorDimensions originalImage width height mode p =
     (if originalImage = None then (Finished, p\<lparr>error_Panel := Some errorUpload\<rparr>)
      else
        (case (parseInt width, parseInt height) of
           (Some targetWidth, Some targetHeight) \<Rightarrow>
             (if targetWidth \<le> 0 \<or> targetHeight \<le> 0
              then (Finished, p\<lparr>error_Panel := Some errorDimensions\<rparr>)
              else
                (let p1 = p\<lparr>isLoading_Panel := True, error_Panel := None,
                            result_Panel := None\<rparr>
                 in case mode of
                      Ai \<Rightarrow>
                        (case generativeResize key of
                           Rejected e \<Rightarrow>
                             (Finished,
                              p1\<lparr>error_Panel :=
                                   Some (case e of ErrorWith msg \<Rightarrow> msg
                                                 | NotAnError \<Rightarrow> js ''AI resize failed.''),
                                 isLoading_Panel := False\<rparr>)
                         | Requested model \<Rightarrow> (AwaitGenerateContent model, p1))
                    | Standard \<Rightarrow> (AwaitImageLoad, p1)))
         | _ \<Rightarrow> (Finished, p\<lparr>error_Panel := Some errorDimensions\<rparr>)))"

text \<open>
  \<open>VirtualTryOn\<close> (TTS.tsx). With an uploaded model the handler goes straight to the
  garment checks; with a preset model it first fetches the preset image
  (\<open>urlToImageFile\<close>) and is suspended there. The rest of the \<open>try\<close> block runs with
  the model image so obtained; where it returns early the busy flag is cleared twice, by
  the branch and by \<open>finally\<close>.
\<close>

datatype ModelMode = Default | Upload

datatype GarmentMode = Single | Multiple

definition handleGenerateClick_tryOn ::
  "jsstring option \<Rightarrow> ImageFile option \<Rightarrow> GarmentMode \<Rightarrow> ImageFile option \<Rightarrow> ImageFile list
   \<Rightarrow> Panel \<Rightarrow> pending \<times> Panel" where
  "handleGenerateClick_tryOn key finalModelImageFile garmentMode garmentImage multipleGarments p1 =
     (let failed = (\<lambda>e. (Finished,
                          p1\<lparr>error_Panel := Some (js ''Generation failed: '' @ errorMessage e),
                             isLoading_Panel := False\<rparr>))
      in if finalModelImageFile = None
         then (Finished,
               p1\<lparr>error_Panel := Some (js ''A model image is required.''),
                  isLoading_Panel := False\<rparr>)
         else
           (case garmentMode of
              Single \<Rightarrow>
                (if garmentImage = None
                 then (Finished,
                       p1\<lparr>error_Panel := Some (js ''Please upload a garment image.''),
                          isLoading_Panel := False\<rparr>)
                 else (case virtualTryOn key of
                         Rejected e \<Rightarrow> failed e
                       | Requested m \<Rightarrow> (AwaitGenerateContent m, p1)))
            | Multiple \<Rightarrow>
                (if length multipleGarments = 0
                 then (Finished,
                       p1\<lparr>error_Panel :=
                            Some (js ''Please upload at least one garment image for the outfit.''),
                          isLoading_Panel := False\<rparr>)
                 else (case virtualTryOnMultiple key of
                         Rejected e \<Rightarrow> failed e
                       | Requested m \<Rightarrow> (AwaitGenerateContent m, p1)))))"

definition handleGenerateClick_VirtualTryOn ::
  "jsstring option \<Rightarrow> ModelMode \<Rightarrow> ImageFile option \<Rightarrow> jsstring \<Rightarrow> GarmentMode
   \<Rightarrow> ImageFile option \<Rightarrow> ImageFile list \<Rightarrow> Panel \<Rightarrow> pending \<times> Panel" where
  "handleGenerateClick_VirtualTryOn key modelMode uploadedModel selectedModelUrl garmentMode
     garmentImage multipleGarments p =
     (let p1 = p\<lparr>isLoading_Panel := True, error_Panel := None, result_Panel := None\<rparr> in
      case modelMode of
        Upload \<Rightarrow>
          handleGenerateClick_tryOn key uploadedModel garmentMode garmentImage multipleGarments p1
      | Default \<Rightarrow> (AwaitFetch selectedModelUrl, p1))"

text \<open>
  The handler resumed when \<open>urlToImageFile\<close> settled: rejected with what it threw, or
  resolved with the image.
\<close>

definition handleGenerateClick_VirtualTryOn_resume ::
  "jsstring option \<Rightarrow> caught + ImageFile \<Rightarrow> GarmentMode \<Rightarrow> ImageFile option \<Rightarrow> ImageFile list
   \<Rightarrow> Panel \<Rightarrow> pending \<times> Panel" where
  "handleGenerateClick_VirtualTryOn_resume key outcome garmentMode garmentImage multipleGarments
     p1 =
     (case outcome of
        Inl e \<Rightarrow>
          (Finished,
           p1\<lparr>error_Panel := Some (js ''Generation failed: '' @ errorMessage e),
              isLoading_Panel := False\<rparr>)
      | Inr imageFile \<Rightarrow>
          handleGenerateClick_tryOn key (Some imageFile) garmentMode garmentImage multipleGarments
            p1)"

text \<open>
  \<open>FaceSwap\<close> (icons/GarmentUploadIcon.tsx). The panel also keeps whether a key was
  selected on the hosting page; the handler tests the value of its render. Without a
  selected key it shows the message of the translation table (a parameter) and opens the
  key selector, when the hosting page has one; it does not call the service.
  \<open>includes_str\<close> is \<open>String.prototype.includes\<close>.
\<close>

record FaceSwap = Panel +
  hasKey :: bool

fun includes_str :: "jsstring \<Rightarrow> jsstring \<Rightarrow> bool" where
  "includes_str [] searchString = (searchString = [])"
| "includes_str (c # rest) searchString =
     (take (length searchString) (c # rest) = searchString \<or> includes_str rest searchString)"

definition handleSwapClick ::
  "jsstring option \<Rightarrow> jsstring \<Rightarrow> bool \<Rightarrow> bool \<Rightarrow> ImageFile option \<Rightarrow> ImageFile option
   \<Rightarrow> FaceSwap \<Rightarrow> pending \<times> FaceSwap" where
  "handleSwapClick key errorKey openSelectKey renderedHasKey sourceFace targetImage p =
     (if \<not> renderedHasKey
      then (if openSelectKey then AwaitKeySelection else Finished,
            p\<lparr>error_Panel := Some errorKey\<rparr>)
      else if sourceFace = None \<or> targetImage = None
      then (Finished, p\<lparr>error_Panel := Some (js ''Please upload both images.'')\<rparr>)
      else
        (let p1 = p\<lparr>isLoading_Panel := True, error_Panel := None, result_Panel := None\<rparr> in
         case faceSwap key of
           Rejected e \<Rightarrow>
             (let errorMessage = (case e of ErrorWith msg \<Rightarrow> msg
                                          | NotAnError \<Rightarrow> js ''Unknown error'');
                  p2 = p1\<lparr>error_Panel := Some (js ''Error: '' @ errorMessage)\<rparr>;
                  p3 = (if includes_str errorMessage (js ''entity was not found'')
                        then p2\<lparr>hasKey := False\<rparr> else p2)
              in (Finished, p3\<lparr>isLoading_Panel := False\<rparr>))
         | Requested m \<Rightarrow> (AwaitGenerateContent m, p1)))"

text \<open>
  The handler resumed when the key selector settled (\<open>handleOpenKeySelector\<close>): the key
  counts as selected, or the failure is shown.
\<close>

definition handleSwapClick_resume :: "caught + unit \<Rightarrow> FaceSwap \<Rightarrow> FaceSwap" where
  "handleSwapClick_resume outcome p =
     (case outcome of
        Inl e \<Rightarrow> p\<lparr>error_Panel := Some (js ''Error opening key selector.'')\<rparr>
      | Inr _ \<Rightarrow> p\<lparr>hasKey := True\<rparr>)"

section \<open>Initial states and auxiliary notions\<close>

text \<open>The states the components mount with (\<open>useState\<close> and \<open>useRef\<close> defaults).\<close>

definition initialConversation :: "jsstring option \<Rightarrow> Conversation" where
  "initialConversation key =
     \<lparr>API_KEY = key, pendingUserMedia = 0, nextHandle = 0, liveStreams = {}, tappedProcessors = {},
      openContexts = {}, openSessions = {}, scheduled = [], stopped = {}, error = None,
      sessionPromiseRef = None, scriptProcessorRef = None, mediaStreamRef = None,
      status = Idle, conversation = [], inputAudioContextRef = None,
      outputAudioContextRef = None, nextStartTimeRef = 0, audioSourcesRef = {},
      currentInputTextRef = Some [], currentOutputTextRef = Some []\<rparr>"

definition initialTranscriber :: "jsstring option \<Rightarrow> Transcriber" where
  "initialTranscriber key =
     \<lparr>API_KEY = key, pendingUserMedia = 0, nextHandle = 0, liveStreams = {}, tappedProcessors = {},
      openContexts = {}, openSessions = {}, scheduled = [], stopped = {}, error = None,
      sessionPromiseRef = None, scriptProcessorRef = None, mediaStreamRef = None,
      isRecording = False, transcription = [], interimTranscript = Some [],
      audioContextRef = None, currentTurnTextRef = Some []\<rparr>"

definition initialTTS :: TTS where
  "initialTTS =
     \<lparr>text_TTS = [], isLoading = False, isPreviewing = False, error_TTS = None,
      audioUrl = None\<rparr>"

definition initialPanel :: Panel where
  "initialPanel = \<lparr>isLoading_Panel = False, error_Panel = None, result_Panel = None\<rparr>"

definition initialFaceSwap :: FaceSwap where
  "initialFaceSwap =
     \<lparr>isLoading_Panel = False, error_Panel = None, result_Panel = None, hasKey = False\<rparr>"

text \<open>A panel after a failed generation: not busy, the message shown, no result.\<close>

definition failedWith :: "jsstring \<Rightarrow> 'a Panel_scheme \<Rightarrow> 'a Panel_scheme" where
  "failedWith message p =
     p\<lparr>isLoading_Panel := False, error_Panel := Some message, result_Panel := None\<rparr>"

definition sampleImage :: ImageFile where
  "sampleImage =
     \<lparr>base64 = js ''data:image/png;base64,AA=='', mimeType = js ''image/png'',
      name = js ''a.png''\<rparr>"

text \<open>A conversation that was started with a key, got its microphone and was opened.\<close>

definition listeningConversation :: Conversation where
  "listeningConversation =
     run [Start Idle, StartResumed (Inr ()), Open] (initialConversation (Some (js ''key'')))"

text \<open>The end time of the last scheduled entry.\<close>

fun endOfLast :: "(nat \<times> real \<times> real) list \<Rightarrow> real option" where
  "endOfLast [] = None"
| "endOfLast [(a, sa, da)] = Some (sa + da)"
| "endOfLast (x # y # rest) = endOfLast (y # rest)"

text \<open>
  From position \<open>k\<close> on the scheduled entries are back to back, and the last of them ends
  no later than the watermark.
\<close>

definition chained :: "nat \<Rightarrow> Conversation \<Rightarrow> bool" where
  "chained k s =
     (k \<le> length (scheduled s) \<and> backToBack (drop k (scheduled s))
      \<and> (case endOfLast (drop k (scheduled s)) of
            None \<Rightarrow> True
          | Some e \<Rightarrow> e \<le> nextStartTimeRef s))"

text \<open>An event that brings no audio chunk and starts or ends no session.\<close>

fun silent :: "Event \<Rightarrow> bool" where
  "silent (Message currentTime (Some c)) = (\<not> truthy (inlineData c))"
| "silent (Message currentTime None) = True"
| "silent (Ended source) = True"
| "silent _ = False"

text \<open>Sample messages: a chunk of two frames, an interruption, partial texts, a turn end.\<close>

definition emptyContent :: ServerContent where
  "emptyContent =
     \<lparr>inputTranscription = None, outputTranscription = None, inlineData = None,
      interrupted = False, turnComplete = False\<rparr>"

definition chunkContent :: ServerContent where
  "chunkContent = emptyContent\<lparr>inlineData := Some (js ''AIAAAA=='')\<rparr>"

definition interruptContent :: ServerContent where
  "interruptContent = emptyContent\<lparr>interrupted := True\<rparr>"

definition badInterruptContent :: ServerContent where
  "badInterruptContent = emptyContent\<lparr>inlineData := Some (js ''!''), interrupted := True\<rparr>"

definition twoFrames :: AudioBuffer where
  "twoFrames = \<lparr>sampleRate = 24000, channelData = [[- 1, 0]]\<rparr>"

text \<open>The listening conversation after one chunk arrived at clock time 1.\<close>

definition playingConversation :: Conversation where
  "playingConversation = snd (onmessage 1 (Some chunkContent) listeningConversation)"

text \<open>A turn end together with the user's partial text, and a turn end alone.\<close>

definition turnContent :: ServerContent where
  "turnContent = emptyContent\<lparr>inputTranscription := Some (Some (js '' hi '')), turnComplete := True\<rparr>"

definition bareTurnContent :: ServerContent where
  "bareTurnContent = emptyContent\<lparr>turnComplete := True\<rparr>"

text \<open>
  The same turn end with a chunk that is no base64 text, and a turn end whose
  transcription has no text.
\<close>

definition badTurnContent :: ServerContent where
  "badTurnContent = turnContent\<lparr>inlineData := Some (js ''!'')\<rparr>"

definition textlessTurnContent :: ServerContent where
  "textlessTurnContent = emptyContent\<lparr>inputTranscription := Some None, turnComplete := True\<rparr>"

text \<open>Idle components that still show what an earlier session left behind.\<close>

definition staleConversation :: Conversation where
  "staleConversation =
     (initialConversation (Some (js ''key'')))
       \<lparr>conversation := [\<lparr>role = User, entryText = js ''hi''\<rparr>,
                          \<lparr>role = Model, entryText = []\<rparr>],
        error := Some (js ''old''),
        currentInputTextRef := Some (js ''again''),
        nextStartTimeRef := 7\<rparr>"

definition staleTranscriber :: Transcriber where
  "staleTranscriber =
     (initialTranscriber (Some (js ''key'')))
       \<lparr>transcription := js ''hi'', error := Some (js ''old'')\<rparr>"

text \<open>
  The header as the container format lays it out for a payload of \<open>n\<close> bytes of 16-bit
  mono PCM at 24000 Hz: the tags, the sizes and the format fields, little-endian.
\<close>

definition le16 :: "nat \<Rightarrow> byte list" where
  "le16 v = [of_nat (v mod 256), of_nat (v div 256 mod 256)]"

definition le32 :: "nat \<Rightarrow> byte list" where
  "le32 v =
     [of_nat (v mod 256), of_nat (v div 256 mod 256), of_nat (v div 65536 mod 256),
      of_nat (v div 16777216 mod 256)]"

definition wavHeader :: "nat \<Rightarrow> byte list" where
  "wavHeader n =
     ascii ''RIFF'' @ le32 (36 + n) @ ascii ''WAVE''
     @ ascii ''fmt '' @ le32 16 @ le16 1 @ le16 1 @ le32 24000 @ le32 48000 @ le16 2 @ le16 16
     @ ascii ''data'' @ le32 n"

section \<open>Verified properties\<close>

subsection \<open>Base64 text framing\<close>

lemma unat_small: "m < 65536 \<Longrightarrow> unat (word_of_nat m :: 16 word) = m"
  by (rule of_nat_inverse) simp_all

lemma b64char_unat:
  assumes "n < 64"
  shows "unat (b64char n)
      = (if n < 26 then 65 + n else if n < 52 then 71 + n else if n < 62 then n - 4
         else if n = 62 then 43 else 47)"
proof -
  have "b64char n
      = word_of_nat (if n < 26 then 65 + n else if n < 52 then 71 + n else if n < 62 then n - 4
         else if n = 62 then 43 else 47)"
    by (simp add: b64char_def)
  also have "unat \<dots> = (if n < 26 then 65 + n else if n < 52 then 71 + n else if n < 62 then n - 4
         else if n = 62 then 43 else 47)"
    using assms by (intro unat_small) (simp, arith)
  finally show ?thesis .
qed

lemma b64char_facts:
  assumes "n < 64"
  shows "b64val (b64char n) = Some n"
    and "b64char n \<noteq> 61"
    and "\<not> isAsciiWhitespace (b64char n)"
proof -
  note u = b64char_unat [OF assms]
  show "b64val (b64char n) = Some n"
    using assms by (auto simp add: b64val_def u Let_def)
  have "unat (b64char n) \<noteq> 61"
    using assms by (auto simp add: u)
  then show "b64char n \<noteq> 61"
    by auto
  have "unat (b64char n) \<notin> {9, 10, 12, 13, 32}"
    using assms by (auto simp add: u)
  then show "\<not> isAsciiWhitespace (b64char n)"
    by (auto simp add: isAsciiWhitespace_def)
qed

lemma pad_facts: "\<not> isAsciiWhitespace 61" "b64val 61 = None"
  by (simp_all add: isAsciiWhitespace_def b64val_def)

lemma stripPadding_append:
  assumes "length xs mod 4 = 0" and "length ys mod 4 = 0" and "ys \<noteq> []"
  shows "stripPadding (xs @ ys) = xs @ stripPadding ys"
proof -
  from assms(3) have "length ys \<noteq> 0"
    by simp
  with assms(2) have two: "2 \<le> length ys"
    by presburger
  then obtain ys' p where 1: "ys = ys' @ [p]"
    by (cases ys rule: rev_cases) auto
  with two have "ys' \<noteq> []"
    by auto
  then obtain t q where 2: "ys' = t @ [q]"
    by (cases ys' rule: rev_cases) auto
  from 1 2 have ys: "ys = t @ [q, p]"
    by simp
  have l: "length (xs @ ys) mod 4 = 0"
    using assms(1,2) by (simp add: mod_add_eq [symmetric] mod_eq_0_iff_dvd)
  show ?thesis
    using assms(2) l by (simp add: stripPadding_def ys)
qed


lemma stripPadding_last:
  assumes "c1 \<noteq> 61" and "c2 \<noteq> 61"
  shows "c3 \<noteq> 61 \<Longrightarrow> c4 \<noteq> 61 \<Longrightarrow> stripPadding [c1, c2, c3, c4] = [c1, c2, c3, c4]"
    and "c3 \<noteq> 61 \<Longrightarrow> stripPadding [c1, c2, c3, 61] = [c1, c2, c3]"
    and "stripPadding [c1, c2, 61, 61] = [c1, c2]"
  using assms by (simp_all add: stripPadding_def)

lemma group_bounds:
  fixes a b c :: nat
  shows "a < 256 \<Longrightarrow> a div 4 < 64"
    and "b < 256 \<Longrightarrow> a mod 4 * 16 + b div 16 < 64"
    and "c < 256 \<Longrightarrow> b mod 16 * 4 + c div 64 < 64"
    and "c mod 64 < 64"
    and "a mod 4 * 16 < 64"
    and "b mod 16 * 4 < 64"
proof -
  have x: "a mod 4 < 4" and z: "b mod 16 < 16"
    by simp_all
  show "a div 4 < 64" if "a < 256"
    using that by simp
  show "a mod 4 * 16 + b div 16 < 64" if "b < 256"
  proof -
    from that have "b div 16 < 16" by simp
    with x show ?thesis by linarith
  qed
  show "b mod 16 * 4 + c div 64 < 64" if "c < 256"
  proof -
    from that have "c div 64 < 4" by simp
    with z show ?thesis by linarith
  qed
  show "c mod 64 < 64" by simp
  show "a mod 4 * 16 < 64" using x by linarith
  show "b mod 16 * 4 < 64" using z by linarith
qed

lemma group_bytes:
  fixes a b c :: nat
  assumes "b < 256" and "c < 256"
  shows "a div 4 * 4 + ((a mod 4) * 16 + b div 16) div 16 = a"
    and "((a mod 4) * 16 + b div 16) mod 16 * 16 + ((b mod 16) * 4 + c div 64) div 4 = b"
    and "((b mod 16) * 4 + c div 64) mod 4 * 64 + c mod 64 = c"
    and "a div 4 * 4 + ((a mod 4) * 16) div 16 = a"
    and "((a mod 4) * 16 + b div 16) mod 16 * 16 + ((b mod 16) * 4) div 4 = b"
proof -
  have y: "b div 16 < 16" and w: "c div 64 < 4"
    using assms by simp_all
  have 1: "((a mod 4) * 16 + b div 16) div 16 = a mod 4"
    using y by simp
  have 2: "((a mod 4) * 16 + b div 16) mod 16 = b div 16"
    using y by simp
  have 3: "((b mod 16) * 4 + c div 64) div 4 = b mod 16"
    using w by simp
  have 4: "((b mod 16) * 4 + c div 64) mod 4 = c div 64"
    using w by simp
  show "a div 4 * 4 + ((a mod 4) * 16 + b div 16) div 16 = a"
    unfolding 1 by simp
  show "((a mod 4) * 16 + b div 16) mod 16 * 16 + ((b mod 16) * 4 + c div 64) div 4 = b"
    unfolding 2 3 by simp
  show "((b mod 16) * 4 + c div 64) mod 4 * 64 + c mod 64 = c"
    unfolding 4 by simp
  show "a div 4 * 4 + ((a mod 4) * 16) div 16 = a"
    by simp
  show "((a mod 4) * 16 + b div 16) mod 16 * 16 + ((b mod 16) * 4) div 4 = b"
    unfolding 2 by simp
qed

lemma btoa_groups_shape:
  assumes "list_all (\<lambda>n. n < 256) ns"
  shows "length (btoa_groups ns) mod 4 = 0"
    and "filter (\<lambda>c. \<not> isAsciiWhitespace c) (btoa_groups ns) = btoa_groups ns"
    and "ns \<noteq> [] \<Longrightarrow> btoa_groups ns \<noteq> []"
  using assms
  by (induction ns rule: btoa_groups.induct)
    (simp_all add: b64char_facts pad_facts group_bounds)

lemma those_vals_chars:
  assumes "v1 < 64" and "v2 < 64"
  shows "those_vals [b64char v1, b64char v2] = Some [v1, v2]"
    and "v3 < 64 \<Longrightarrow> those_vals [b64char v1, b64char v2, b64char v3] = Some [v1, v2, v3]"
    and "v3 < 64 \<Longrightarrow> v4 < 64 \<Longrightarrow>
         those_vals (b64char v1 # b64char v2 # b64char v3 # b64char v4 # xs)
           = (case those_vals xs of None \<Rightarrow> None | Some vs \<Rightarrow> Some (v1 # v2 # v3 # v4 # vs))"
  using assms by (simp_all add: b64char_facts split: option.splits)

lemma atob_groups_decode:
  assumes "list_all (\<lambda>n. n < 256) ns"
  shows "\<exists>vs. those_vals (stripPadding (btoa_groups ns)) = Some vs \<and> atob_groups vs = ns
           \<and> length (stripPadding (btoa_groups ns)) mod 4 \<noteq> 1"
  using assms
proof (induction ns rule: btoa_groups.induct)
  case (1 a b c r)
  then have bd: "a < 256" "b < 256" "c < 256" and rest: "list_all (\<lambda>n. n < 256) r"
    by simp_all
  define v1 where "v1 = a div 4"
  define v2 where "v2 = a mod 4 * 16 + b div 16"
  define v3 where "v3 = b mod 16 * 4 + c div 64"
  define v4 where "v4 = c mod 64"
  have lt: "v1 < 64" "v2 < 64" "v3 < 64" "v4 < 64"
    by (simp_all add: v1_def v2_def v3_def v4_def group_bounds bd)
  have bytes: "v1 * 4 + v2 div 16 = a" "v2 mod 16 * 16 + v3 div 4 = b" "v3 mod 4 * 64 + v4 = c"
    unfolding v1_def v2_def v3_def v4_def by (rule group_bytes [OF bd(2,3)])+
  have enc: "btoa_groups (a # b # c # r)
               = [b64char v1, b64char v2, b64char v3, b64char v4] @ btoa_groups r"
    by (simp add: v1_def v2_def v3_def v4_def)
  have dec: "atob_groups (v1 # v2 # v3 # v4 # vs) = a # b # c # atob_groups vs" for vs
    by (simp add: bytes)
  show ?case
  proof (cases "r = []")
    case True
    have strip: "stripPadding [b64char v1, b64char v2, b64char v3, b64char v4]
            = [b64char v1, b64char v2, b64char v3, b64char v4]"
      by (intro stripPadding_last(1)) (simp_all add: b64char_facts lt)
    have tv: "those_vals [b64char v1, b64char v2, b64char v3, b64char v4] = Some [v1, v2, v3, v4]"
      using those_vals_chars(3) [OF lt, of "[]"] by simp
    have ag: "atob_groups [v1, v2, v3, v4] = [a, b, c]"
      using dec [of "[]"] by simp
    have enc0: "btoa_groups [a, b, c] = [b64char v1, b64char v2, b64char v3, b64char v4]"
      using enc True by simp
    show ?thesis
      unfolding True enc0
      by (rule exI [of _ "[v1, v2, v3, v4]"])
        (simp add: strip tv ag del: those_vals.simps atob_groups.simps)
  next
    case False
    from 1(1) [OF rest] obtain vs where
      vs: "those_vals (stripPadding (btoa_groups r)) = Some vs" "atob_groups vs = r"
        "length (stripPadding (btoa_groups r)) mod 4 \<noteq> 1"
      by blast
    have "stripPadding ([b64char v1, b64char v2, b64char v3, b64char v4] @ btoa_groups r)
            = [b64char v1, b64char v2, b64char v3, b64char v4] @ stripPadding (btoa_groups r)"
      using btoa_groups_shape(1,3) [OF rest] False
      by (intro stripPadding_append) simp_all
    moreover have "those_vals ([b64char v1, b64char v2, b64char v3, b64char v4]
                                 @ stripPadding (btoa_groups r)) = Some (v1 # v2 # v3 # v4 # vs)"
      using those_vals_chars(3) [OF lt, of "stripPadding (btoa_groups r)"] vs(1) by simp
    moreover have "atob_groups (v1 # v2 # v3 # v4 # vs) = a # b # c # r"
      using dec [of vs] vs(2) by simp
    ultimately show ?thesis
      unfolding enc using vs(3)
      by (intro exI [of _ "v1 # v2 # v3 # v4 # vs"])
        (simp add: mod_Suc del: those_vals.simps atob_groups.simps)
  qed
next
  case (2 a b)
  then have bd: "a < 256" "b < 256"
    by simp_all
  have z: "(0 :: nat) < 256"
    by simp
  define v1 where "v1 = a div 4"
  define v2 where "v2 = a mod 4 * 16 + b div 16"
  define v3 where "v3 = b mod 16 * 4"
  have lt: "v1 < 64" "v2 < 64" "v3 < 64"
    by (simp_all add: v1_def v2_def v3_def group_bounds bd)
  have bytes: "v1 * 4 + v2 div 16 = a" "v2 mod 16 * 16 + v3 div 4 = b"
    unfolding v1_def v2_def v3_def by (rule group_bytes [OF bd(2) z])+
  have enc: "btoa_groups [a, b] = [b64char v1, b64char v2, b64char v3, 61]"
    by (simp add: v1_def v2_def v3_def)
  have "stripPadding [b64char v1, b64char v2, b64char v3, 61]
          = [b64char v1, b64char v2, b64char v3]"
    by (intro stripPadding_last(2)) (simp_all add: b64char_facts lt)
  moreover have "atob_groups [v1, v2, v3] = [a, b]"
    by (simp add: bytes)
  ultimately show ?case
    unfolding enc
    by (intro exI [of _ "[v1, v2, v3]"])
      (simp add: those_vals_chars lt del: those_vals.simps atob_groups.simps)
next
  case (3 a)
  then have bd: "a < 256"
    by simp
  have z: "(0 :: nat) < 256"
    by simp
  define v1 where "v1 = a div 4"
  define v2 where "v2 = a mod 4 * 16"
  have lt: "v1 < 64" "v2 < 64"
    by (simp_all add: v1_def v2_def group_bounds bd)
  have bytes: "v1 * 4 + v2 div 16 = a"
    unfolding v1_def v2_def by (rule group_bytes [OF z z])
  have enc: "btoa_groups [a] = [b64char v1, b64char v2, 61, 61]"
    by (simp add: v1_def v2_def)
  have "stripPadding [b64char v1, b64char v2, 61, 61] = [b64char v1, b64char v2]"
    by (intro stripPadding_last(3)) (simp_all add: b64char_facts lt)
  moreover have "atob_groups [v1, v2] = [a]"
    by (simp add: bytes)
  ultimately show ?case
    unfolding enc
    by (intro exI [of _ "[v1, v2]"])
      (simp add: those_vals_chars lt del: those_vals.simps atob_groups.simps)
next
  case 4
  show ?case by (simp add: stripPadding_def)
qed

lemma atob_btoa_groups:
  assumes "list_all (\<lambda>n. n < 256) ns"
  shows "atob (btoa_groups ns) = Inr (map of_nat ns)"
  using atob_groups_decode [OF assms]
  by (auto simp add: atob_def btoa_groups_shape [OF assms] Let_def)

lemma byte_as_char:
  fixes b :: byte
  shows "unat b < 256"
    and "unat (ucast b :: 16 word) = unat b"
    and "(ucast b :: 16 word) \<le> 255"
    and "ucast (ucast b :: 16 word) = b"
proof -
  have "unat b < 2 ^ LENGTH(8)"
    by (rule unsigned_less)
  then show small: "unat b < 256"
    by simp
  show same: "unat (ucast b :: 16 word) = unat b"
    using small by (simp add: unsigned_ucast_eq take_bit_nat_eq_self)
  have "unat (ucast b :: 16 word) \<le> unat (255 :: 16 word)"
    using small by (simp add: same)
  then show "(ucast b :: 16 word) \<le> 255"
    by (simp only: word_le_nat_alt)
  show "ucast (ucast b :: 16 word) = b"
    by (rule ucast_up_ucast_id) (simp add: is_up)
qed

lemma decode_encode:
  "\<exists>text. encode bytes = Inr text \<and> decode text = Inr bytes"
proof -
  have small: "list_all (\<lambda>n. n < 256) (map unat bytes)"
    by (induction bytes) (simp_all add: byte_as_char)
  have ok: "list_all (\<lambda>c. c \<le> 255) (map ucast bytes :: 16 word list)"
    by (induction bytes) (simp_all add: byte_as_char)
  have same: "map unat (map ucast bytes :: 16 word list) = map unat bytes"
    by (simp add: byte_as_char)
  have again: "map (\<lambda>b. ucast (word_of_nat (unat b) :: 16 word)) bytes = bytes"
    by (induction bytes) (simp_all add: byte_as_char)
  have "encode bytes = Inr (btoa_groups (map unat bytes))"
    by (simp add: encode_def btoa_def ok comp_def byte_as_char)
  moreover have "decode (btoa_groups (map unat bytes)) = Inr bytes"
    using again by (simp add: decode_def atob_btoa_groups [OF small] comp_def)
  ultimately show ?thesis by blast
qed


lemma int16_bytes_back:
  fixes w :: "16 word"
  shows "ucast (ucast w :: byte) OR push_bit 8 (ucast (ucast (drop_bit 8 w) :: byte)) = w"
  by (rule bit_word_eqI)
    (auto simp add: bit_or_iff bit_push_bit_iff bit_ucast_iff bit_drop_bit_eq)

lemma int16_view_buffer: "int16_view (int16_buffer ws) = ws"
  by (induction ws) (simp_all add: int16_buffer_def int16_bytes_back)

lemma length_int16_buffer: "length (int16_buffer ws) = 2 * length ws"
  by (induction ws) (simp_all add: int16_buffer_def)

lemma sint_in_range:
  assumes "- 32768 \<le> k" and "k < 32768"
  shows "sint (word_of_int k :: 16 word) = k"
  using assms by (simp add: sint_sbintrunc' signed_take_bit_int_eq_self)

text \<open>What one sample becomes on the way through the codec.\<close>

lemma sample_through_codec:
  assumes "- 1 \<le> x" and "x < 1"
  shows "\<bar>real_of_int (sint (toInt16 (x * 32768))) / 32768 - x\<bar> < 1 / 32768"
proof -
  define y where "y = x * 32768"
  define k where "k = (if y < 0 then - \<lfloor>- y\<rfloor> else \<lfloor>y\<rfloor>)"
  have y: "- 32768 \<le> y" "y < 32768"
    using assms by (simp_all add: y_def)
  have near: "\<bar>real_of_int k - y\<bar> < 1"
    unfolding k_def by (auto simp add: abs_if) linarith+
  have "- 32768 \<le> k" "k < 32768"
    using y unfolding k_def by (auto simp add: le_floor_iff floor_less_iff) linarith+
  then have "sint (toInt16 y) = k"
    unfolding toInt16_def k_def [symmetric] by (rule sint_in_range)
  moreover have "\<bar>real_of_int k / 32768 - x\<bar> = \<bar>real_of_int k - y\<bar> / 32768"
    by (simp add: y_def abs_if field_simps)
  ultimately show ?thesis
    using near by (simp add: y_def)
qed

subsection \<open>The codec below full scale\<close>

lemma decodeAudioData_mono:
  assumes "ws \<noteq> []"
  shows "decodeAudioData (int16_buffer ws) rate 1
           = (if rate \<le> 0 then Inl NotSupportedError
              else Inr \<lparr>sampleRate = rate,
                        channelData = [map (\<lambda>w. real_of_int (sint w) / 32768) ws]\<rparr>)"
proof -
  have m: "map (\<lambda>i. real_of_int (sint (ws ! i)) / 32768) [0..<length ws]
          = map (\<lambda>w. real_of_int (sint w) / 32768) ws"
    by (rule nth_equalityI) simp_all
  have one: "[0..<1] = [0 :: nat]"
    by simp
  have even: "\<not> odd (length (int16_buffer ws))"
    by (simp add: length_int16_buffer)
  show ?thesis
    unfolding decodeAudioData_def int16_view_buffer Let_def one
    using assms even m by simp
qed


lemma roundTrip_eq:
  assumes "samples \<noteq> []"
  shows "roundTrip samples
           = Inr [map (\<lambda>x. real_of_int (sint (toInt16 (x * 32768))) / 32768) samples]"
proof -
  let ?ws = "map (\<lambda>x. toInt16 (x * 32768)) samples"
  obtain encoded where e: "encode (int16_buffer ?ws) = Inr encoded"
    and d: "decode encoded = Inr (int16_buffer ?ws)"
    using decode_encode [of "int16_buffer ?ws"] by blast
  have "?ws \<noteq> []"
    using assms by simp
  from decodeAudioData_mono [OF this, of 16000]
  have a: "decodeAudioData (int16_buffer ?ws) 16000 1
             = Inr \<lparr>sampleRate = 16000,
                    channelData = [map (\<lambda>w. real_of_int (sint w) / 32768) ?ws]\<rparr>"
    by simp
  have c: "createBlob samples = Inr \<lparr>data = encoded, mimeType = js ''audio/pcm;rate=16000''\<rparr>"
    by (simp add: createBlob_def e Let_def)
  show ?thesis
    unfolding roundTrip_def c by (simp add: d a comp_def del: One_nat_def)
qed

text \<open>
  Below full scale the codec law holds: every non-empty block of samples in \<open>[-1, 1)\<close>
  comes back, through \<open>createBlob\<close>, the base64 text and \<open>decodeAudioData\<close>, as one
  channel of the same length with every sample within \<open>1 / 32768\<close> of the original.
\<close>

lemma round_trip_below_full_scale:
  assumes "samples \<noteq> []" and "list_all (\<lambda>x. - 1 \<le> x \<and> x < 1) samples"
  shows "\<exists>ys. roundTrip samples = Inr [ys] \<and> length ys = length samples
           \<and> (\<forall>i < length samples. \<bar>ys ! i - samples ! i\<bar> < 1 / 32768)"
proof -
  let ?q = "\<lambda>x. real_of_int (sint (toInt16 (x * 32768))) / 32768"
  have "\<bar>map ?q samples ! i - samples ! i\<bar> < 1 / 32768" if "i < length samples" for i
  proof -
    from assms(2) that have "- 1 \<le> samples ! i" and "samples ! i < 1"
      by (simp_all add: list_all_length)
    then have "\<bar>?q (samples ! i) - samples ! i\<bar> < 1 / 32768"
      by (rule sample_through_codec)
    moreover have "map ?q samples ! i = ?q (samples ! i)"
      using that by (rule nth_map)
    ultimately show ?thesis
      by (simp only:)
  qed
  then have "\<forall>i < length samples. \<bar>map ?q samples ! i - samples ! i\<bar> < 1 / 32768"
    by blast
  moreover have "length (map ?q samples) = length samples"
    by simp
  ultimately show ?thesis
    using roundTrip_eq [OF assms(1)] by blast
qed

subsection \<open>Claim C1: the codec round trip\<close>

text \<open>
  Claim C1 asks that every sample in \<open>[-1, 1]\<close>, encoded by \<open>createBlob\<close> and decoded by
  \<open>decodeAudioData\<close>, comes back within \<open>1 / 32768\<close>. At the full-scale sample \<open>1\<close> the
  scaled value \<open>32768\<close> does not fit a signed 16-bit integer and wraps to \<open>-32768\<close>: the
  sample comes back as \<open>-1\<close>, at distance \<open>2\<close>.
\<close>

theorem codec_round_trip_at_full_scale:
  "roundTrip [1] = Inr [[- 1]] \<and> \<not> \<bar>(- 1 :: real) - 1\<bar> \<le> 1 / 32768"
  by (simp add: roundTrip_def createBlob_def toInt16_def int16_buffer_def encode_def btoa_def
      b64char_def js_def decode_def atob_def stripPadding_def b64val_def isAsciiWhitespace_def
      decodeAudioData_def)

subsection \<open>The steps of a message\<close>

lemma takeTranscriptions_keeps:
  "scheduled (takeTranscriptions c s) = scheduled s"
  "nextStartTimeRef (takeTranscriptions c s) = nextStartTimeRef s"
  "nextHandle (takeTranscriptions c s) = nextHandle s"
  "outputAudioContextRef (takeTranscriptions c s) = outputAudioContextRef s"
  "conversation (takeTranscriptions c s) = conversation s"
  "audioSourcesRef (takeTranscriptions c s) = audioSourcesRef s"
  "stopped (takeTranscriptions c s) = stopped s"
  by (simp_all add: takeTranscriptions_def Let_def split: option.splits)

lemma takeTranscriptions_texts:
  "currentInputTextRef (takeTranscriptions c s)
     = (case inputTranscription c of None \<Rightarrow> currentInputTextRef s | Some t \<Rightarrow> t)"
  "currentOutputTextRef (takeTranscriptions c s)
     = (case outputTranscription c of None \<Rightarrow> currentOutputTextRef s | Some t \<Rightarrow> t)"
  by (simp_all add: takeTranscriptions_def Let_def split: option.splits)

lemma completeTurn_keeps:
  assumes "completeTurn s = Inr s1"
  shows "scheduled s1 = scheduled s"
    and "nextStartTimeRef s1 = nextStartTimeRef s"
    and "nextHandle s1 = nextHandle s"
    and "outputAudioContextRef s1 = outputAudioContextRef s"
    and "audioSourcesRef s1 = audioSourcesRef s"
    and "stopped s1 = stopped s"
  using assms by (auto simp add: completeTurn_def Let_def split: option.splits if_splits)

lemma endTurn_keeps:
  "scheduled (snd (endTurn c s)) = scheduled s"
  "nextStartTimeRef (snd (endTurn c s)) = nextStartTimeRef s"
  "nextHandle (snd (endTurn c s)) = nextHandle s"
  "outputAudioContextRef (snd (endTurn c s)) = outputAudioContextRef s"
  "audioSourcesRef (snd (endTurn c s)) = audioSourcesRef s"
  "stopped (snd (endTurn c s)) = stopped s"
  by (simp_all add: endTurn_def completeTurn_keeps split: sum.splits)

lemma interrupt_keeps:
  "scheduled (interrupt s) = scheduled s"
  "nextHandle (interrupt s) = nextHandle s"
  "outputAudioContextRef (interrupt s) = outputAudioContextRef s"
  "conversation (interrupt s) = conversation s"
  "currentInputTextRef (interrupt s) = currentInputTextRef s"
  "currentOutputTextRef (interrupt s) = currentOutputTextRef s"
  by (simp_all add: interrupt_def)

lemma interrupt_resets:
  "stopped (interrupt s) = stopped s \<union> audioSourcesRef s"
  "audioSourcesRef (interrupt s) = {}"
  "nextStartTimeRef (interrupt s) = 0"
  by (simp_all add: interrupt_def)

lemma schedule_fields:
  "scheduled (schedule t b s)
     = scheduled s @ [(nextHandle s, max t (nextStartTimeRef s), duration b)]"
  "nextStartTimeRef (schedule t b s) = max t (nextStartTimeRef s) + duration b"
  "nextHandle (schedule t b s) = nextHandle s + 1"
  "outputAudioContextRef (schedule t b s) = outputAudioContextRef s"
  "conversation (schedule t b s) = conversation s"
  "currentInputTextRef (schedule t b s) = currentInputTextRef s"
  "currentOutputTextRef (schedule t b s) = currentOutputTextRef s"
  "audioSourcesRef (schedule t b s) = insert (nextHandle s) (audioSourcesRef s)"
  "stopped (schedule t b s) = stopped s"
  by (simp_all add: schedule_def Let_def)

text \<open>The audio step either leaves the state alone or schedules one buffer.\<close>

lemma playAudio_cases:
  assumes "playAudio t c s = Inr s2"
  shows "s2 = s \<or> (\<exists>b. s2 = schedule t b s)"
  using assms by (auto simp add: playAudio_def split: if_splits sum.splits)

lemma playAudio_chunk:
  assumes "inlineData c = Some d" and "d \<noteq> []" and "outputAudioContextRef s \<noteq> None"
    and "decode d = Inr bytes" and "decodeAudioData bytes 24000 1 = Inr b"
  shows "playAudio t c s = Inr (schedule t b s)"
  using assms by (simp add: playAudio_def truthy_def)

lemma playAudio_silent:
  assumes "\<not> truthy (inlineData c)"
  shows "playAudio t c s = Inr s"
  using assms by (simp add: playAudio_def)

lemma onmessage_ok:
  assumes "playAudio t c (takeTranscriptions c s) = Inr s2"
  shows "onmessage t (Some c) s = endTurn c (if interrupted c then interrupt s2 else s2)"
  using assms by (simp add: onmessage_def Let_def)

lemma onmessage_failed:
  assumes "playAudio t c (takeTranscriptions c s) = Inl e"
  shows "onmessage t (Some c) s = (Some e, takeTranscriptions c s)"
  using assms by (simp add: onmessage_def Let_def)

subsection \<open>Sample states and messages, evaluated\<close>

lemma listening_eval:
  "listeningConversation =
     \<lparr>API_KEY = Some (js ''key''), pendingUserMedia = 0, nextHandle = 5, liveStreams = {0}, tappedProcessors = {4},
      openContexts = {1, 2}, openSessions = {3}, scheduled = [], stopped = {}, error = None,
      sessionPromiseRef = Some 3, scriptProcessorRef = Some 4, mediaStreamRef = Some 0,
      status = Listening, conversation = [], inputAudioContextRef = Some 1,
      outputAudioContextRef = Some 2, nextStartTimeRef = 0, audioSourcesRef = {},
      currentInputTextRef = Some [], currentOutputTextRef = Some []\<rparr>"
  by (simp add: listeningConversation_def initialConversation_def handleStart_def
      handleStart_resume_def onopen_def truthy_def js_def Let_def eval_nat_numeral)

lemma listening_fields:
  "nextHandle listeningConversation = 5"
  "scheduled listeningConversation = []"
  "nextStartTimeRef listeningConversation = 0"
  "outputAudioContextRef listeningConversation = Some 2"
  "audioSourcesRef listeningConversation = {}"
  "stopped listeningConversation = {}"
  "conversation listeningConversation = []"
  "currentInputTextRef listeningConversation = Some []"
  "currentOutputTextRef listeningConversation = Some []"
  "status listeningConversation = Listening"
  by (simp_all add: listening_eval)

lemma chunk_decodes:
  "decode (js ''AIAAAA=='') = Inr [0, 128, 0, 0]"
  "decodeAudioData [0, 128, 0, 0] 24000 1 = Inr twoFrames"
  "duration twoFrames = 1 / 12000"
  by (simp_all add: decode_def atob_def stripPadding_def b64val_def isAsciiWhitespace_def
      js_def decodeAudioData_def twoFrames_def duration_def)

lemma chunk_fields:
  "inlineData chunkContent = Some (js ''AIAAAA=='')"
  "js ''AIAAAA=='' \<noteq> []"
  "\<not> interrupted chunkContent"
  "\<not> turnComplete chunkContent"
  "inputTranscription chunkContent = None"
  "outputTranscription chunkContent = None"
  by (simp_all add: chunkContent_def emptyContent_def js_def)

subsection \<open>The scheduled entries stay back to back\<close>

lemma backToBack_snoc:
  "backToBack (xs @ [(b, sb, db)]) =
     (backToBack xs \<and> (case endOfLast xs of None \<Rightarrow> True | Some e \<Rightarrow> e \<le> sb))"
  by (induction xs rule: backToBack.induct) auto

lemma endOfLast_snoc: "endOfLast (xs @ [(b, sb, db)]) = Some (sb + db)"
  by (induction xs rule: endOfLast.induct) auto

lemma chained_unchanged:
  assumes "chained k s" and "scheduled s' = scheduled s"
    and "nextStartTimeRef s' = nextStartTimeRef s"
  shows "chained k s'"
  using assms by (simp add: chained_def split: option.splits)

lemma chained_schedule:
  assumes "chained k s"
  shows "chained k (schedule t b s)"
  using assms
  by (auto simp add: chained_def schedule_fields backToBack_snoc endOfLast_snoc
      split: option.splits)

lemma chained_fire:
  assumes "uninterrupted e" and "chained k s"
  shows "chained k (fire e s)"
proof (cases e)
  case (Message t m)
  show ?thesis
  proof (cases m)
    case None
    with Message assms show ?thesis by (simp add: onmessage_def)
  next
    case (Some c)
    with Message assms have ni: "\<not> interrupted c" by simp
    show ?thesis
    proof (cases "playAudio t c (takeTranscriptions c s)")
      case (Inl err)
      have "chained k (takeTranscriptions c s)"
        using assms(2) by (rule chained_unchanged) (simp_all add: takeTranscriptions_keeps)
      with Inl Message Some show ?thesis by (simp add: onmessage_failed)
    next
      case (Inr s2)
      have c1: "chained k (takeTranscriptions c s)"
        using assms(2) by (rule chained_unchanged) (simp_all add: takeTranscriptions_keeps)
      from playAudio_cases [OF Inr] c1 have c2: "chained k s2"
        by (auto simp add: chained_schedule)
      have "chained k (snd (endTurn c s2))"
        using c2 by (rule chained_unchanged) (simp_all add: endTurn_keeps)
      with Inr ni Message Some show ?thesis by (simp add: onmessage_ok)
    qed
  qed
qed (use assms in simp_all)

lemma chained_run:
  "list_all uninterrupted evs \<Longrightarrow> chained k s \<Longrightarrow> chained k (run evs s)"
  by (induction evs arbitrary: s) (simp_all add: chained_fire)

lemma chained_start: "chained (length (scheduled s)) s"
  by (simp add: chained_def)

subsection \<open>Claim C2: playback ordering\<close>

text \<open>
  Claim C2: a message whose chunk decodes is scheduled at the maximum of the playback
  clock and the watermark, and the watermark becomes that start time plus the duration of
  the chunk. Consequently, over any sequence of messages without an interruption, the
  entries scheduled during the sequence are back to back: each starts no earlier than the
  start of the one before plus its duration.
\<close>

theorem playback_ordering:
  "(inlineData c = Some d \<and> d \<noteq> [] \<and> outputAudioContextRef s \<noteq> None
      \<and> decode d = Inr bytes \<and> decodeAudioData bytes 24000 1 = Inr b \<and> \<not> interrupted c
    \<longrightarrow> scheduled (snd (onmessage t (Some c) s))
          = scheduled s @ [(nextHandle s, max t (nextStartTimeRef s), duration b)]
        \<and> nextStartTimeRef (snd (onmessage t (Some c) s))
          = max t (nextStartTimeRef s) + duration b)
   \<and> (list_all uninterrupted evs
    \<longrightarrow> backToBack (drop (length (scheduled s)) (scheduled (run evs s))))"
proof (intro conjI impI)
  assume h: "inlineData c = Some d \<and> d \<noteq> [] \<and> outputAudioContextRef s \<noteq> None
      \<and> decode d = Inr bytes \<and> decodeAudioData bytes 24000 1 = Inr b \<and> \<not> interrupted c"
  then have h1: "inlineData c = Some d" and h2: "d \<noteq> []"
    and h3: "outputAudioContextRef (takeTranscriptions c s) \<noteq> None"
    and h4: "decode d = Inr bytes" and h5: "decodeAudioData bytes 24000 1 = Inr b"
    and h6: "\<not> interrupted c"
    by (simp_all add: takeTranscriptions_keeps del: One_nat_def)
  have "playAudio t c (takeTranscriptions c s) = Inr (schedule t b (takeTranscriptions c s))"
    using h1 h2 h3 h4 h5 by (rule playAudio_chunk)
  from onmessage_ok [OF this] h6
  have eq: "snd (onmessage t (Some c) s) = snd (endTurn c (schedule t b (takeTranscriptions c s)))"
    by simp
  show "scheduled (snd (onmessage t (Some c) s))
          = scheduled s @ [(nextHandle s, max t (nextStartTimeRef s), duration b)]"
    by (simp add: eq endTurn_keeps schedule_fields takeTranscriptions_keeps)
  show "nextStartTimeRef (snd (onmessage t (Some c) s))
          = max t (nextStartTimeRef s) + duration b"
    by (simp add: eq endTurn_keeps schedule_fields takeTranscriptions_keeps)
next
  assume "list_all uninterrupted evs"
  from chained_run [OF this chained_start]
  show "backToBack (drop (length (scheduled s)) (scheduled (run evs s)))"
    by (simp add: chained_def)
qed

theorem playback_ordering_witness:
  "list_all uninterrupted
     [Message 1 (Some chunkContent), Message 1 (Some chunkContent), Message 5 (Some chunkContent)]
   \<and> scheduled (snd (onmessage 1 (Some chunkContent) listeningConversation))
       = [(5, 1, 1 / 12000)]
   \<and> nextStartTimeRef (snd (onmessage 1 (Some chunkContent) listeningConversation))
       = 12001 / 12000
   \<and> backToBack
       (scheduled (run [Message 1 (Some chunkContent), Message 1 (Some chunkContent),
                        Message 5 (Some chunkContent)] listeningConversation))"
proof -
  let ?evs = "[Message 1 (Some chunkContent), Message 1 (Some chunkContent),
               Message 5 (Some chunkContent)]"
  have un: "list_all uninterrupted ?evs"
    by (simp add: chunk_fields)
  have hyp: "inlineData chunkContent = Some (js ''AIAAAA=='') \<and> js ''AIAAAA=='' \<noteq> []
      \<and> outputAudioContextRef listeningConversation \<noteq> None
      \<and> decode (js ''AIAAAA=='') = Inr [0, 128, 0, 0]
      \<and> decodeAudioData [0, 128, 0, 0] 24000 1 = Inr twoFrames \<and> \<not> interrupted chunkContent"
    by (simp add: chunk_fields chunk_decodes listening_fields del: One_nat_def)
  from playback_ordering [of chunkContent "js ''AIAAAA==''" listeningConversation
      "[0, 128, 0, 0]" twoFrames 1 ?evs] hyp un
  have "scheduled (snd (onmessage 1 (Some chunkContent) listeningConversation))
          = scheduled listeningConversation
            @ [(nextHandle listeningConversation,
                max 1 (nextStartTimeRef listeningConversation), duration twoFrames)]
        \<and> nextStartTimeRef (snd (onmessage 1 (Some chunkContent) listeningConversation))
          = max 1 (nextStartTimeRef listeningConversation) + duration twoFrames
        \<and> backToBack (drop (length (scheduled listeningConversation))
                        (scheduled (run ?evs listeningConversation)))"
    by blast
  with un show ?thesis
    by (simp add: listening_fields chunk_decodes)
qed

subsection \<open>Events without an audio chunk\<close>

lemma playAudio_keeps:
  assumes "playAudio t c s = Inr s2"
  shows "outputAudioContextRef s2 = outputAudioContextRef s"
    and "conversation s2 = conversation s"
    and "currentInputTextRef s2 = currentInputTextRef s"
    and "currentOutputTextRef s2 = currentOutputTextRef s"
  using playAudio_cases [OF assms] by (auto simp add: schedule_fields)

lemma onmessage_keeps_context:
  "outputAudioContextRef (snd (onmessage t m s)) = outputAudioContextRef s"
proof (cases m)
  case None
  then show ?thesis by (simp add: onmessage_def)
next
  case (Some c)
  show ?thesis
  proof (cases "playAudio t c (takeTranscriptions c s)")
    case (Inl e)
    with Some show ?thesis by (simp add: onmessage_failed takeTranscriptions_keeps)
  next
    case (Inr s2)
    with Some playAudio_keeps(1) [OF Inr] show ?thesis
      by (simp add: onmessage_ok takeTranscriptions_keeps endTurn_keeps interrupt_keeps)
  qed
qed

lemma silent_fire:
  assumes "silent e"
  shows "outputAudioContextRef (fire e s) = outputAudioContextRef s"
    and "nextStartTimeRef s = 0 \<Longrightarrow> nextStartTimeRef (fire e s) = 0"
proof -
  show "outputAudioContextRef (fire e s) = outputAudioContextRef s"
    using assms by (cases e) (simp_all add: onmessage_keeps_context onended_def)
  show "nextStartTimeRef (fire e s) = 0" if z: "nextStartTimeRef s = 0"
  proof (cases e)
    case (Message t m)
    show ?thesis
    proof (cases m)
      case None
      with Message z show ?thesis by (simp add: onmessage_def)
    next
      case (Some c)
      with Message assms have "\<not> truthy (inlineData c)" by simp
      then have "playAudio t c (takeTranscriptions c s) = Inr (takeTranscriptions c s)"
        by (rule playAudio_silent)
      from onmessage_ok [OF this] Message Some z show ?thesis
        by (simp add: endTurn_keeps interrupt_resets takeTranscriptions_keeps)
    qed
  qed (use assms z in \<open>simp_all add: onended_def\<close>)
qed

lemma silent_run:
  "list_all silent evs \<Longrightarrow> outputAudioContextRef (run evs s) = outputAudioContextRef s"
  "list_all silent evs \<Longrightarrow> nextStartTimeRef s = 0 \<Longrightarrow> nextStartTimeRef (run evs s) = 0"
  by (induction evs arbitrary: s) (simp_all add: silent_fire)

lemma message_fields:
  "interrupted interruptContent"
  "\<not> truthy (inlineData interruptContent)"
  "\<not> truthy (inlineData emptyContent)"
  by (simp_all add: interruptContent_def emptyContent_def truthy_def)

lemma playing_eval:
  "playingConversation
     = schedule 1 twoFrames (takeTranscriptions chunkContent listeningConversation)"
proof -
  have "outputAudioContextRef (takeTranscriptions chunkContent listeningConversation) \<noteq> None"
    by (simp add: takeTranscriptions_keeps listening_fields)
  with chunk_fields(1) chunk_fields(2)
  have "playAudio 1 chunkContent (takeTranscriptions chunkContent listeningConversation)
          = Inr (schedule 1 twoFrames (takeTranscriptions chunkContent listeningConversation))"
    using chunk_decodes(1) chunk_decodes(2) by (rule playAudio_chunk)
  from onmessage_ok [OF this] show ?thesis
    by (simp add: playingConversation_def chunk_fields endTurn_def)
qed

lemma playing_fields:
  "nextStartTimeRef playingConversation = 12001 / 12000"
  "scheduled playingConversation = [(5, 1, 1 / 12000)]"
  "audioSourcesRef playingConversation = {5}"
  "outputAudioContextRef playingConversation = Some 2"
  "nextHandle playingConversation = 6"
  "stopped playingConversation = {}"
  "conversation playingConversation = []"
  "currentInputTextRef playingConversation = Some []"
  "currentOutputTextRef playingConversation = Some []"
  by (simp_all add: playing_eval schedule_fields takeTranscriptions_keeps
      takeTranscriptions_texts listening_fields chunk_decodes chunk_fields)

text \<open>A chunk that is no base64 text: the audio step throws, and the handler with it.\<close>

lemma bad_chunk:
  "decode (js ''!'') = Inl InvalidCharacterError"
  "truthy (Some (js ''!''))"
  by (simp_all add: decode_def atob_def stripPadding_def isAsciiWhitespace_def js_def
      truthy_def)

lemma playAudio_bad_chunk:
  assumes "inlineData c = Some (js ''!'')" and "outputAudioContextRef s \<noteq> None"
  shows "playAudio t c s = Inl InvalidCharacterError"
  using assms by (simp add: playAudio_def bad_chunk)

lemma onmessage_bad_chunk:
  assumes "inlineData c = Some (js ''!'')" and "outputAudioContextRef s \<noteq> None"
  shows "onmessage t (Some c) s = (Some InvalidCharacterError, takeTranscriptions c s)"
proof -
  have "outputAudioContextRef (takeTranscriptions c s) \<noteq> None"
    using assms(2) by (simp add: takeTranscriptions_keeps)
  with assms(1) have "playAudio t c (takeTranscriptions c s) = Inl InvalidCharacterError"
    by (rule playAudio_bad_chunk)
  then show ?thesis by (rule onmessage_failed)
qed

lemma badInterrupt_fields:
  "interrupted badInterruptContent"
  "inlineData badInterruptContent = Some (js ''!'')"
  "inputTranscription badInterruptContent = None"
  "outputTranscription badInterruptContent = None"
  by (simp_all add: badInterruptContent_def emptyContent_def)

subsection \<open>Claim C3: an interruption resets the timeline\<close>

text \<open>
  Claim C3 does not hold of every interruption. The interruption block comes after the
  audio block of the handler: when the message that carries the interruption also carries
  a chunk that does not decode, the handler throws in the audio block. In the playing
  conversation such a message, at clock time 1, stops no source, leaves source 5 in the
  set and the watermark at 12001/12000, and the next chunk, arriving at clock time 1, is
  scheduled at that watermark.
\<close>

theorem interruption_lost_after_bad_chunk:
  "interrupted badInterruptContent
   \<and> fst (onmessage 1 (Some badInterruptContent) playingConversation)
       = Some InvalidCharacterError
   \<and> stopped (snd (onmessage 1 (Some badInterruptContent) playingConversation)) = {}
   \<and> audioSourcesRef (snd (onmessage 1 (Some badInterruptContent) playingConversation)) = {5}
   \<and> nextStartTimeRef (snd (onmessage 1 (Some badInterruptContent) playingConversation))
       = 12001 / 12000
   \<and> scheduled (snd (onmessage 1 (Some chunkContent)
         (snd (onmessage 1 (Some badInterruptContent) playingConversation))))
       = [(5, 1, 1 / 12000), (6, 12001 / 12000, 1 / 12000)]"
proof -
  let ?s = "snd (onmessage 1 (Some badInterruptContent) playingConversation)"
  have ctx: "outputAudioContextRef playingConversation \<noteq> None"
    by (simp add: playing_fields)
  from onmessage_bad_chunk [OF badInterrupt_fields(2) ctx]
  have eq: "onmessage 1 (Some badInterruptContent) playingConversation
              = (Some InvalidCharacterError,
                 takeTranscriptions badInterruptContent playingConversation)" .
  have f: "stopped ?s = {}" "audioSourcesRef ?s = {5}" "nextStartTimeRef ?s = 12001 / 12000"
    "scheduled ?s = [(5, 1, 1 / 12000)]" "nextHandle ?s = 6"
    "outputAudioContextRef (takeTranscriptions chunkContent ?s) \<noteq> None"
    by (simp_all add: eq takeTranscriptions_keeps playing_fields)
  from chunk_fields(1) chunk_fields(2) f(6) chunk_decodes(1) chunk_decodes(2)
  have "playAudio 1 chunkContent (takeTranscriptions chunkContent ?s)
          = Inr (schedule 1 twoFrames (takeTranscriptions chunkContent ?s))"
    by (rule playAudio_chunk)
  from onmessage_ok [OF this]
  have "scheduled (snd (onmessage 1 (Some chunkContent) ?s))
          = [(5, 1, 1 / 12000), (6, 12001 / 12000, 1 / 12000)]"
    by (simp add: endTurn_keeps schedule_fields takeTranscriptions_keeps f chunk_fields
        chunk_decodes)
  with f show ?thesis
    by (simp add: eq badInterrupt_fields)
qed

text \<open>
  Claim C3, for a message in which the audio block does not throw (it carries no chunk,
  or its chunk decodes): when such a message carries an interruption, every source in the
  scheduled set has been stopped, the chunk's own source included, the set is empty and
  the watermark is 0. The next chunk, after any events that bring no chunk, is then
  scheduled at the playback clock time of its arrival (a clock time is never negative),
  not at the earlier watermark.
\<close>

theorem interruption_resets_timeline:
  assumes "interrupted c" and "playAudio t c (takeTranscriptions c s) = Inr s2"
    and "list_all silent evs"
    and "inlineData c' = Some d" and "d \<noteq> []" and "decode d = Inr bytes"
    and "decodeAudioData bytes 24000 1 = Inr b"
    and "outputAudioContextRef s \<noteq> None" and "0 \<le> now"
  shows "audioSourcesRef s2 \<subseteq> stopped (snd (onmessage t (Some c) s))
    \<and> audioSourcesRef (snd (onmessage t (Some c) s)) = {}
    \<and> nextStartTimeRef (snd (onmessage t (Some c) s)) = 0
    \<and> scheduled (snd (onmessage now (Some c') (run evs (snd (onmessage t (Some c) s)))))
        = scheduled (run evs (snd (onmessage t (Some c) s)))
          @ [(nextHandle (run evs (snd (onmessage t (Some c) s))), now, duration b)]"
proof -
  let ?s' = "snd (onmessage t (Some c) s)"
  let ?s'' = "run evs ?s'"
  from onmessage_ok [OF assms(2)] assms(1)
  have eq: "?s' = snd (endTurn c (interrupt s2))"
    by simp
  have a: "audioSourcesRef s2 \<subseteq> stopped ?s'"
    by (simp add: eq endTurn_keeps interrupt_resets)
  have b: "audioSourcesRef ?s' = {}"
    by (simp add: eq endTurn_keeps interrupt_resets)
  have z: "nextStartTimeRef ?s' = 0"
    by (simp add: eq endTurn_keeps interrupt_resets)
  have ctx: "outputAudioContextRef (takeTranscriptions c' ?s'') \<noteq> None"
    using assms(3,8) by (simp add: takeTranscriptions_keeps silent_run onmessage_keeps_context)
  have "playAudio now c' (takeTranscriptions c' ?s'')
          = Inr (schedule now b (takeTranscriptions c' ?s''))"
    using assms(4,5) ctx assms(6,7) by (rule playAudio_chunk)
  from onmessage_ok [OF this]
  have "scheduled (snd (onmessage now (Some c') ?s''))
          = scheduled ?s'' @ [(nextHandle ?s'', max now (nextStartTimeRef ?s''), duration b)]"
    by (simp add: endTurn_keeps interrupt_keeps schedule_fields takeTranscriptions_keeps)
  moreover have "nextStartTimeRef ?s'' = 0"
    using assms(3) z by (rule silent_run)
  ultimately have d: "scheduled (snd (onmessage now (Some c') ?s''))
          = scheduled ?s'' @ [(nextHandle ?s'', now, duration b)]"
    using assms(9) by simp
  from a b z d show ?thesis by blast
qed


theorem interruption_resets_timeline_witness:
  "interrupted interruptContent
   \<and> list_all silent [Message 2 (Some emptyContent)]
   \<and> (0 :: real) \<le> 3
   \<and> nextStartTimeRef playingConversation = 12001 / 12000
   \<and> nextStartTimeRef (snd (onmessage 2 (Some interruptContent) playingConversation)) = 0
   \<and> audioSourcesRef (snd (onmessage 2 (Some interruptContent) playingConversation)) = {}
   \<and> scheduled (snd (onmessage 3 (Some chunkContent)
         (run [Message 2 (Some emptyContent)]
            (snd (onmessage 2 (Some interruptContent) playingConversation)))))
       = scheduled (run [Message 2 (Some emptyContent)]
            (snd (onmessage 2 (Some interruptContent) playingConversation)))
         @ [(nextHandle (run [Message 2 (Some emptyContent)]
              (snd (onmessage 2 (Some interruptContent) playingConversation))), 3, 1 / 12000)]"
proof -
  have h1: "interrupted interruptContent"
    by (rule message_fields)
  have h2: "playAudio 2 interruptContent (takeTranscriptions interruptContent playingConversation)
              = Inr (takeTranscriptions interruptContent playingConversation)"
    using message_fields(2) by (rule playAudio_silent)
  have h3: "list_all silent [Message 2 (Some emptyContent)]"
    by (simp add: message_fields)
  have h8: "outputAudioContextRef playingConversation \<noteq> None"
    by (simp add: playingConversation_def onmessage_keeps_context listening_fields)
  have h9: "(0 :: real) \<le> 3"
    by simp
  have w: "nextStartTimeRef playingConversation = 12001 / 12000"
    by (rule playing_fields)
  from interruption_resets_timeline [OF h1 h2 h3 chunk_fields(1) chunk_fields(2)
      chunk_decodes(1) chunk_decodes(2) h8 h9]
  show ?thesis
    using h1 h3 w by (simp add: chunk_decodes)
qed

subsection \<open>Committing a turn\<close>

lemma completeTurn_commit:
  assumes "currentInputTextRef s = Some inputText"
    and "currentOutputTextRef s = Some outputText"
  shows "\<exists>s1. completeTurn s = Inr s1
      \<and> conversation s1
          = conversation s
            @ (if trim inputText = [] \<and> trim outputText = [] then []
               else [\<lparr>role = User, entryText = trim inputText\<rparr>,
                     \<lparr>role = Model, entryText = trim outputText\<rparr>])
      \<and> currentInputTextRef s1 = Some [] \<and> currentOutputTextRef s1 = Some []"
  using assms by (simp add: completeTurn_def Let_def)

lemma completeTurn_throws:
  assumes "currentInputTextRef s = None \<or> currentOutputTextRef s = None"
  shows "completeTurn s = Inl TypeError"
  using assms by (auto simp add: completeTurn_def split: option.splits)

lemma completeTurn_conversation:
  assumes "completeTurn s = Inr s1"
  shows "\<exists>inputText outputText.
           conversation s1
             = conversation s
               @ (if trim inputText = [] \<and> trim outputText = [] then []
                  else [\<lparr>role = User, entryText = trim inputText\<rparr>,
                        \<lparr>role = Model, entryText = trim outputText\<rparr>])"
proof -
  from assms obtain inputText outputText
    where "currentInputTextRef s = Some inputText" and "currentOutputTextRef s = Some outputText"
    by (auto simp add: completeTurn_def split: option.splits)
  from completeTurn_commit [OF this] assms show ?thesis by auto
qed

lemma endTurn_commit:
  assumes "turnComplete c" and "currentInputTextRef s = Some inputText"
    and "currentOutputTextRef s = Some outputText"
  shows "fst (endTurn c s) = None"
    and "conversation (snd (endTurn c s))
          = conversation s
            @ (if trim inputText = [] \<and> trim outputText = [] then []
               else [\<lparr>role = User, entryText = trim inputText\<rparr>,
                     \<lparr>role = Model, entryText = trim outputText\<rparr>])"
    and "currentInputTextRef (snd (endTurn c s)) = Some []"
    and "currentOutputTextRef (snd (endTurn c s)) = Some []"
proof -
  from completeTurn_commit [OF assms(2,3)] obtain s1
    where s1: "completeTurn s = Inr s1"
      and conv: "conversation s1
          = conversation s
            @ (if trim inputText = [] \<and> trim outputText = [] then []
               else [\<lparr>role = User, entryText = trim inputText\<rparr>,
                     \<lparr>role = Model, entryText = trim outputText\<rparr>])"
      and bufs: "currentInputTextRef s1 = Some []" "currentOutputTextRef s1 = Some []"
    by blast
  from assms(1) s1 have eq: "endTurn c s = (None, s1)"
    by (simp add: endTurn_def)
  show "fst (endTurn c s) = None" by (simp add: eq)
  show "conversation (snd (endTurn c s))
          = conversation s
            @ (if trim inputText = [] \<and> trim outputText = [] then []
               else [\<lparr>role = User, entryText = trim inputText\<rparr>,
                     \<lparr>role = Model, entryText = trim outputText\<rparr>])"
    by (simp only: eq snd_conv conv)
  show "currentInputTextRef (snd (endTurn c s)) = Some []" by (simp add: eq bufs)
  show "currentOutputTextRef (snd (endTurn c s)) = Some []" by (simp add: eq bufs)
qed

lemma transcriber_turn:
  assumes "turnComplete c"
    and "(case inputTranscription c of None \<Rightarrow> currentTurnTextRef r | Some x \<Rightarrow> x)
           = Some turnText"
  shows "fst (onmessage_transcriber (Some c) r) = None"
    and "transcription (snd (onmessage_transcriber (Some c) r))
       = (if trim turnText = [] then transcription r
          else transcription r @ (if transcription r \<noteq> [] then js [CHR 0x0A] else [])
               @ trim turnText)"
    and "currentTurnTextRef (snd (onmessage_transcriber (Some c) r)) = Some []"
    and "interimTranscript (snd (onmessage_transcriber (Some c) r)) = Some []"
  using assms by (simp_all add: onmessage_transcriber_def Let_def split: option.splits)

lemma turn_fields:
  "turnComplete turnContent"
  "\<not> truthy (inlineData turnContent)"
  "inputTranscription turnContent = Some (Some (js '' hi ''))"
  "outputTranscription turnContent = None"
  "\<not> interrupted turnContent"
  "turnComplete bareTurnContent"
  "\<not> truthy (inlineData bareTurnContent)"
  "inputTranscription bareTurnContent = None"
  "outputTranscription bareTurnContent = None"
  "\<not> interrupted bareTurnContent"
  by (simp_all add: turnContent_def bareTurnContent_def emptyContent_def truthy_def)

lemma badTurn_fields:
  "turnComplete badTurnContent"
  "inlineData badTurnContent = Some (js ''!'')"
  "inputTranscription badTurnContent = Some (Some (js '' hi ''))"
  "outputTranscription badTurnContent = None"
  by (simp_all add: badTurnContent_def turnContent_def emptyContent_def)

lemma textlessTurn_fields:
  "turnComplete textlessTurnContent"
  "\<not> truthy (inlineData textlessTurnContent)"
  "inputTranscription textlessTurnContent = Some None"
  "outputTranscription textlessTurnContent = None"
  "\<not> interrupted textlessTurnContent"
  by (simp_all add: textlessTurnContent_def emptyContent_def truthy_def)

lemma trim_eval:
  "trim (js '' hi '') = js ''hi''"
  "trim [] = []"
  "js ''hi'' \<noteq> []"
  by (simp_all add: trim_def isWhiteSpace_def js_def)

lemma initialTranscriber_fields:
  "transcription (initialTranscriber key) = []"
  "currentTurnTextRef (initialTranscriber key) = Some []"
  "isRecording (initialTranscriber key) = False"
  by (simp_all add: initialTranscriber_def)

text \<open>
  A transcription without text puts \<open>undefined\<close> into the buffer. The turn end of the
  same message throws at \<open>trim\<close>: nothing is appended and the buffer is not reset, so
  that every later turn end throws as well, until a transcription with text arrives.
\<close>

lemma textless_turn_throws:
  "fst (onmessage 0 (Some textlessTurnContent) listeningConversation) = Some TypeError"
  "conversation (snd (onmessage 0 (Some textlessTurnContent) listeningConversation)) = []"
  "currentInputTextRef (snd (onmessage 0 (Some textlessTurnContent) listeningConversation))
     = None"
  "fst (onmessage 1 (Some bareTurnContent)
          (snd (onmessage 0 (Some textlessTurnContent) listeningConversation)))
     = Some TypeError"
  "fst (onmessage_transcriber (Some textlessTurnContent) (initialTranscriber None))
     = Some TypeError"
  "currentTurnTextRef (snd (onmessage_transcriber (Some textlessTurnContent)
                              (initialTranscriber None))) = None"
proof -
  let ?s1 = "takeTranscriptions textlessTurnContent listeningConversation"
  have p: "playAudio 0 textlessTurnContent ?s1 = Inr ?s1"
    using textlessTurn_fields(2) by (rule playAudio_silent)
  have b: "currentInputTextRef ?s1 = None"
    by (simp add: takeTranscriptions_texts textlessTurn_fields)
  then have t: "completeTurn ?s1 = Inl TypeError"
    by (simp add: completeTurn_throws)
  from onmessage_ok [OF p]
  have eq: "onmessage 0 (Some textlessTurnContent) listeningConversation = (Some TypeError, ?s1)"
    by (simp add: textlessTurn_fields endTurn_def t)
  show "fst (onmessage 0 (Some textlessTurnContent) listeningConversation) = Some TypeError"
    by (simp add: eq)
  show "conversation (snd (onmessage 0 (Some textlessTurnContent) listeningConversation)) = []"
    by (simp add: eq takeTranscriptions_keeps listening_fields)
  show "currentInputTextRef (snd (onmessage 0 (Some textlessTurnContent) listeningConversation))
     = None"
    by (simp add: eq b)
  let ?s2 = "takeTranscriptions bareTurnContent ?s1"
  have p2: "playAudio 1 bareTurnContent ?s2 = Inr ?s2"
    using turn_fields(7) by (rule playAudio_silent)
  have "currentInputTextRef ?s2 = None"
    by (simp add: takeTranscriptions_texts(1) [of bareTurnContent] turn_fields b)
  then have "completeTurn ?s2 = Inl TypeError"
    by (simp add: completeTurn_throws)
  with onmessage_ok [OF p2]
  show "fst (onmessage 1 (Some bareTurnContent)
          (snd (onmessage 0 (Some textlessTurnContent) listeningConversation)))
     = Some TypeError"
    by (simp add: eq turn_fields endTurn_def)
  show "fst (onmessage_transcriber (Some textlessTurnContent) (initialTranscriber None))
     = Some TypeError"
    by (simp add: onmessage_transcriber_def textlessTurn_fields)
  show "currentTurnTextRef (snd (onmessage_transcriber (Some textlessTurnContent)
                              (initialTranscriber None))) = None"
    by (simp add: onmessage_transcriber_def textlessTurn_fields)
qed

subsection \<open>Claim C4: the turn commit rule\<close>

text \<open>
  Claim C4 does not hold of every turn-complete message. The turn-complete block is the
  last of the handler: when the message also carries a chunk that does not decode, the
  handler throws in the audio block. Such a message, with the user's text \<open>hi\<close>,
  appends nothing to the log although the trimmed text is not empty, and the buffer keeps
  the text.
\<close>

theorem turn_lost_after_bad_chunk:
  "turnComplete badTurnContent
   \<and> fst (onmessage 0 (Some badTurnContent) listeningConversation) = Some InvalidCharacterError
   \<and> conversation (snd (onmessage 0 (Some badTurnContent) listeningConversation)) = []
   \<and> currentInputTextRef (snd (onmessage 0 (Some badTurnContent) listeningConversation))
       = Some (js '' hi '')
   \<and> trim (js '' hi '') \<noteq> []"
proof -
  have ctx: "outputAudioContextRef listeningConversation \<noteq> None"
    by (simp add: listening_fields)
  from onmessage_bad_chunk [OF badTurn_fields(2) ctx]
  have eq: "onmessage 0 (Some badTurnContent) listeningConversation
              = (Some InvalidCharacterError,
                 takeTranscriptions badTurnContent listeningConversation)" .
  show ?thesis
    by (simp add: eq badTurn_fields takeTranscriptions_keeps takeTranscriptions_texts
        listening_fields trim_eval)
qed

text \<open>
  Claim C4, for a turn-complete message in which the audio block does not throw (it
  carries no chunk, or its chunk decodes) and with partial buffers that hold text: both
  buffers are trimmed. If both trimmed texts are empty the conversation log is unchanged;
  otherwise exactly two entries are appended, the user's and the model's, in this order.
  The transcriber appends its one trimmed text when it is not empty. Afterwards the
  buffers are empty, and the handler has not thrown.
\<close>

theorem turn_commit_rule:
  assumes "turnComplete c" and "playAudio t c (takeTranscriptions c s) = Inr s2"
    and "(case inputTranscription c of None \<Rightarrow> currentInputTextRef s | Some x \<Rightarrow> x)
           = Some inputText"
    and "(case outputTranscription c of None \<Rightarrow> currentOutputTextRef s | Some x \<Rightarrow> x)
           = Some outputText"
    and "(case inputTranscription c of None \<Rightarrow> currentTurnTextRef r | Some x \<Rightarrow> x)
           = Some turnText"
  shows "fst (onmessage t (Some c) s) = None
       \<and> (let userText = trim inputText;
              modelText = trim outputText;
              s' = snd (onmessage t (Some c) s)
          in conversation s'
               = conversation s
                 @ (if userText = [] \<and> modelText = [] then []
                    else [\<lparr>role = User, entryText = userText\<rparr>,
                          \<lparr>role = Model, entryText = modelText\<rparr>])
             \<and> currentInputTextRef s' = Some [] \<and> currentOutputTextRef s' = Some [])
       \<and> fst (onmessage_transcriber (Some c) r) = None
       \<and> (let finalTurnText = trim turnText;
               r' = snd (onmessage_transcriber (Some c) r)
           in transcription r'
                = (if finalTurnText = [] then transcription r
                   else transcription r @ (if transcription r \<noteq> [] then js [CHR 0x0A] else [])
                        @ finalTurnText)
              \<and> currentTurnTextRef r' = Some [] \<and> interimTranscript r' = Some [])"
proof -
  let ?s3 = "if interrupted c then interrupt s2 else s2"
  from onmessage_ok [OF assms(2)]
  have eq: "onmessage t (Some c) s = endTurn c ?s3" .
  have in2: "currentInputTextRef ?s3 = Some inputText"
    using playAudio_keeps(3) [OF assms(2)] assms(3)
    by (simp add: interrupt_keeps takeTranscriptions_texts)
  have out2: "currentOutputTextRef ?s3 = Some outputText"
    using playAudio_keeps(4) [OF assms(2)] assms(4)
    by (simp add: interrupt_keeps takeTranscriptions_texts)
  have conv2: "conversation ?s3 = conversation s"
    using playAudio_keeps(2) [OF assms(2)]
    by (simp add: interrupt_keeps takeTranscriptions_keeps)
  note e = endTurn_commit [OF assms(1) in2 out2]
  show ?thesis
    unfolding Let_def eq e conv2
    using transcriber_turn [OF assms(1) assms(5)]
    by simp
qed

theorem turn_commit_rule_witness:
  "turnComplete turnContent \<and> turnComplete bareTurnContent
   \<and> conversation (snd (onmessage 0 (Some turnContent) listeningConversation))
       = [\<lparr>role = User, entryText = js ''hi''\<rparr>, \<lparr>role = Model, entryText = []\<rparr>]
   \<and> currentInputTextRef (snd (onmessage 0 (Some turnContent) listeningConversation)) = Some []
   \<and> transcription (snd (onmessage_transcriber (Some turnContent) (initialTranscriber None)))
       = js ''hi''
   \<and> conversation (snd (onmessage 0 (Some bareTurnContent) listeningConversation)) = []
   \<and> transcription (snd (onmessage_transcriber (Some bareTurnContent) (initialTranscriber None)))
       = []"
proof -
  have p1: "playAudio 0 turnContent (takeTranscriptions turnContent listeningConversation)
              = Inr (takeTranscriptions turnContent listeningConversation)"
    using turn_fields(2) by (rule playAudio_silent)
  have p2: "playAudio 0 bareTurnContent (takeTranscriptions bareTurnContent listeningConversation)
              = Inr (takeTranscriptions bareTurnContent listeningConversation)"
    using turn_fields(7) by (rule playAudio_silent)
  have a: "(case inputTranscription turnContent of
              None \<Rightarrow> currentInputTextRef listeningConversation | Some x \<Rightarrow> x)
             = Some (js '' hi '')"
    "(case outputTranscription turnContent of
        None \<Rightarrow> currentOutputTextRef listeningConversation | Some x \<Rightarrow> x) = Some []"
    "(case inputTranscription turnContent of
        None \<Rightarrow> currentTurnTextRef (initialTranscriber None) | Some x \<Rightarrow> x)
       = Some (js '' hi '')"
    by (simp_all add: turn_fields listening_fields)
  have b: "(case inputTranscription bareTurnContent of
              None \<Rightarrow> currentInputTextRef listeningConversation | Some x \<Rightarrow> x) = Some []"
    "(case outputTranscription bareTurnContent of
        None \<Rightarrow> currentOutputTextRef listeningConversation | Some x \<Rightarrow> x) = Some []"
    "(case inputTranscription bareTurnContent of
        None \<Rightarrow> currentTurnTextRef (initialTranscriber None) | Some x \<Rightarrow> x) = Some []"
    by (simp_all add: turn_fields listening_fields initialTranscriber_fields)
  from turn_commit_rule [OF turn_fields(1) p1 a] turn_commit_rule [OF turn_fields(6) p2 b]
  show ?thesis
    by (simp add: Let_def turn_fields trim_eval listening_fields initialTranscriber_fields)
qed

subsection \<open>Claim C5: what a committed turn holds\<close>

lemma committedTurns_append:
  "committedTurns xs \<Longrightarrow> committedTurns ys \<Longrightarrow> committedTurns (xs @ ys)"
  by (induction xs rule: committedTurns.induct) simp_all

lemma cleanup_conversation: "conversation (cleanup s) = conversation s"
  by (simp add: cleanup_def)

lemma committedTurns_completeTurn:
  assumes "committedTurns (conversation s)" and "completeTurn s = Inr s1"
  shows "committedTurns (conversation s1)"
  using completeTurn_conversation [OF assms(2)] assms(1)
  by (auto simp add: committedTurns_append)

lemma committedTurns_endTurn:
  assumes "committedTurns (conversation s)"
  shows "committedTurns (conversation (snd (endTurn c s)))"
  using assms by (simp add: endTurn_def committedTurns_completeTurn split: sum.splits)

lemma committedTurns_onmessage:
  assumes "committedTurns (conversation s)"
  shows "committedTurns (conversation (snd (onmessage t m s)))"
proof (cases m)
  case None
  with assms show ?thesis by (simp add: onmessage_def)
next
  case (Some c)
  show ?thesis
  proof (cases "playAudio t c (takeTranscriptions c s)")
    case (Inl e)
    with Some assms show ?thesis by (simp add: onmessage_failed takeTranscriptions_keeps)
  next
    case (Inr s2)
    have "committedTurns (conversation (if interrupted c then interrupt s2 else s2))"
      using assms playAudio_keeps(2) [OF Inr]
      by (simp add: interrupt_keeps takeTranscriptions_keeps)
    with Some Inr show ?thesis
      by (simp add: onmessage_ok committedTurns_endTurn)
  qed
qed

lemma committedTurns_fire:
  assumes "committedTurns (conversation s)"
  shows "committedTurns (conversation (fire e s))"
proof (cases e)
  case (Start renderedStatus)
  with assms show ?thesis
    by (simp add: handleStart_def startFailed_def cleanup_conversation Let_def)
next
  case (StartResumed outcome)
  with assms show ?thesis
    by (cases outcome)
      (simp_all add: handleStart_resume_def startFailed_def cleanup_conversation Let_def)
next
  case Stop
  with assms show ?thesis by (simp add: handleStop_def cleanup_conversation)
next
  case (Message t m)
  with assms show ?thesis by (simp add: committedTurns_onmessage)
qed (use assms in \<open>simp_all add: onopen_def onclose_def onended_def Let_def\<close>)

lemma committedTurns_run:
  "committedTurns (conversation s) \<Longrightarrow> committedTurns (conversation (run evs s))"
  by (induction evs arbitrary: s) (simp_all add: committedTurns_fire)

lemma transcriber_appends:
  assumes "transcription (snd (onmessage_transcriber m r)) \<noteq> transcription r"
  shows "\<exists>finalTurnText. finalTurnText \<noteq> []
           \<and> transcription (snd (onmessage_transcriber m r))
               = transcription r @ (if transcription r \<noteq> [] then js [CHR 0x0A] else [])
                 @ finalTurnText"
  using assms
  by (auto simp add: onmessage_transcriber_def Let_def split: option.splits if_splits)

text \<open>
  Claim C5 says that no entry with empty text is ever appended to the log. The
  conversation appends both entries of a turn as soon as one of them has text: after the
  user's \<open>hi\<close> and a turn end, the model's entry is in the log with empty text.
\<close>

theorem empty_text_entry_is_appended:
  "conversation (snd (onmessage 0 (Some turnContent) listeningConversation))
     = [\<lparr>role = User, entryText = js ''hi''\<rparr>, \<lparr>role = Model, entryText = []\<rparr>]
   \<and> entryText (conversation (snd (onmessage 0 (Some turnContent) listeningConversation)) ! 1)
       = []"
proof -
  have "playAudio 0 turnContent (takeTranscriptions turnContent listeningConversation)
              = Inr (takeTranscriptions turnContent listeningConversation)"
    using turn_fields(2) by (rule playAudio_silent)
  from onmessage_ok [OF this]
  have "conversation (snd (onmessage 0 (Some turnContent) listeningConversation))
     = [\<lparr>role = User, entryText = js ''hi''\<rparr>, \<lparr>role = Model, entryText = []\<rparr>]"
    by (simp add: turn_fields endTurn_commit takeTranscriptions_keeps
        takeTranscriptions_texts listening_fields trim_eval)
  then show ?thesis by simp
qed

text \<open>
  Claim C5 as amended: over every sequence of events the conversation log consists of
  turns, each a user entry followed by a model entry, of which at least one has
  non-empty text; and whenever the transcriber extends its transcript, it appends a
  non-empty trimmed text.
\<close>

theorem committed_turns_have_text:
  "(committedTurns (conversation s) \<longrightarrow> committedTurns (conversation (run evs s)))
   \<and> (transcription (snd (onmessage_transcriber m r)) \<noteq> transcription r
      \<longrightarrow> (\<exists>finalTurnText. finalTurnText \<noteq> []
             \<and> transcription (snd (onmessage_transcriber m r))
                 = transcription r @ (if transcription r \<noteq> [] then js [CHR 0x0A] else [])
                   @ finalTurnText))"
  using committedTurns_run [of s evs] transcriber_appends [of m r] by blast

theorem committed_turns_have_text_witness:
  "committedTurns (conversation listeningConversation)
   \<and> committedTurns (conversation
        (run [Message 0 (Some turnContent), Message 1 (Some bareTurnContent)]
           listeningConversation))
   \<and> transcription (snd (onmessage_transcriber (Some turnContent) (initialTranscriber None)))
       \<noteq> transcription (initialTranscriber None)
   \<and> (\<exists>finalTurnText. finalTurnText \<noteq> []
        \<and> transcription (snd (onmessage_transcriber (Some turnContent)
                                 (initialTranscriber None)))
            = transcription (initialTranscriber None)
              @ (if transcription (initialTranscriber None) \<noteq> [] then js [CHR 0x0A] else [])
              @ finalTurnText)"
proof -
  have h1: "committedTurns (conversation listeningConversation)"
    by (simp add: listening_fields)
  have "(case inputTranscription turnContent of
           None \<Rightarrow> currentTurnTextRef (initialTranscriber None) | Some x \<Rightarrow> x)
          = Some (js '' hi '')"
    by (simp add: turn_fields)
  from transcriber_turn(2) [OF turn_fields(1) this]
  have h2: "transcription (snd (onmessage_transcriber (Some turnContent)
                                  (initialTranscriber None)))
       \<noteq> transcription (initialTranscriber None)"
    by (simp add: trim_eval initialTranscriber_fields)
  from committed_turns_have_text
    [of listeningConversation "[Message 0 (Some turnContent), Message 1 (Some bareTurnContent)]"
        "Some turnContent" "initialTranscriber None"] h1 h2
  show ?thesis by blast
qed

subsection \<open>Claim C6: a close by the remote side\<close>

lemma handleStop_listening:
  "handleStop listeningConversation =
     \<lparr>API_KEY = Some (js ''key''), pendingUserMedia = 0, nextHandle = 5, liveStreams = {},
      tappedProcessors = {}, openContexts = {}, openSessions = {}, scheduled = [],
      stopped = {}, error = None, sessionPromiseRef = None, scriptProcessorRef = None,
      mediaStreamRef = None, status = Idle, conversation = [], inputAudioContextRef = None,
      outputAudioContextRef = None, nextStartTimeRef = 0, audioSourcesRef = {},
      currentInputTextRef = Some [], currentOutputTextRef = Some []\<rparr>"
  by (simp add: listening_eval handleStop_def cleanup_def release_def)

text \<open>
  Claim C6 asks that a close event from the remote side tears the session down like
  \<open>handleStop\<close> does. \<open>onclose\<close> only sets the status: in a listening conversation the
  microphone stream stays live, the processing tap connected and both audio contexts
  open, the references stay set, and since the status is now idle a later
  \<open>handleStop\<close> returns at once and releases nothing. \<open>handleStop\<close> in the same state
  releases all of them.
\<close>

theorem remote_close_leaves_capture_running:
  "status (onclose listeningConversation) = Idle
   \<and> mediaStreamRef (onclose listeningConversation) = Some 0
   \<and> liveStreams (onclose listeningConversation) = {0}
   \<and> tappedProcessors (onclose listeningConversation) = {4}
   \<and> openContexts (onclose listeningConversation) = {1, 2}
   \<and> handleStop (onclose listeningConversation) = onclose listeningConversation
   \<and> liveStreams (handleStop listeningConversation) = {}
   \<and> tappedProcessors (handleStop listeningConversation) = {}
   \<and> openContexts (handleStop listeningConversation) = {}
   \<and> openSessions (handleStop listeningConversation) = {}"
  by (simp add: handleStop_listening) (simp add: listening_eval onclose_def handleStop_def)

subsection \<open>Starting a session\<close>

lemma handleStart_busy:
  "renderedStatus \<noteq> Idle \<Longrightarrow> handleStart renderedStatus s = (Finished, s)"
  by (simp add: handleStart_def)


lemma handleStart_idle:
  assumes "truthy (API_KEY s)"
  shows "fst (handleStart Idle s) = AwaitGetUserMedia"
    and "status (snd (handleStart Idle s)) = Connecting"
    and "openSessions (snd (handleStart Idle s)) = openSessions s"
    and "nextHandle (snd (handleStart Idle s)) = nextHandle s"
    and "error (snd (handleStart Idle s)) = None"
    and "pendingUserMedia (snd (handleStart Idle s)) = pendingUserMedia s + 1"
  using assms by (simp_all add: handleStart_def Let_def)

lemma cleanup_keeps:
  "conversation (cleanup s) = conversation s"
  "currentInputTextRef (cleanup s) = currentInputTextRef s"
  "currentOutputTextRef (cleanup s) = currentOutputTextRef s"
  "nextStartTimeRef (cleanup s) = nextStartTimeRef s"
  "audioSourcesRef (cleanup s) = audioSourcesRef s"
  "stopped (cleanup s) = stopped s"
  "scheduled (cleanup s) = scheduled s"
  "nextHandle (cleanup s) = nextHandle s"
  "error (cleanup s) = error s"
  "status (cleanup s) = status s"
  "pendingUserMedia (cleanup s) = pendingUserMedia s"
  "API_KEY (cleanup s) = API_KEY s"
  by (simp_all add: cleanup_def)

lemma handleStart_clears:
  "conversation (snd (handleStart Idle s)) = []"
  "currentInputTextRef (snd (handleStart Idle s)) = Some []"
  "currentOutputTextRef (snd (handleStart Idle s)) = Some []"
  "nextStartTimeRef (snd (handleStart Idle s)) = 0"
  by (simp_all add: handleStart_def startFailed_def cleanup_keeps Let_def)

lemma handleStart_carries:
  "audioSourcesRef (snd (handleStart renderedStatus s)) = audioSourcesRef s"
  "stopped (snd (handleStart renderedStatus s)) = stopped s"
  "scheduled (snd (handleStart renderedStatus s)) = scheduled s"
  by (simp_all add: handleStart_def startFailed_def cleanup_keeps Let_def)

lemma handleStart_resume_opens:
  assumes "0 < pendingUserMedia s"
  shows "status (handleStart_resume (Inr ()) s) = status s"
    and "openSessions (handleStart_resume (Inr ()) s)
           = insert (nextHandle s + 3) (openSessions s)"
    and "conversation (handleStart_resume (Inr ()) s) = conversation s"
    and "currentInputTextRef (handleStart_resume (Inr ()) s) = currentInputTextRef s"
    and "currentOutputTextRef (handleStart_resume (Inr ()) s) = currentOutputTextRef s"
    and "nextStartTimeRef (handleStart_resume (Inr ()) s) = nextStartTimeRef s"
    and "error (handleStart_resume (Inr ()) s) = error s"
    and "audioSourcesRef (handleStart_resume (Inr ()) s) = audioSourcesRef s"
    and "pendingUserMedia (handleStart_resume (Inr ()) s) = pendingUserMedia s - 1"
    and "nextHandle (handleStart_resume (Inr ()) s) = nextHandle s + 4"
    and "sessionPromiseRef (handleStart_resume (Inr ()) s) = Some (nextHandle s + 3)"
  using assms by (simp_all add: handleStart_resume_def Let_def)

lemma handleStart_resume_idle:
  "pendingUserMedia s = 0 \<Longrightarrow> handleStart_resume outcome s = s"
  by (simp add: handleStart_resume_def)

lemma initialConversation_fields:
  "status (initialConversation key) = Idle"
  "API_KEY (initialConversation key) = key"
  "openSessions (initialConversation key) = {}"
  "liveStreams (initialConversation key) = {}"
  "nextHandle (initialConversation key) = 0"
  "error (initialConversation key) = None"
  "pendingUserMedia (initialConversation key) = 0"
  by (simp_all add: initialConversation_def)

lemma key_truthy: "truthy (Some (js ''key''))" "\<not> truthy None" "\<not> truthy (Some [])"
  by (simp_all add: truthy_def js_def)

lemma handleStart_forgets:
  "handleStart renderedStatus
     (s\<lparr>conversation := entries, error := e, currentInputTextRef := a,
        currentOutputTextRef := b, nextStartTimeRef := w\<rparr>)
   = (if renderedStatus = Idle then handleStart renderedStatus s
      else (Finished, s\<lparr>conversation := entries, error := e, currentInputTextRef := a,
                        currentOutputTextRef := b, nextStartTimeRef := w\<rparr>))"
  by (simp add: handleStart_def Let_def)

lemma handleStartRecording_idle:
  assumes "truthy (API_KEY r)"
  shows "fst (handleStartRecording False r) = AwaitGetUserMedia"
    and "isRecording (snd (handleStartRecording False r))"
    and "openSessions (snd (handleStartRecording False r)) = openSessions r"
    and "nextHandle (snd (handleStartRecording False r)) = nextHandle r"
    and "error (snd (handleStartRecording False r)) = None"
    and "pendingUserMedia (snd (handleStartRecording False r)) = pendingUserMedia r + 1"
  using assms by (simp_all add: handleStartRecording_def Let_def)

lemma cleanup_transcriber_keeps:
  "transcription (cleanup_transcriber r) = transcription r"
  "interimTranscript (cleanup_transcriber r) = interimTranscript r"
  "currentTurnTextRef (cleanup_transcriber r) = currentTurnTextRef r"
  "error (cleanup_transcriber r) = error r"
  "isRecording (cleanup_transcriber r) = isRecording r"
  by (simp_all add: cleanup_transcriber_def Let_def split: option.splits)

lemma handleStartRecording_clears:
  "transcription (snd (handleStartRecording False r)) = []"
  "interimTranscript (snd (handleStartRecording False r)) = Some []"
  "currentTurnTextRef (snd (handleStartRecording False r)) = Some []"
  by (simp_all add: handleStartRecording_def recordingFailed_def cleanup_transcriber_keeps Let_def)

lemma handleStartRecording_forgets:
  "handleStartRecording False
     (r\<lparr>transcription := transcript, interimTranscript := a, currentTurnTextRef := b,
        error := e\<rparr>)
   = handleStartRecording False r"
  by (simp add: handleStartRecording_def Let_def)

lemma handleStartRecording_resume_opens:
  assumes "0 < pendingUserMedia r"
  shows "openSessions (handleStartRecording_resume (Inr ()) r)
           = insert (nextHandle r + 2) (openSessions r)"
    and "transcription (handleStartRecording_resume (Inr ()) r) = transcription r"
    and "interimTranscript (handleStartRecording_resume (Inr ()) r) = interimTranscript r"
    and "currentTurnTextRef (handleStartRecording_resume (Inr ()) r) = currentTurnTextRef r"
    and "error (handleStartRecording_resume (Inr ()) r) = error r"
    and "pendingUserMedia (handleStartRecording_resume (Inr ()) r) = pendingUserMedia r - 1"
    and "nextHandle (handleStartRecording_resume (Inr ()) r) = nextHandle r + 3"
    and "sessionPromiseRef (handleStartRecording_resume (Inr ()) r) = Some (nextHandle r + 2)"
  using assms by (simp_all add: handleStartRecording_resume_def Let_def)

text \<open>
  With a re-render between the two calls the guard holds: the second handler was created
  by a render that was not idle, and exactly one session is opened, whatever the first
  call found pending.
\<close>

lemma start_after_render:
  assumes "truthy (API_KEY s)" and "pendingUserMedia s = 0" and "openSessions s = {}"
  shows "run [Start Idle, Start (status (fire (Start Idle) s)), StartResumed (Inr ()),
              StartResumed (Inr ())] s
         = run [Start Idle, StartResumed (Inr ())] s"
    and "openSessions (run [Start Idle, StartResumed (Inr ())] s) = {nextHandle s + 3}"
proof -
  let ?s1 = "snd (handleStart Idle s)"
  have busy: "status ?s1 \<noteq> Idle"
    using handleStart_idle(2) [OF assms(1)] by simp
  have p1: "0 < pendingUserMedia ?s1"
    using handleStart_idle(6) [OF assms(1)] by simp
  have "pendingUserMedia (handleStart_resume (Inr ()) ?s1) = 0"
    using handleStart_resume_opens(9) [OF p1] handleStart_idle(6) [OF assms(1)] assms(2)
    by simp
  then show "run [Start Idle, Start (status (fire (Start Idle) s)), StartResumed (Inr ()),
              StartResumed (Inr ())] s
         = run [Start Idle, StartResumed (Inr ())] s"
    by (simp add: handleStart_busy [OF busy] handleStart_resume_idle)
  show "openSessions (run [Start Idle, StartResumed (Inr ())] s) = {nextHandle s + 3}"
    using handleStart_resume_opens(2) [OF p1] handleStart_idle(3,4) [OF assms(1)] assms(3)
    by simp
qed

subsection \<open>Claim C7: session single-flight\<close>




text \<open>
  A start that is suspended at the request for the microphone survives a stop: after
  start, stop and start again, both calls resume when the microphone is granted, and two
  sessions are open.
\<close>

lemma pending_start_survives_stop:
  "status (run [Start Idle, Stop] (initialConversation (Some (js ''key'')))) = Idle"
  "openSessions (run [Start Idle, Stop, Start Idle, StartResumed (Inr ()),
                      StartResumed (Inr ())] (initialConversation (Some (js ''key''))))
     = {3, 7}"
  by (auto simp add: initialConversation_def handleStart_def handleStart_resume_def
      handleStop_def cleanup_def release_def key_truthy Let_def)


lemma stale_fields:
  "status staleConversation = Idle"
  "truthy (API_KEY staleConversation)"
  "conversation staleConversation \<noteq> []"
  "nextStartTimeRef staleConversation = 7"
  "error staleConversation = Some (js ''old'')"
  "openSessions staleConversation = {}"
  "nextHandle staleConversation = 0"
  "\<not> isRecording staleTranscriber"
  "truthy (API_KEY staleTranscriber)"
  "transcription staleTranscriber = js ''hi''"
  "openSessions staleTranscriber = {}"
  "nextHandle staleTranscriber = 0"
  by (simp_all add: staleConversation_def staleTranscriber_def initialConversation_def
      initialTranscriber_def key_truthy)

subsection \<open>Claim C10: a start resets the session-local state\<close>

lemma playing_record:
  "playingConversation =
     \<lparr>API_KEY = Some (js ''key''), pendingUserMedia = 0, nextHandle = 6, liveStreams = {0},
      tappedProcessors = {4}, openContexts = {1, 2}, openSessions = {3},
      scheduled = [(5, 1, 1 / 12000)], stopped = {}, error = None,
      sessionPromiseRef = Some 3, scriptProcessorRef = Some 4, mediaStreamRef = Some 0,
      status = Listening, conversation = [], inputAudioContextRef = Some 1,
      outputAudioContextRef = Some 2, nextStartTimeRef = 12001 / 12000,
      audioSourcesRef = {5}, currentInputTextRef = Some [], currentOutputTextRef = Some []\<rparr>"
  by (simp add: playing_eval listening_eval schedule_def takeTranscriptions_def chunk_fields
      chunk_decodes Let_def)

lemma restarted_eval:
  "run [Stop, Start Idle, StartResumed (Inr ()), Open] playingConversation =
     \<lparr>API_KEY = Some (js ''key''), pendingUserMedia = 0, nextHandle = 11, liveStreams = {6},
      tappedProcessors = {10}, openContexts = {7, 8}, openSessions = {9},
      scheduled = [(5, 1, 1 / 12000)], stopped = {}, error = None,
      sessionPromiseRef = Some 9, scriptProcessorRef = Some 10, mediaStreamRef = Some 6,
      status = Listening, conversation = [], inputAudioContextRef = Some 7,
      outputAudioContextRef = Some 8, nextStartTimeRef = 0,
      audioSourcesRef = {5}, currentInputTextRef = Some [], currentOutputTextRef = Some []\<rparr>"
  by (simp add: playing_record handleStop_def cleanup_def release_def handleStart_def
      handleStart_resume_def onopen_def key_truthy Let_def)

text \<open>
  Claim C10 concludes that no scheduling state of a previous session affects the new
  one. The set of scheduled sources is reset neither by a stop nor by a start. After a
  stop while source 5 is scheduled and a new start, the new session, with its own
  devices and session 9 open, still holds source 5 in its set, and its first interruption
  stops that source of the previous session.
\<close>

theorem scheduled_sources_survive_restart:
  "audioSourcesRef playingConversation = {5}
   \<and> openSessions (run [Stop, Start Idle, StartResumed (Inr ()), Open] playingConversation)
       = {9}
   \<and> audioSourcesRef (run [Stop, Start Idle, StartResumed (Inr ()), Open] playingConversation)
       = {5}
   \<and> stopped (run [Stop, Start Idle, StartResumed (Inr ()), Open] playingConversation) = {}
   \<and> stopped (snd (onmessage 0 (Some interruptContent)
         (run [Stop, Start Idle, StartResumed (Inr ()), Open] playingConversation))) = {5}"
proof -
  define s where "s = run [Stop, Start Idle, StartResumed (Inr ()), Open] playingConversation"
  have f: "openSessions s = {9}" "audioSourcesRef s = {5}" "stopped s = {}"
    unfolding s_def by (simp_all only: restarted_eval) simp_all
  have "playAudio 0 interruptContent (takeTranscriptions interruptContent s)
          = Inr (takeTranscriptions interruptContent s)"
    using message_fields(2) by (rule playAudio_silent)
  from onmessage_ok [OF this]
  have "stopped (snd (onmessage 0 (Some interruptContent) s)) = {5}"
    by (simp add: message_fields endTurn_keeps interrupt_resets takeTranscriptions_keeps f)
  with f playing_fields(3) show ?thesis
    unfolding s_def by blast
qed

text \<open>
  Claim C10, for the log or transcript, the partial buffers, the error message and the
  watermark: \<open>handleStart\<close> from an idle render empties the conversation log and both
  partial buffers and sets the watermark to 0, and the whole run that follows does not
  depend on what these and the error message held before. The set of scheduled sources is
  carried over as it is. With a key present the error message is cleared and no session
  is opened yet; when the microphone is granted the session is opened with all of them
  still cleared. \<open>handleStartRecording\<close> does the same to the transcript, the interim
  text, the turn buffer and the error message.
\<close>

theorem start_resets_session_state:
  "conversation (snd (handleStart Idle s)) = []
   \<and> currentInputTextRef (snd (handleStart Idle s)) = Some []
   \<and> currentOutputTextRef (snd (handleStart Idle s)) = Some []
   \<and> nextStartTimeRef (snd (handleStart Idle s)) = 0
   \<and> audioSourcesRef (snd (handleStart Idle s)) = audioSourcesRef s
   \<and> run (Start Idle # evs)
        (s\<lparr>conversation := entries, error := e, currentInputTextRef := a,
           currentOutputTextRef := b, nextStartTimeRef := w\<rparr>)
       = run (Start Idle # evs) s
   \<and> (truthy (API_KEY s)
      \<longrightarrow> error (snd (handleStart Idle s)) = None
        \<and> openSessions (snd (handleStart Idle s)) = openSessions s
        \<and> openSessions (handleStart_resume (Inr ()) (snd (handleStart Idle s)))
            = insert (nextHandle s + 3) (openSessions s)
        \<and> conversation (handleStart_resume (Inr ()) (snd (handleStart Idle s))) = []
        \<and> currentInputTextRef (handleStart_resume (Inr ()) (snd (handleStart Idle s)))
            = Some []
        \<and> currentOutputTextRef (handleStart_resume (Inr ()) (snd (handleStart Idle s)))
            = Some []
        \<and> nextStartTimeRef (handleStart_resume (Inr ()) (snd (handleStart Idle s))) = 0
        \<and> error (handleStart_resume (Inr ()) (snd (handleStart Idle s))) = None)
   \<and> transcription (snd (handleStartRecording False r)) = []
   \<and> interimTranscript (snd (handleStartRecording False r)) = Some []
   \<and> currentTurnTextRef (snd (handleStartRecording False r)) = Some []
   \<and> handleStartRecording False
        (r\<lparr>transcription := transcript, interimTranscript := a', currentTurnTextRef := b',
           error := e\<rparr>)
       = handleStartRecording False r
   \<and> (truthy (API_KEY r)
      \<longrightarrow> error (snd (handleStartRecording False r)) = None
        \<and> openSessions (snd (handleStartRecording False r)) = openSessions r
        \<and> openSessions
            (handleStartRecording_resume (Inr ()) (snd (handleStartRecording False r)))
            = insert (nextHandle r + 2) (openSessions r)
        \<and> transcription
            (handleStartRecording_resume (Inr ()) (snd (handleStartRecording False r))) = []
        \<and> error (handleStartRecording_resume (Inr ()) (snd (handleStartRecording False r)))
            = None)"
proof (intro conjI impI)
  show "conversation (snd (handleStart Idle s)) = []"
    "currentInputTextRef (snd (handleStart Idle s)) = Some []"
    "currentOutputTextRef (snd (handleStart Idle s)) = Some []"
    "nextStartTimeRef (snd (handleStart Idle s)) = 0"
    by (simp_all add: handleStart_clears)
  show "audioSourcesRef (snd (handleStart Idle s)) = audioSourcesRef s"
    by (rule handleStart_carries)
  show "run (Start Idle # evs)
        (s\<lparr>conversation := entries, error := e, currentInputTextRef := a,
           currentOutputTextRef := b, nextStartTimeRef := w\<rparr>)
       = run (Start Idle # evs) s"
    by (simp add: handleStart_forgets)
next
  assume k: "truthy (API_KEY s)"
  have p: "0 < pendingUserMedia (snd (handleStart Idle s))"
    using handleStart_idle(6) [OF k] by simp
  show "error (snd (handleStart Idle s)) = None"
    "openSessions (snd (handleStart Idle s)) = openSessions s"
    "openSessions (handleStart_resume (Inr ()) (snd (handleStart Idle s)))
            = insert (nextHandle s + 3) (openSessions s)"
    "conversation (handleStart_resume (Inr ()) (snd (handleStart Idle s))) = []"
    "currentInputTextRef (handleStart_resume (Inr ()) (snd (handleStart Idle s))) = Some []"
    "currentOutputTextRef (handleStart_resume (Inr ()) (snd (handleStart Idle s))) = Some []"
    "nextStartTimeRef (handleStart_resume (Inr ()) (snd (handleStart Idle s))) = 0"
    "error (handleStart_resume (Inr ()) (snd (handleStart Idle s))) = None"
    by (simp_all add: handleStart_resume_opens [OF p] handleStart_idle [OF k]
        handleStart_clears)
next
  show "transcription (snd (handleStartRecording False r)) = []"
    "interimTranscript (snd (handleStartRecording False r)) = Some []"
    "currentTurnTextRef (snd (handleStartRecording False r)) = Some []"
    by (simp_all add: handleStartRecording_clears)
  show "handleStartRecording False
        (r\<lparr>transcription := transcript, interimTranscript := a', currentTurnTextRef := b',
           error := e\<rparr>)
       = handleStartRecording False r"
    by (rule handleStartRecording_forgets)
next
  assume k: "truthy (API_KEY r)"
  have p: "0 < pendingUserMedia (snd (handleStartRecording False r))"
    using handleStartRecording_idle(6) [OF k] by simp
  show "error (snd (handleStartRecording False r)) = None"
    "openSessions (snd (handleStartRecording False r)) = openSessions r"
    "openSessions (handleStartRecording_resume (Inr ()) (snd (handleStartRecording False r)))
            = insert (nextHandle r + 2) (openSessions r)"
    "transcription (handleStartRecording_resume (Inr ()) (snd (handleStartRecording False r)))
       = []"
    "error (handleStartRecording_resume (Inr ()) (snd (handleStartRecording False r))) = None"
    by (simp_all add: handleStartRecording_resume_opens [OF p] handleStartRecording_idle [OF k]
        handleStartRecording_clears)
qed

theorem start_resets_session_state_witness:
  "truthy (API_KEY staleConversation)
   \<and> conversation staleConversation \<noteq> [] \<and> nextStartTimeRef staleConversation = 7
   \<and> conversation (snd (handleStart Idle staleConversation)) = []
   \<and> nextStartTimeRef (snd (handleStart Idle staleConversation)) = 0
   \<and> error (snd (handleStart Idle staleConversation)) = None
   \<and> openSessions (snd (handleStart Idle staleConversation)) = {}
   \<and> openSessions (handleStart_resume (Inr ()) (snd (handleStart Idle staleConversation)))
       = {3}
   \<and> conversation (handleStart_resume (Inr ()) (snd (handleStart Idle staleConversation)))
       = []
   \<and> truthy (API_KEY staleTranscriber)
   \<and> transcription staleTranscriber = js ''hi''
   \<and> transcription (snd (handleStartRecording False staleTranscriber)) = []
   \<and> error (snd (handleStartRecording False staleTranscriber)) = None
   \<and> openSessions
        (handleStartRecording_resume (Inr ())
           (snd (handleStartRecording False staleTranscriber))) = {2}"
proof -
  have b: "truthy (API_KEY staleConversation)"
    and d: "truthy (API_KEY staleTranscriber)"
    by (simp_all add: stale_fields)
  from start_resets_session_state [of staleConversation _ _ _ _ _ _ staleTranscriber] b d
  have "conversation (snd (handleStart Idle staleConversation)) = []
   \<and> nextStartTimeRef (snd (handleStart Idle staleConversation)) = 0
   \<and> error (snd (handleStart Idle staleConversation)) = None
   \<and> openSessions (snd (handleStart Idle staleConversation)) = openSessions staleConversation
   \<and> openSessions (handleStart_resume (Inr ()) (snd (handleStart Idle staleConversation)))
       = insert (nextHandle staleConversation + 3) (openSessions staleConversation)
   \<and> conversation (handleStart_resume (Inr ()) (snd (handleStart Idle staleConversation)))
       = []
   \<and> transcription (snd (handleStartRecording False staleTranscriber)) = []
   \<and> error (snd (handleStartRecording False staleTranscriber)) = None
   \<and> openSessions
        (handleStartRecording_resume (Inr ())
           (snd (handleStartRecording False staleTranscriber)))
       = insert (nextHandle staleTranscriber + 2) (openSessions staleTranscriber)"
    by blast
  then show ?thesis
    by (simp add: stale_fields)
qed

subsection \<open>Claim C8: a missing credential\<close>

lemma messages_joined:
  "js ''Failed to start conversation: '' @ js ''API_KEY environment variable not set.''
     = js ''Failed to start conversation: API_KEY environment variable not set.''"
  "js ''Failed to start recording: '' @ js ''API_KEY environment variable not set.''
     = js ''Failed to start recording: API_KEY environment variable not set.''"
  "js ''Speech generation failed: '' @ js ''API_KEY not set.''
     = js ''Speech generation failed: API_KEY not set.''"
  "js ''Generation failed: '' @ js ''API_KEY not set.''
     = js ''Generation failed: API_KEY not set.''"
  "js ''Upscaling failed: '' @ js ''API_KEY not set.''
     = js ''Upscaling failed: API_KEY not set.''"
  "js ''Error: '' @ js ''API_KEY not set.'' = js ''Error: API_KEY not set.''"
  by (simp_all add: js_def)

lemma release_subset: "release ref live \<subseteq> live"
  by (auto simp add: release_def split: option.splits)

lemma cleanup_fields:
  "openSessions (cleanup s) \<subseteq> openSessions s"
  "liveStreams (cleanup s) \<subseteq> liveStreams s"
  by (simp_all add: cleanup_def release_subset)

lemma cleanup_transcriber_fields:
  "nextHandle (cleanup_transcriber r) = nextHandle r"
  "openSessions (cleanup_transcriber r) \<subseteq> openSessions r"
  "liveStreams (cleanup_transcriber r) \<subseteq> liveStreams r"
  "pendingUserMedia (cleanup_transcriber r) = pendingUserMedia r"
  by (auto simp add: cleanup_transcriber_def Let_def split: option.splits)

lemma handleStart_without_key:
  assumes "\<not> truthy (API_KEY s)"
  shows "fst (handleStart Idle s) = Finished"
    and "status (snd (handleStart Idle s)) = Idle"
    and "error (snd (handleStart Idle s))
           = Some (js ''Failed to start conversation: API_KEY environment variable not set.'')"
    and "nextHandle (snd (handleStart Idle s)) = nextHandle s"
    and "pendingUserMedia (snd (handleStart Idle s)) = pendingUserMedia s"
    and "openSessions (snd (handleStart Idle s)) \<subseteq> openSessions s"
    and "liveStreams (snd (handleStart Idle s)) \<subseteq> liveStreams s"
proof -
  let ?s1 = "s\<lparr>status := Connecting, error := None, conversation := [],
               currentInputTextRef := Some [], currentOutputTextRef := Some [],
               nextStartTimeRef := 0\<rparr>"
  let ?s2 = "?s1\<lparr>error := Some (js ''Failed to start conversation: ''
                 @ errorMessage (ErrorWith (js ''API_KEY environment variable not set.''))),
               status := Idle\<rparr>"
  have eq: "handleStart Idle s = (Finished, cleanup ?s2)"
    using assms by (simp add: handleStart_def startFailed_def Let_def)
  show "fst (handleStart Idle s) = Finished"
    by (simp add: eq)
  show "status (snd (handleStart Idle s)) = Idle"
    by (simp add: eq cleanup_keeps)
  show "error (snd (handleStart Idle s))
           = Some (js ''Failed to start conversation: API_KEY environment variable not set.'')"
    by (simp add: eq cleanup_keeps errorMessage_def messages_joined)
  show "nextHandle (snd (handleStart Idle s)) = nextHandle s"
    by (simp add: eq cleanup_keeps)
  show "pendingUserMedia (snd (handleStart Idle s)) = pendingUserMedia s"
    by (simp add: eq cleanup_keeps)
  show "openSessions (snd (handleStart Idle s)) \<subseteq> openSessions s"
    using cleanup_fields(1) [of ?s2] by (simp add: eq)
  show "liveStreams (snd (handleStart Idle s)) \<subseteq> liveStreams s"
    using cleanup_fields(2) [of ?s2] by (simp add: eq)
qed

lemma handleStartRecording_without_key:
  assumes "\<not> truthy (API_KEY r)"
  shows "fst (handleStartRecording False r) = Finished"
    and "\<not> isRecording (snd (handleStartRecording False r))"
    and "error (snd (handleStartRecording False r))
           = Some (js ''Failed to start recording: API_KEY environment variable not set.'')"
    and "nextHandle (snd (handleStartRecording False r)) = nextHandle r"
    and "pendingUserMedia (snd (handleStartRecording False r)) = pendingUserMedia r"
    and "openSessions (snd (handleStartRecording False r)) \<subseteq> openSessions r"
    and "liveStreams (snd (handleStartRecording False r)) \<subseteq> liveStreams r"
proof -
  let ?r1 = "r\<lparr>isRecording := True, error := None, transcription := [],
               interimTranscript := Some [], currentTurnTextRef := Some []\<rparr>"
  let ?r2 = "?r1\<lparr>error := Some (js ''Failed to start recording: ''
                 @ errorMessage (ErrorWith (js ''API_KEY environment variable not set.''))),
               isRecording := False\<rparr>"
  have eq: "handleStartRecording False r = (Finished, cleanup_transcriber ?r2)"
    using assms by (simp add: handleStartRecording_def recordingFailed_def Let_def)
  show "fst (handleStartRecording False r) = Finished"
    by (simp add: eq)
  show "\<not> isRecording (snd (handleStartRecording False r))"
    by (simp add: eq cleanup_transcriber_keeps)
  show "error (snd (handleStartRecording False r))
           = Some (js ''Failed to start recording: API_KEY environment variable not set.'')"
    by (simp add: eq cleanup_transcriber_keeps errorMessage_def messages_joined)
  show "nextHandle (snd (handleStartRecording False r)) = nextHandle r"
    by (simp add: eq cleanup_transcriber_fields)
  show "pendingUserMedia (snd (handleStartRecording False r)) = pendingUserMedia r"
    by (simp add: eq cleanup_transcriber_fields)
  show "openSessions (snd (handleStartRecording False r)) \<subseteq> openSessions r"
    using cleanup_transcriber_fields(2) [of ?r2] by (simp add: eq)
  show "liveStreams (snd (handleStartRecording False r)) \<subseteq> liveStreams r"
    using cleanup_transcriber_fields(3) [of ?r2] by (simp add: eq)
qed

lemma service_without_key:
  assumes "\<not> truthy key"
  shows "extractPromptFromImage key
           = Rejected (ErrorWith (js ''API_KEY environment variable not set.''))"
    and "generativeResize key = Rejected (ErrorWith (js ''API_KEY not set.''))"
    and "editImage key = Rejected (ErrorWith (js ''API_KEY not set.''))"
    and "faceSwap key = Rejected (ErrorWith (js ''API_KEY not set.''))"
    and "generateImageFromText key aspectRatio = Rejected (ErrorWith (js ''API_KEY not set.''))"
    and "generateSpeech key = Rejected (ErrorWith (js ''API_KEY not set.''))"
    and "upscaleImage key = Rejected (ErrorWith (js ''API_KEY not set.''))"
    and "generateImageFromElements key = Rejected (ErrorWith (js ''API_KEY not set.''))"
    and "restyleImage key = Rejected (ErrorWith (js ''API_KEY not set.''))"
    and "virtualTryOn key = Rejected (ErrorWith (js ''API_KEY not set.''))"
    and "virtualTryOnMultiple key = Rejected (ErrorWith (js ''API_KEY not set.''))"
  using assms
  by (simp_all add: extractPromptFromImage_def generativeResize_def editImage_def faceSwap_def
      generateImageFromText_def generateSpeech_def upscaleImage_def
      generateImageFromElements_def restyleImage_def virtualTryOn_def virtualTryOnMultiple_def)

lemma handleGenerateSpeech_without_key:
  assumes "\<not> truthy key" and "text_TTS t \<noteq> []"
  shows "handleGenerateSpeech key t
           = (Finished,
              t\<lparr>isLoading := False,
                error_TTS := Some (js ''Speech generation failed: API_KEY not set.''),
                audioUrl := None\<rparr>)"
  using assms
  by (simp add: handleGenerateSpeech_def service_without_key errorMessage_def messages_joined
      Let_def)

lemma tts_fields: "js ''hello'' \<noteq> []"
  by (simp add: js_def)

text \<open>The image panels, one by one.\<close>

lemma editor_without_key:
  assumes "\<not> truthy key" and "originalImage \<noteq> None"
  shows "prompt \<noteq> [] \<Longrightarrow>
         handleGenerateClick_ImageEditor key originalImage prompt p
           = (Finished, failedWith (js ''Generation failed: API_KEY not set.'') p)"
    and "selectedEffect \<noteq> None \<Longrightarrow>
         handleGenerateClick_ImageEffects key originalImage selectedEffect p
           = (Finished, failedWith (js ''Generation failed: API_KEY not set.'') p)"
    and "handleUpscaleClick key originalImage p
           = (Finished, failedWith (js ''Upscaling failed: API_KEY not set.'') p)"
  using assms
  by (auto simp add: handleGenerateClick_ImageEditor_def handleGenerateClick_ImageEffects_def
      handleUpscaleClick_def service_without_key errorMessage_def messages_joined failedWith_def
      Let_def)

lemma reference_without_key:
  assumes "\<not> truthy key"
  shows "subjectImages \<noteq> [] \<or> sceneImages \<noteq> [] \<or> styleImages \<noteq> [] \<Longrightarrow>
         handleGenerate key subjectImages sceneImages styleImages p
           = (Finished, failedWith (js ''Generation failed: API_KEY not set.'') p)"
    and "restyleOriginalImage \<noteq> [] \<Longrightarrow> restyleStyleImage \<noteq> [] \<Longrightarrow>
         handleRestyleGenerate key restyleOriginalImage restyleStyleImage p
           = (Finished, failedWith (js ''Generation failed: API_KEY not set.'') p)"
  using assms
  by (auto simp add: handleGenerate_def handleRestyleGenerate_def service_without_key
      errorMessage_def messages_joined failedWith_def Let_def)

lemma textToImage_without_key:
  assumes "\<not> truthy key" and "prompt \<noteq> []"
  shows "handleTextToImageGenerate key prompt aspectRatio hasSelectedApiKey p
           = (if aspectRatio = js ''4096x832'' \<and> hasSelectedApiKey
              then (AwaitKeySelection,
                    p\<lparr>isLoading_Panel := True, error_Panel := None, result_Panel := None\<rparr>)
              else (Finished, failedWith (js ''Generation failed: API_KEY not set.'') p))"
    and "handleTextToImageGenerate_resume key aspectRatio
           (p\<lparr>isLoading_Panel := True, error_Panel := None, result_Panel := None\<rparr>)
           = (Finished, failedWith (js ''Generation failed: API_KEY not set.'') p)"
  using assms
  by (auto simp add: handleTextToImageGenerate_def handleTextToImageGenerate_resume_def
      handleTextToImageGenerate_call_def service_without_key errorMessage_def messages_joined
      failedWith_def Let_def)

lemma extract_without_key:
  assumes "\<not> truthy key"
    and "media = Some (ImageMedia imageFile)
         \<or> media = Some (VideoMedia url) \<and> captureFrame \<noteq> None"
  shows "handleExtract key errorUpload media captureFrame p
           = (Finished,
              p\<lparr>isLoading_Panel := False,
                error_Panel := Some (js ''API_KEY environment variable not set.''),
                result_Panel := Some []\<rparr>)"
  using assms
  by (auto simp add: handleExtract_def service_without_key Let_def)

lemma resize_without_key:
  assumes "\<not> truthy key" and "originalImage \<noteq> None"
    and "parseInt width = Some targetWidth" and "parseInt height = Some targetHeight"
    and "0 < targetWidth" and "0 < targetHeight"
  shows "handleResize key errorUpload errorDimensions originalImage width height Ai p
           = (Finished, failedWith (js ''API_KEY not set.'') p)"
    and "fst (handleResize key errorUpload errorDimensions originalImage width height
                Standard p) = AwaitImageLoad"
  using assms
  by (auto simp add: handleResize_def service_without_key failedWith_def Let_def)

lemma tryOn_without_key:
  assumes "\<not> truthy key"
    and "garmentMode = Single \<and> garmentImage \<noteq> None
         \<or> garmentMode = Multiple \<and> multipleGarments \<noteq> []"
  shows "uploadedModel \<noteq> None \<Longrightarrow>
         handleGenerateClick_VirtualTryOn key Upload uploadedModel selectedModelUrl garmentMode
           garmentImage multipleGarments p
           = (Finished, failedWith (js ''Generation failed: API_KEY not set.'') p)"
    and "handleGenerateClick_VirtualTryOn key Default uploadedModel selectedModelUrl garmentMode
           garmentImage multipleGarments p
           = (AwaitFetch selectedModelUrl,
              p\<lparr>isLoading_Panel := True, error_Panel := None, result_Panel := None\<rparr>)"
    and "handleGenerateClick_VirtualTryOn_resume key (Inr imageFile) garmentMode garmentImage
           multipleGarments
           (p\<lparr>isLoading_Panel := True, error_Panel := None, result_Panel := None\<rparr>)
           = (Finished, failedWith (js ''Generation failed: API_KEY not set.'') p)"
  using assms
  by (auto simp add: handleGenerateClick_VirtualTryOn_def
      handleGenerateClick_VirtualTryOn_resume_def handleGenerateClick_tryOn_def
      service_without_key errorMessage_def messages_joined failedWith_def Let_def)

lemma not_found_eval:
  "\<not> includes_str (js ''API_KEY not set.'') (js ''entity was not found'')"
  by (simp add: js_def)

lemma swap_without_key:
  assumes "\<not> truthy key" and "sourceFace \<noteq> None" and "targetImage \<noteq> None"
  shows "handleSwapClick key errorKey openSelectKey True sourceFace targetImage p
           = (Finished, failedWith (js ''Error: API_KEY not set.'') p)"
    and "handleSwapClick key errorKey openSelectKey False sourceFace targetImage p
           = (if openSelectKey then AwaitKeySelection else Finished,
              p\<lparr>error_Panel := Some errorKey\<rparr>)"
  using assms
  by (auto simp add: handleSwapClick_def service_without_key messages_joined not_found_eval
      failedWith_def Let_def)

text \<open>
  Claim C8 asks that on every remote-call path a missing credential ends in an error the
  user sees. The voice preview of the text-to-speech component calls \<open>generateSpeech\<close>,
  which throws, and the handler's \<open>catch\<close> only writes to the console: the component's
  state, and with it what the user sees, is as before the click.
\<close>

theorem preview_failure_is_not_shown:
  "generateSpeech None = Rejected (ErrorWith (js ''API_KEY not set.''))
   \<and> handlePreview None initialTTS = (Finished, initialTTS)
   \<and> error_TTS (snd (handlePreview None initialTTS)) = None"
  by (simp add: handlePreview_def service_without_key key_truthy initialTTS_def Let_def)

text \<open>
  Claim C8 for every path but the voice preview: when the credential is undefined or
  empty,
  \<^item> every generation function of the service throws an explicit error before it sends
    its request;
  \<^item> both streaming starts end at once, idle again, with the failure message in the
    error state that the component renders, having asked for no microphone, created no
    browser object, opened no session and acquired no stream;
  \<^item> every handler that calls a generation function with its inputs in place ends at
    once, not busy, with the message in the error state that its panel renders: the
    speech panel, the editor, the effects, the three modes of the reference generator, the
    upscaler, the prompt extractor, the resizer in its AI mode, the try-on and the face
    swap. Two of them are suspended once before they reach the call, and show the message
    when resumed: the text-to-image mode at the key selection of the hosting page, for
    the aspect ratio \<open>4096x832\<close>, and the try-on at the fetch of its preset model image.
    The face swap calls the service only when a key was selected on the hosting page;
    otherwise it shows the message of the translation table.
\<close>

theorem missing_credential_fails_fast:
  "(\<not> truthy key
      \<longrightarrow> extractPromptFromImage key
            = Rejected (ErrorWith (js ''API_KEY environment variable not set.''))
        \<and> generativeResize key = Rejected (ErrorWith (js ''API_KEY not set.''))
        \<and> editImage key = Rejected (ErrorWith (js ''API_KEY not set.''))
        \<and> faceSwap key = Rejected (ErrorWith (js ''API_KEY not set.''))
        \<and> generateImageFromText key aspectRatio = Rejected (ErrorWith (js ''API_KEY not set.''))
        \<and> generateSpeech key = Rejected (ErrorWith (js ''API_KEY not set.''))
        \<and> upscaleImage key = Rejected (ErrorWith (js ''API_KEY not set.''))
        \<and> generateImageFromElements key = Rejected (ErrorWith (js ''API_KEY not set.''))
        \<and> restyleImage key = Rejected (ErrorWith (js ''API_KEY not set.''))
        \<and> virtualTryOn key = Rejected (ErrorWith (js ''API_KEY not set.''))
        \<and> virtualTryOnMultiple key = Rejected (ErrorWith (js ''API_KEY not set.'')))
   \<and> (\<not> truthy (API_KEY s)
      \<longrightarrow> fst (handleStart Idle s) = Finished
        \<and> status (snd (handleStart Idle s)) = Idle
        \<and> error (snd (handleStart Idle s))
            = Some (js ''Failed to start conversation: API_KEY environment variable not set.'')
        \<and> nextHandle (snd (handleStart Idle s)) = nextHandle s
        \<and> pendingUserMedia (snd (handleStart Idle s)) = pendingUserMedia s
        \<and> openSessions (snd (handleStart Idle s)) \<subseteq> openSessions s
        \<and> liveStreams (snd (handleStart Idle s)) \<subseteq> liveStreams s)
   \<and> (\<not> truthy (API_KEY r)
      \<longrightarrow> fst (handleStartRecording False r) = Finished
        \<and> \<not> isRecording (snd (handleStartRecording False r))
        \<and> error (snd (handleStartRecording False r))
            = Some (js ''Failed to start recording: API_KEY environment variable not set.'')
        \<and> nextHandle (snd (handleStartRecording False r)) = nextHandle r
        \<and> pendingUserMedia (snd (handleStartRecording False r)) = pendingUserMedia r
        \<and> openSessions (snd (handleStartRecording False r)) \<subseteq> openSessions r
        \<and> liveStreams (snd (handleStartRecording False r)) \<subseteq> liveStreams r)
   \<and> (\<not> truthy key \<and> text_TTS t \<noteq> []
      \<longrightarrow> handleGenerateSpeech key t
            = (Finished,
               t\<lparr>isLoading := False,
                 error_TTS := Some (js ''Speech generation failed: API_KEY not set.''),
                 audioUrl := None\<rparr>))
   \<and> (\<not> truthy key \<and> originalImage \<noteq> None \<and> prompt \<noteq> []
      \<longrightarrow> handleGenerateClick_ImageEditor key originalImage prompt p
            = (Finished, failedWith (js ''Generation failed: API_KEY not set.'') p))
   \<and> (\<not> truthy key \<and> originalImage \<noteq> None \<and> selectedEffect \<noteq> None
      \<longrightarrow> handleGenerateClick_ImageEffects key originalImage selectedEffect p
            = (Finished, failedWith (js ''Generation failed: API_KEY not set.'') p))
   \<and> (\<not> truthy key \<and> (subjectImages \<noteq> [] \<or> sceneImages \<noteq> [] \<or> styleImages \<noteq> [])
      \<longrightarrow> handleGenerate key subjectImages sceneImages styleImages p
            = (Finished, failedWith (js ''Generation failed: API_KEY not set.'') p))
   \<and> (\<not> truthy key \<and> restyleOriginalImage \<noteq> [] \<and> restyleStyleImage \<noteq> []
      \<longrightarrow> handleRestyleGenerate key restyleOriginalImage restyleStyleImage p
            = (Finished, failedWith (js ''Generation failed: API_KEY not set.'') p))
   \<and> (\<not> truthy key \<and> prompt \<noteq> []
      \<longrightarrow> handleTextToImageGenerate key prompt aspectRatio hasSelectedApiKey p
            = (if aspectRatio = js ''4096x832'' \<and> hasSelectedApiKey
               then (AwaitKeySelection,
                     p\<lparr>isLoading_Panel := True, error_Panel := None, result_Panel := None\<rparr>)
               else (Finished, failedWith (js ''Generation failed: API_KEY not set.'') p))
        \<and> handleTextToImageGenerate_resume key aspectRatio
            (p\<lparr>isLoading_Panel := True, error_Panel := None, result_Panel := None\<rparr>)
            = (Finished, failedWith (js ''Generation failed: API_KEY not set.'') p))
   \<and> (\<not> truthy key \<and> originalImage \<noteq> None
      \<longrightarrow> handleUpscaleClick key originalImage p
            = (Finished, failedWith (js ''Upscaling failed: API_KEY not set.'') p))
   \<and> (\<not> truthy key
        \<and> (media = Some (ImageMedia imageFile)
            \<or> media = Some (VideoMedia url) \<and> captureFrame \<noteq> None)
      \<longrightarrow> handleExtract key errorUpload media captureFrame p
            = (Finished,
               p\<lparr>isLoading_Panel := False,
                 error_Panel := Some (js ''API_KEY environment variable not set.''),
                 result_Panel := Some []\<rparr>))
   \<and> (\<not> truthy key \<and> originalImage \<noteq> None
        \<and> parseInt width = Some targetWidth \<and> parseInt height = Some targetHeight
        \<and> 0 < targetWidth \<and> 0 < targetHeight
      \<longrightarrow> handleResize key errorUpload errorDimensions originalImage width height Ai p
            = (Finished, failedWith (js ''API_KEY not set.'') p))
   \<and> (\<not> truthy key
        \<and> (garmentMode = Single \<and> garmentImage \<noteq> None
            \<or> garmentMode = Multiple \<and> multipleGarments \<noteq> [])
      \<longrightarrow> (uploadedModel \<noteq> None
            \<longrightarrow> handleGenerateClick_VirtualTryOn key Upload uploadedModel selectedModelUrl
                  garmentMode garmentImage multipleGarments p
                = (Finished, failedWith (js ''Generation failed: API_KEY not set.'') p))
        \<and> handleGenerateClick_VirtualTryOn key Default uploadedModel selectedModelUrl
             garmentMode garmentImage multipleGarments p
            = (AwaitFetch selectedModelUrl,
               p\<lparr>isLoading_Panel := True, error_Panel := None, result_Panel := None\<rparr>)
        \<and> handleGenerateClick_VirtualTryOn_resume key (Inr imageFile) garmentMode
             garmentImage multipleGarments
             (p\<lparr>isLoading_Panel := True, error_Panel := None, result_Panel := None\<rparr>)
            = (Finished, failedWith (js ''Generation failed: API_KEY not set.'') p))
   \<and> (\<not> truthy key \<and> sourceFace \<noteq> None \<and> targetImage \<noteq> None
      \<longrightarrow> handleSwapClick key errorKey openSelectKey True sourceFace targetImage q
            = (Finished, failedWith (js ''Error: API_KEY not set.'') q)
        \<and> handleSwapClick key errorKey openSelectKey False sourceFace targetImage q
            = (if openSelectKey then AwaitKeySelection else Finished,
               q\<lparr>error_Panel := Some errorKey\<rparr>))"
proof (intro conjI impI)
  assume k: "\<not> truthy key"
  show "extractPromptFromImage key
            = Rejected (ErrorWith (js ''API_KEY environment variable not set.''))"
    "generativeResize key = Rejected (ErrorWith (js ''API_KEY not set.''))"
    "editImage key = Rejected (ErrorWith (js ''API_KEY not set.''))"
    "faceSwap key = Rejected (ErrorWith (js ''API_KEY not set.''))"
    "generateImageFromText key aspectRatio = Rejected (ErrorWith (js ''API_KEY not set.''))"
    "generateSpeech key = Rejected (ErrorWith (js ''API_KEY not set.''))"
    "upscaleImage key = Rejected (ErrorWith (js ''API_KEY not set.''))"
    "generateImageFromElements key = Rejected (ErrorWith (js ''API_KEY not set.''))"
    "restyleImage key = Rejected (ErrorWith (js ''API_KEY not set.''))"
    "virtualTryOn key = Rejected (ErrorWith (js ''API_KEY not set.''))"
    "virtualTryOnMultiple key = Rejected (ErrorWith (js ''API_KEY not set.''))"
    by (rule service_without_key [OF k])+
next
  assume k: "\<not> truthy (API_KEY s)"
  show "fst (handleStart Idle s) = Finished"
    "status (snd (handleStart Idle s)) = Idle"
    "error (snd (handleStart Idle s))
            = Some (js ''Failed to start conversation: API_KEY environment variable not set.'')"
    "nextHandle (snd (handleStart Idle s)) = nextHandle s"
    "pendingUserMedia (snd (handleStart Idle s)) = pendingUserMedia s"
    "openSessions (snd (handleStart Idle s)) \<subseteq> openSessions s"
    "liveStreams (snd (handleStart Idle s)) \<subseteq> liveStreams s"
    by (rule handleStart_without_key [OF k])+
next
  assume k: "\<not> truthy (API_KEY r)"
  show "fst (handleStartRecording False r) = Finished"
    "\<not> isRecording (snd (handleStartRecording False r))"
    "error (snd (handleStartRecording False r))
            = Some (js ''Failed to start recording: API_KEY environment variable not set.'')"
    "nextHandle (snd (handleStartRecording False r)) = nextHandle r"
    "pendingUserMedia (snd (handleStartRecording False r)) = pendingUserMedia r"
    "openSessions (snd (handleStartRecording False r)) \<subseteq> openSessions r"
    "liveStreams (snd (handleStartRecording False r)) \<subseteq> liveStreams r"
    by (rule handleStartRecording_without_key [OF k])+
next
  assume "\<not> truthy key \<and> text_TTS t \<noteq> []"
  then show "handleGenerateSpeech key t
            = (Finished,
               t\<lparr>isLoading := False,
                 error_TTS := Some (js ''Speech generation failed: API_KEY not set.''),
                 audioUrl := None\<rparr>)"
    by (simp add: handleGenerateSpeech_without_key)
next
  assume "\<not> truthy key \<and> originalImage \<noteq> None \<and> prompt \<noteq> []"
  then show "handleGenerateClick_ImageEditor key originalImage prompt p
            = (Finished, failedWith (js ''Generation failed: API_KEY not set.'') p)"
    by (simp add: editor_without_key(1))
next
  assume "\<not> truthy key \<and> originalImage \<noteq> None \<and> selectedEffect \<noteq> None"
  then show "handleGenerateClick_ImageEffects key originalImage selectedEffect p
            = (Finished, failedWith (js ''Generation failed: API_KEY not set.'') p)"
    by (simp add: editor_without_key(2))
next
  assume "\<not> truthy key \<and> (subjectImages \<noteq> [] \<or> sceneImages \<noteq> [] \<or> styleImages \<noteq> [])"
  then show "handleGenerate key subjectImages sceneImages styleImages p
            = (Finished, failedWith (js ''Generation failed: API_KEY not set.'') p)"
    by (simp add: reference_without_key(1))
next
  assume "\<not> truthy key \<and> restyleOriginalImage \<noteq> [] \<and> restyleStyleImage \<noteq> []"
  then show "handleRestyleGenerate key restyleOriginalImage restyleStyleImage p
            = (Finished, failedWith (js ''Generation failed: API_KEY not set.'') p)"
    by (simp add: reference_without_key(2))
next
  assume h: "\<not> truthy key \<and> prompt \<noteq> []"
  then have k: "\<not> truthy key" and n: "prompt \<noteq> []" by simp_all
  show "handleTextToImageGenerate key prompt aspectRatio hasSelectedApiKey p
            = (if aspectRatio = js ''4096x832'' \<and> hasSelectedApiKey
               then (AwaitKeySelection,
                     p\<lparr>isLoading_Panel := True, error_Panel := None, result_Panel := None\<rparr>)
               else (Finished, failedWith (js ''Generation failed: API_KEY not set.'') p))"
    using k n by (rule textToImage_without_key(1))
  show "handleTextToImageGenerate_resume key aspectRatio
            (p\<lparr>isLoading_Panel := True, error_Panel := None, result_Panel := None\<rparr>)
            = (Finished, failedWith (js ''Generation failed: API_KEY not set.'') p)"
    using k n by (rule textToImage_without_key(2))
next
  assume "\<not> truthy key \<and> originalImage \<noteq> None"
  then show "handleUpscaleClick key originalImage p
            = (Finished, failedWith (js ''Upscaling failed: API_KEY not set.'') p)"
    by (simp add: editor_without_key(3))
next
  assume "\<not> truthy key
        \<and> (media = Some (ImageMedia imageFile)
            \<or> media = Some (VideoMedia url) \<and> captureFrame \<noteq> None)"
  then have k: "\<not> truthy key"
    and m: "media = Some (ImageMedia imageFile)
            \<or> media = Some (VideoMedia url) \<and> captureFrame \<noteq> None"
    by simp_all
  from k m show "handleExtract key errorUpload media captureFrame p
            = (Finished,
               p\<lparr>isLoading_Panel := False,
                 error_Panel := Some (js ''API_KEY environment variable not set.''),
                 result_Panel := Some []\<rparr>)"
    by (rule extract_without_key)
next
  assume "\<not> truthy key \<and> originalImage \<noteq> None
        \<and> parseInt width = Some targetWidth \<and> parseInt height = Some targetHeight
        \<and> 0 < targetWidth \<and> 0 < targetHeight"
  then show "handleResize key errorUpload errorDimensions originalImage width height Ai p
            = (Finished, failedWith (js ''API_KEY not set.'') p)"
    by (simp add: resize_without_key(1))
next
  assume "\<not> truthy key
        \<and> (garmentMode = Single \<and> garmentImage \<noteq> None
            \<or> garmentMode = Multiple \<and> multipleGarments \<noteq> [])"
  then have k: "\<not> truthy key"
    and g: "garmentMode = Single \<and> garmentImage \<noteq> None
            \<or> garmentMode = Multiple \<and> multipleGarments \<noteq> []"
    by simp_all
  show "handleGenerateClick_VirtualTryOn key Upload uploadedModel selectedModelUrl
                  garmentMode garmentImage multipleGarments p
                = (Finished, failedWith (js ''Generation failed: API_KEY not set.'') p)"
    if "uploadedModel \<noteq> None"
    using k g that by (rule tryOn_without_key(1))
  show "handleGenerateClick_VirtualTryOn key Default uploadedModel selectedModelUrl
             garmentMode garmentImage multipleGarments p
            = (AwaitFetch selectedModelUrl,
               p\<lparr>isLoading_Panel := True, error_Panel := None, result_Panel := None\<rparr>)"
    using k g by (rule tryOn_without_key(2))
  show "handleGenerateClick_VirtualTryOn_resume key (Inr imageFile) garmentMode
             garmentImage multipleGarments
             (p\<lparr>isLoading_Panel := True, error_Panel := None, result_Panel := None\<rparr>)
            = (Finished, failedWith (js ''Generation failed: API_KEY not set.'') p)"
    using k g by (rule tryOn_without_key(3))
next
  assume "\<not> truthy key \<and> sourceFace \<noteq> None \<and> targetImage \<noteq> None"
  then have k: "\<not> truthy key" and a: "sourceFace \<noteq> None" and b: "targetImage \<noteq> None"
    by simp_all
  show "handleSwapClick key errorKey openSelectKey True sourceFace targetImage q
            = (Finished, failedWith (js ''Error: API_KEY not set.'') q)"
    using k a b by (rule swap_without_key(1))
  show "handleSwapClick key errorKey openSelectKey False sourceFace targetImage q
            = (if openSelectKey then AwaitKeySelection else Finished,
               q\<lparr>error_Panel := Some errorKey\<rparr>)"
    using k a b by (rule swap_without_key(2))
qed

lemma parseInt_eval:
  "parseInt (js ''800'') = Some 800"
  "parseInt (js ''600'') = Some 600"
  "parseInt (js '' -5px'') = Some (- 5)"
  "parseInt (js ''px'') = None"
  "parseInt [] = None"
  by (simp_all add: parseInt_def isWhiteSpace_def isDigit_def js_def)

theorem missing_credential_fails_fast_witness:
  "\<not> truthy None
   \<and> \<not> truthy (API_KEY (initialConversation None))
   \<and> \<not> truthy (API_KEY (initialTranscriber None))
   \<and> text_TTS (initialTTS\<lparr>text_TTS := js ''hello''\<rparr>) \<noteq> []
   \<and> Some sampleImage \<noteq> None \<and> js ''hello'' \<noteq> [] \<and> [sampleImage] \<noteq> []
   \<and> parseInt (js ''800'') = Some 800 \<and> parseInt (js ''600'') = Some 600
   \<and> editImage None = Rejected (ErrorWith (js ''API_KEY not set.''))
   \<and> error (snd (handleStart Idle (initialConversation None)))
       = Some (js ''Failed to start conversation: API_KEY environment variable not set.'')
   \<and> pendingUserMedia (snd (handleStart Idle (initialConversation None))) = 0
   \<and> error (snd (handleStartRecording False (initialTranscriber None)))
       = Some (js ''Failed to start recording: API_KEY environment variable not set.'')
   \<and> openSessions (snd (handleStartRecording False (initialTranscriber None))) = {}
   \<and> error_TTS (snd (handleGenerateSpeech None (initialTTS\<lparr>text_TTS := js ''hello''\<rparr>)))
       = Some (js ''Speech generation failed: API_KEY not set.'')
   \<and> handleGenerateClick_ImageEditor None (Some sampleImage) (js ''hello'') initialPanel
       = (Finished, failedWith (js ''Generation failed: API_KEY not set.'') initialPanel)
   \<and> error_Panel (failedWith (js ''Generation failed: API_KEY not set.'') initialPanel)
       = Some (js ''Generation failed: API_KEY not set.'')
   \<and> handleGenerateClick_ImageEffects None (Some sampleImage) (Some (js ''hello''))
         initialPanel
       = (Finished, failedWith (js ''Generation failed: API_KEY not set.'') initialPanel)
   \<and> handleGenerate None [sampleImage] [] [] initialPanel
       = (Finished, failedWith (js ''Generation failed: API_KEY not set.'') initialPanel)
   \<and> handleRestyleGenerate None [sampleImage] [sampleImage] initialPanel
       = (Finished, failedWith (js ''Generation failed: API_KEY not set.'') initialPanel)
   \<and> handleTextToImageGenerate None (js ''hello'') (js ''1:1'') False initialPanel
       = (Finished, failedWith (js ''Generation failed: API_KEY not set.'') initialPanel)
   \<and> handleUpscaleClick None (Some sampleImage) initialPanel
       = (Finished, failedWith (js ''Upscaling failed: API_KEY not set.'') initialPanel)
   \<and> error_Panel (snd (handleExtract None [] (Some (ImageMedia sampleImage)) None
                         initialPanel))
       = Some (js ''API_KEY environment variable not set.'')
   \<and> handleResize None [] [] (Some sampleImage) (js ''800'') (js ''600'') Ai initialPanel
       = (Finished, failedWith (js ''API_KEY not set.'') initialPanel)
   \<and> handleGenerateClick_VirtualTryOn None Upload (Some sampleImage) [] Single
         (Some sampleImage) [] initialPanel
       = (Finished, failedWith (js ''Generation failed: API_KEY not set.'') initialPanel)
   \<and> fst (handleGenerateClick_VirtualTryOn None Default (Some sampleImage) [] Single
            (Some sampleImage) [] initialPanel) = AwaitFetch []
   \<and> handleGenerateClick_VirtualTryOn_resume None (Inr sampleImage) Single (Some sampleImage) []
         (snd (handleGenerateClick_VirtualTryOn None Default (Some sampleImage) [] Single
                 (Some sampleImage) [] initialPanel))
       = (Finished, failedWith (js ''Generation failed: API_KEY not set.'') initialPanel)
   \<and> handleSwapClick None [] False True (Some sampleImage) (Some sampleImage) initialFaceSwap
       = (Finished, failedWith (js ''Error: API_KEY not set.'') initialFaceSwap)"
proof -
  let ?t = "initialTTS\<lparr>text_TTS := js ''hello''\<rparr>"
  let ?s = "initialConversation None"
  let ?r = "initialTranscriber None"
  let ?p = "initialPanel"
  let ?p1 = "initialPanel\<lparr>isLoading_Panel := True, error_Panel := None, result_Panel := None\<rparr>"
  let ?ok = "failedWith (js ''Generation failed: API_KEY not set.'') initialPanel"
  have h: "\<not> truthy None" "\<not> truthy (API_KEY ?s)" "\<not> truthy (API_KEY ?r)"
    "text_TTS ?t \<noteq> []" "Some sampleImage \<noteq> None" "js ''hello'' \<noteq> []"
    "[sampleImage] \<noteq> []" "Some (js ''hello'') \<noteq> None"
    "js ''1:1'' \<noteq> js ''4096x832''" "(0 :: int) < 800" "(0 :: int) < 600"
    by (simp_all add: key_truthy initialConversation_fields initialTranscriber_def tts_fields
        js_def)
  note h = h parseInt_eval(1,2)
  note T = missing_credential_fails_fast
    [where key = None and s = ?s and r = ?r and t = ?t and originalImage = "Some sampleImage"
       and prompt = "js ''hello''" and p = ?p and selectedEffect = "Some (js ''hello'')"
       and subjectImages = "[sampleImage]" and sceneImages = "[]" and styleImages = "[]"
       and restyleOriginalImage = "[sampleImage]" and restyleStyleImage = "[sampleImage]"
       and aspectRatio = "js ''1:1''" and hasSelectedApiKey = False
       and media = "Some (ImageMedia sampleImage)" and imageFile = sampleImage
       and captureFrame = None and errorUpload = "[]" and errorDimensions = "[]"
       and width = "js ''800''" and height = "js ''600''" and targetWidth = 800
       and targetHeight = 600 and garmentMode = Single and garmentImage = "Some sampleImage"
       and multipleGarments = "[]" and uploadedModel = "Some sampleImage"
       and selectedModelUrl = "[]" and sourceFace = "Some sampleImage"
       and targetImage = "Some sampleImage" and errorKey = "[]" and openSelectKey = False
       and q = initialFaceSwap]
  from T h
  have e: "editImage None = Rejected (ErrorWith (js ''API_KEY not set.''))
     \<and> error (snd (handleStart Idle ?s))
         = Some (js ''Failed to start conversation: API_KEY environment variable not set.'')
     \<and> pendingUserMedia (snd (handleStart Idle ?s)) = pendingUserMedia ?s
     \<and> error (snd (handleStartRecording False ?r))
         = Some (js ''Failed to start recording: API_KEY environment variable not set.'')
     \<and> openSessions (snd (handleStartRecording False ?r)) \<subseteq> openSessions ?r
     \<and> handleGenerateSpeech None ?t
         = (Finished,
            ?t\<lparr>isLoading := False,
              error_TTS := Some (js ''Speech generation failed: API_KEY not set.''),
              audioUrl := None\<rparr>)
     \<and> handleGenerateClick_ImageEditor None (Some sampleImage) (js ''hello'') ?p
         = (Finished, ?ok)
     \<and> handleGenerateClick_ImageEffects None (Some sampleImage) (Some (js ''hello'')) ?p
         = (Finished, ?ok)
     \<and> handleGenerate None [sampleImage] [] [] ?p = (Finished, ?ok)
     \<and> handleRestyleGenerate None [sampleImage] [sampleImage] ?p = (Finished, ?ok)
     \<and> handleTextToImageGenerate None (js ''hello'') (js ''1:1'') False ?p
         = (if js ''1:1'' = js ''4096x832'' \<and> False then (AwaitKeySelection, ?p1)
            else (Finished, ?ok))
     \<and> handleUpscaleClick None (Some sampleImage) ?p
         = (Finished, failedWith (js ''Upscaling failed: API_KEY not set.'') ?p)
     \<and> handleExtract None [] (Some (ImageMedia sampleImage)) None ?p
         = (Finished,
            ?p\<lparr>isLoading_Panel := False,
              error_Panel := Some (js ''API_KEY environment variable not set.''),
              result_Panel := Some []\<rparr>)
     \<and> handleResize None [] [] (Some sampleImage) (js ''800'') (js ''600'') Ai ?p
         = (Finished, failedWith (js ''API_KEY not set.'') ?p)
     \<and> handleGenerateClick_VirtualTryOn None Upload (Some sampleImage) [] Single
           (Some sampleImage) [] ?p = (Finished, ?ok)
     \<and> handleGenerateClick_VirtualTryOn None Default (Some sampleImage) [] Single
           (Some sampleImage) [] ?p = (AwaitFetch [], ?p1)
     \<and> handleGenerateClick_VirtualTryOn_resume None (Inr sampleImage) Single
           (Some sampleImage) [] ?p1 = (Finished, ?ok)
     \<and> handleSwapClick None [] False True (Some sampleImage) (Some sampleImage)
           initialFaceSwap
         = (Finished, failedWith (js ''Error: API_KEY not set.'') initialFaceSwap)"
    by blast
  have f: "error_Panel ?ok = Some (js ''Generation failed: API_KEY not set.'')"
    by (simp add: failedWith_def)
  from h e f show ?thesis
    by (simp add: initialConversation_fields initialTranscriber_def)
qed

subsection \<open>The bytes of the container\<close>

lemma take_setUint8: "take n (setUint8 i v view) = setUint8 i v (take n view)"
  by (simp add: setUint8_def take_update_swap)

lemma take_setUint16: "take n (setUint16 i v view) = setUint16 i v (take n view)"
  by (simp add: setUint16_def take_update_swap Let_def)

lemma take_setUint32: "take n (setUint32 i v view) = setUint32 i v (take n view)"
  by (simp add: setUint32_def take_update_swap Let_def)

lemma writeString4:
  "writeString i [a, b, c, d] view
     = setUint8 (i + 3) (of_char d) (setUint8 (i + 2) (of_char c)
         (setUint8 (i + 1) (of_char b) (setUint8 i (of_char a) view)))"
  by (simp add: writeString_def upt_rec [of 0] upt_rec [of 1] upt_rec [of 2] upt_rec [of 3]
      upt_rec [of 4] eval_nat_numeral)

lemma take_writeString4:
  "take n (writeString i [a, b, c, d] view) = writeString i [a, b, c, d] (take n view)"
  by (simp add: writeString4 take_setUint8)

lemma zeros44:
  "replicate 44 (0 :: byte)
     = [0,0,0,0, 0,0,0,0, 0,0,0,0, 0,0,0,0, 0,0,0,0, 0,0,0,0, 0,0,0,0, 0,0,0,0, 0,0,0,0,
        0,0,0,0, 0,0,0,0]"
  by (simp add: eval_nat_numeral)


lemma length_writes:
  "length (setUint8 i v view) = length view"
  "length (setUint16 i v view) = length view"
  "length (setUint32 i v view) = length view"
  "length (writeString i [a, b, c, d] view) = length view"
  by (simp_all add: setUint8_def setUint16_def setUint32_def writeString4 Let_def)

lemma update_Cons_numeral:
  "(x # xs)[numeral k := y] = x # xs[pred_numeral k := y]"
  by (simp add: numeral_eq_Suc)

lemma wavBuffer_split:
  "wavBuffer pcm
     = take 44 (setUint32 40 (length pcm) (writeString 36 ''data'' (setUint16 34 16
         (setUint16 32 2 (setUint32 28 48000 (setUint32 24 24000 (setUint16 22 1
         (setUint16 20 1 (setUint32 16 16 (writeString 12 ''fmt '' (writeString 8 ''WAVE''
         (setUint32 4 (36 + length pcm) (writeString 0 ''RIFF''
            (replicate (44 + length pcm) 0))))))))))))))
       @ pcm"
  by (simp add: wavBuffer_def Let_def setBytes_def length_writes)


lemma bytes_of_wrapped:
  fixes v :: nat
  shows "v mod 4294967296 mod 256 = v mod 256"
    and "v mod 4294967296 div 256 mod 256 = v div 256 mod 256"
    and "v mod 4294967296 div 65536 mod 256 = v div 65536 mod 256"
    and "v mod 4294967296 div 16777216 = v div 16777216 mod 256"
proof -
  have "take_bit 8 (take_bit 32 v) = take_bit 8 v"
    by simp
  then show "v mod 4294967296 mod 256 = v mod 256"
    by (simp add: take_bit_eq_mod)
  have "take_bit 8 (drop_bit 8 (take_bit 32 v)) = take_bit 8 (drop_bit 8 v)"
    by (simp add: drop_bit_take_bit)
  then show "v mod 4294967296 div 256 mod 256 = v div 256 mod 256"
    by (simp add: take_bit_eq_mod drop_bit_eq_div)
  have "take_bit 8 (drop_bit 16 (take_bit 32 v)) = take_bit 8 (drop_bit 16 v)"
    by (simp add: drop_bit_take_bit)
  then show "v mod 4294967296 div 65536 mod 256 = v div 65536 mod 256"
    by (simp add: take_bit_eq_mod drop_bit_eq_div)
  have "drop_bit 24 (take_bit 32 v) = take_bit 8 (drop_bit 24 v)"
    by (simp add: drop_bit_take_bit)
  then show "v mod 4294967296 div 16777216 = v div 16777216 mod 256"
    by (simp add: take_bit_eq_mod drop_bit_eq_div)
qed

lemma wavBuffer_header: "wavBuffer pcm = wavHeader (length pcm) @ pcm"
  unfolding wavBuffer_split
  apply (simp only: take_setUint32 take_setUint16 take_writeString4 take_replicate)
  apply (simp add: zeros44 writeString4 setUint8_def setUint16_def setUint32_def Let_def
      update_Cons_numeral wavHeader_def le32_def le16_def ascii_def bytes_of_wrapped)
  done

lemma le32_sum:
  fixes v :: nat
  shows "v mod 256 + 256 * (v div 256 mod 256) + 65536 * (v div 65536 mod 256)
          + 16777216 * (v div 16777216 mod 256) = v mod 4294967296"
proof -
  have a: "v mod 65536 = 256 * (v div 256 mod 256) + v mod 256"
    using mod_mult2_eq [of v 256 256] by simp
  have b: "v mod 16777216 = 65536 * (v div 65536 mod 256) + v mod 65536"
    using mod_mult2_eq [of v 65536 256] by simp
  have c: "v mod 4294967296 = 16777216 * (v div 16777216 mod 256) + v mod 16777216"
    using mod_mult2_eq [of v 16777216 256] by simp
  show ?thesis
    unfolding c b a by simp
qed

lemma le16_sum:
  fixes v :: nat
  shows "v mod 256 + 256 * (v div 256 mod 256) = v mod 65536"
  using mod_mult2_eq [of v 256 256] by simp

lemma unat_byte: "unat (of_nat (v mod 256) :: byte) = v mod 256"
  by (simp add: unat_of_nat)

lemma header_fields:
  "length (wavHeader n) = 44"
  "take 4 (wavHeader n) = ascii ''RIFF''"
  "getUint32 4 (wavHeader n @ pcm) = (36 + n) mod 4294967296"
  "getUint16 20 (wavHeader n @ pcm) = 1"
  "getUint16 22 (wavHeader n @ pcm) = 1"
  "getUint32 24 (wavHeader n @ pcm) = 24000"
  "getUint32 28 (wavHeader n @ pcm) = 48000"
  "getUint16 32 (wavHeader n @ pcm) = 2"
  "getUint16 34 (wavHeader n @ pcm) = 16"
  "getUint32 40 (wavHeader n @ pcm) = n mod 4294967296"
  by (simp_all add: wavHeader_def le32_def le16_def ascii_def getUint32_def getUint16_def
      unat_byte le32_sum)

lemma atob_eval: "atob (js ''AIAAAA=='') = Inr [0, 128, 0, 0]"
  by (simp add: atob_def stripPadding_def b64val_def isAsciiWhitespace_def js_def)

lemma length_atob_groups: "length (atob_groups vs) \<le> length vs"
  by (induction vs rule: atob_groups.induct) simp_all

lemma length_those_vals: "those_vals d = Some vs \<Longrightarrow> length vs = length d"
  by (induction d arbitrary: vs) (auto split: option.splits)

lemma length_stripPadding: "length (stripPadding d) \<le> length d"
  by (auto simp add: stripPadding_def split: list.splits)

text \<open>The decoded binary string is no longer than the base64 text.\<close>

lemma atob_length:
  assumes "atob b = Inr bs"
  shows "length bs \<le> length b"
proof -
  let ?d = "stripPadding (filter (\<lambda>c. \<not> isAsciiWhitespace c) b)"
  from assms obtain vs where vs: "those_vals ?d = Some vs"
    and bs: "bs = map of_nat (atob_groups vs)"
    by (auto simp add: atob_def Let_def split: if_splits option.splits)
  have "length bs \<le> length vs"
    by (simp add: bs length_atob_groups)
  also have "length vs = length ?d"
    using vs by (rule length_those_vals)
  also have "length ?d \<le> length (filter (\<lambda>c. \<not> isAsciiWhitespace c) b)"
    by (rule length_stripPadding)
  also have "\<dots> \<le> length b"
    by (rule length_filter_le)
  finally show ?thesis .
qed

subsection \<open>Claim C9: the container header\<close>

text \<open>
  Claim C9: the payload is what \<open>atob\<close> decodes from the base64 text, a JavaScript
  string, and is no longer than that text; a string of a JavaScript engine has fewer than
  \<open>2 ^ 31\<close> code units. For every such text that decodes, with \<open>N\<close> the length of the
  payload, \<open>createWavUrl\<close> produces the 44-byte header followed by the payload; the
  header starts with the RIFF tag and declares the RIFF chunk size \<open>36 + N\<close>, the data
  chunk size \<open>N\<close>, format code 1, one channel, 24000 Hz, byte rate 48000, block align 2
  and 16 bits per sample.
\<close>

theorem container_header:
  assumes "atob base64PcmData = Inr binaryString"
    and "length base64PcmData < 2147483648"
  shows "createWavUrl base64PcmData
           = Inr (wavHeader (length binaryString) @ map ucast binaryString)
    \<and> length (wavHeader (length binaryString)) = 44
    \<and> take 4 (wavHeader (length binaryString)) = ascii ''RIFF''
    \<and> getUint32 4 (wavHeader (length binaryString) @ map ucast binaryString)
        = 36 + length binaryString
    \<and> getUint32 40 (wavHeader (length binaryString) @ map ucast binaryString)
        = length binaryString
    \<and> getUint16 20 (wavHeader (length binaryString) @ map ucast binaryString) = 1
    \<and> getUint16 32 (wavHeader (length binaryString) @ map ucast binaryString) = 2
    \<and> getUint32 28 (wavHeader (length binaryString) @ map ucast binaryString) = 48000
    \<and> getUint32 24 (wavHeader (length binaryString) @ map ucast binaryString) = 24000
    \<and> getUint16 22 (wavHeader (length binaryString) @ map ucast binaryString) = 1
    \<and> getUint16 34 (wavHeader (length binaryString) @ map ucast binaryString) = 16"
proof -
  have eq: "createWavUrl base64PcmData
           = Inr (wavHeader (length binaryString) @ map ucast binaryString)"
    using assms(1) by (simp add: createWavUrl_def wavBuffer_header)
  from atob_length [OF assms(1)] assms(2)
  have n: "36 + length binaryString < 4294967296"
    by simp
  then have "length binaryString < 4294967296"
    by simp
  with eq n show ?thesis
    by (simp add: header_fields)
qed

theorem container_header_witness:
  "atob (js ''AIAAAA=='') = Inr [0, 128, 0, 0]
   \<and> length (js ''AIAAAA=='') < 2147483648
   \<and> createWavUrl (js ''AIAAAA=='')
       = Inr [82, 73, 70, 70, 40, 0, 0, 0, 87, 65, 86, 69,
              102, 109, 116, 32, 16, 0, 0, 0, 1, 0, 1, 0,
              192, 93, 0, 0, 128, 187, 0, 0, 2, 0, 16, 0,
              100, 97, 116, 97, 4, 0, 0, 0,
              0, 128, 0, 0]
   \<and> getUint32 4 (wavHeader 4 @ [0, 128, 0, 0]) = 40
   \<and> getUint32 40 (wavHeader 4 @ [0, 128, 0, 0]) = 4"
proof -
  have b: "length (js ''AIAAAA=='') < 2147483648"
    by (simp add: js_def)
  from container_header [OF atob_eval b] atob_eval b
  show ?thesis
    by (simp add: wavHeader_def le32_def le16_def ascii_def)
qed

end
